theory Spec2Isabelle
  imports Complex_Main "HOL-Library.Signed_Division"
begin

section \<open>PitchPlease: numbers\<close>

text \<open>
  The detector is one JavaScript file, \<^verbatim>\<open>pitchplease.js\<close>. A JavaScript number is an
  IEEE-754 double; every finite double is a rational, so numbers are modelled as \<^typ>\<open>rat\<close>
  and every operation of the source that can round writes its rounding out. Integer-valued
  quantities (pitch classes, indices, counts) are \<^typ>\<open>int\<close> or \<^typ>\<open>nat\<close>; on them
  the source's arithmetic is exact. NaN and the infinities are outside the model: no
  operation modelled here divides by zero or leaves the range of the doubles.
\<close>

subsection \<open>Integer operators\<close>

text \<open>
  \<^verbatim>\<open>a % b\<close> is the remainder of the division truncated towards zero: its sign is the sign
  of \<open>a\<close>. \<^verbatim>\<open>Math.round(x)\<close> is the integer nearest to \<open>x\<close>, a tie going up.
\<close>

definition js_rem :: "int \<Rightarrow> int \<Rightarrow> int" where
  "js_rem a b = a smod b"

definition Math_round :: "rat \<Rightarrow> int" where
  "Math_round x = \<lfloor>x + 1 / 2\<rfloor>"

subsection \<open>IEEE-754 rounding\<close>

text \<open>
  \<open>round_to p emin x\<close> is \<open>x\<close> rounded to the nearest number with \<open>p\<close> significant bits and
  exponent at least \<open>emin\<close>, a tie going to the even significand: the rounding of every
  double operation (\<open>p = 53\<close>, \<open>emin = -1022\<close>) and of every store into a
  \<^verbatim>\<open>Float32Array\<close> (\<open>p = 24\<close>, \<open>emin = -126\<close>). \<open>bitlen k\<close> is the number of binary
  digits of \<open>k\<close>, \<open>ilog2 x\<close> the exponent \<open>\<lfloor>log\<^sub>2 x\<rfloor>\<close> of a positive \<open>x\<close>, \<open>rne\<close> the
  rounding to the nearest integer with ties to even.
\<close>

function bitlen :: "int \<Rightarrow> int" where
  "bitlen k = (if k \<le> 0 then 0 else 1 + bitlen (k div 2))"
  by pat_completeness auto
termination
  by (relation "measure nat") auto

definition ilog2 :: "rat \<Rightarrow> int" where
  "ilog2 x = (case quotient_of x of (p, q) \<Rightarrow>
     let e = bitlen p - bitlen q
     in if 2 powi e \<le> x then e else e - 1)"

definition rne :: "rat \<Rightarrow> int" where
  "rne x = (let f = \<lfloor>x\<rfloor>; r = x - of_int f
     in if r < 1 / 2 then f else if 1 / 2 < r then f + 1 else if even f then f else f + 1)"

definition round_to :: "nat \<Rightarrow> int \<Rightarrow> rat \<Rightarrow> rat" where
  "round_to p emin x = (if x = 0 then 0 else
     let e = max (ilog2 \<bar>x\<bar>) emin; u = 2 powi (e - int p + 1)
     in of_int (rne (x / u)) * u)"

definition fl64 :: "rat \<Rightarrow> rat" where
  "fl64 = round_to 53 (- 1022)"

definition fl32 :: "rat \<Rightarrow> rat" where
  "fl32 = round_to 24 (- 126)"

text \<open>The four double operations, and the decimal literals of the source that are not doubles.\<close>

definition fadd :: "rat \<Rightarrow> rat \<Rightarrow> rat" where
  "fadd a b = fl64 (a + b)"

definition fsub :: "rat \<Rightarrow> rat \<Rightarrow> rat" where
  "fsub a b = fl64 (a - b)"

definition fmul :: "rat \<Rightarrow> rat \<Rightarrow> rat" where
  "fmul a b = fl64 (a * b)"

definition fdiv :: "rat \<Rightarrow> rat \<Rightarrow> rat" where
  "fdiv a b = fl64 (a / b)"

definition c01 :: rat where
  "c01 = fl64 (1 / 10)"

subsection \<open>Music math\<close>

text \<open>
  \<^verbatim>\<open>
  const NOTE_NAMES = ['C', 'C#', 'D', 'D#', 'E', 'F', 'F#', 'G', 'G#', 'A', 'A#', 'B'];
  function midiToPitchClass(midi) { return Math.round(midi) % 12; }
  \<close>
  Reading \<^verbatim>\<open>NOTE_NAMES[i]\<close> outside \<open>0..11\<close> gives \<^verbatim>\<open>undefined\<close>, here \<open>None\<close>; in a
  string concatenation \<^verbatim>\<open>undefined\<close> reads \<^verbatim>\<open>"undefined"\<close>.
\<close>

definition NOTE_NAMES :: "string list" where
  "NOTE_NAMES = [''C'', ''C#'', ''D'', ''D#'', ''E'', ''F'', ''F#'', ''G'', ''G#'', ''A'', ''A#'', ''B'']"

definition note_at :: "int \<Rightarrow> string option" where
  "note_at i = (if 0 \<le> i \<and> i < int (length NOTE_NAMES) then Some (NOTE_NAMES ! nat i) else None)"

definition str_of :: "string option \<Rightarrow> string" where
  "str_of v = (case v of None \<Rightarrow> ''undefined'' | Some s \<Rightarrow> s)"

definition midiToPitchClass :: "rat \<Rightarrow> int" where
  "midiToPitchClass midi = js_rem (Math_round midi) 12"

section \<open>Chord matching\<close>

text \<open>
  \<^verbatim>\<open>CHORDS\<close> is the catalog, in the source's order: display name, abbreviation, intervals.
  The abbreviation of the half-diminished seventh starts with the character U+00F8.
\<close>

record chord =
  root :: "string option"
  rootPc :: int
  name :: string
  abbrev :: string
  full :: string

definition CHORDS :: "(string \<times> string \<times> int list) list" where
  "CHORDS =
   [(''Major'', '''', [4, 7]),
    (''Minor'', ''m'', [3, 7]),
    (''Dim'', ''dim'', [3, 6]),
    (''Aug'', ''aug'', [4, 8]),
    (''Sus4'', ''sus4'', [5, 7]),
    (''Sus2'', ''sus2'', [2, 7]),
    (''5'', ''5'', [7]),
    (''Maj7'', ''maj7'', [4, 7, 11]),
    (''7'', ''7'', [4, 7, 10]),
    (''m7'', ''m7'', [3, 7, 10]),
    (''m(maj7)'', ''m(maj7)'', [3, 7, 11]),
    (''dim7'', ''dim7'', [3, 6, 9]),
    ([CHR 0xF8, CHR ''7''], [CHR 0xF8, CHR ''7''], [3, 6, 10]),
    (''aug7'', ''aug7'', [4, 8, 10]),
    (''6'', ''6'', [4, 7, 9]),
    (''m6'', ''m6'', [3, 7, 9]),
    (''add9'', ''add9'', [2, 4, 7]),
    (''madd9'', ''madd9'', [2, 3, 7]),
    (''9'', ''9'', [4, 7, 10, 2]),
    (''m9'', ''m9'', [3, 7, 10, 2]),
    (''maj9'', ''maj9'', [4, 7, 11, 2]),
    (''11'', ''11'', [4, 7, 10, 2, 5]),
    (''13'', ''13'', [4, 7, 10, 2, 9])]"

text \<open>
  \<^verbatim>\<open>[...new Set(xs)]\<close> keeps the first occurrence of every element, in insertion order;
  \<^verbatim>\<open>.sort((a, b) => a - b)\<close> sorts numbers in ascending order.
\<close>

definition Set_spread :: "'a list \<Rightarrow> 'a list" where
  "Set_spread xs = fold (\<lambda>x s. if x \<in> set s then s else s @ [x]) xs []"

text \<open>
  \<^verbatim>\<open>
  const intervals = pcs.filter((_, j) => j !== i)
    .map(p => ((p - root) % 12 + 12) % 12)
    .filter(x => x > 0)
    .sort((a, b) => a - b);
  \<close>
\<close>

definition intervals_of :: "int list \<Rightarrow> nat \<Rightarrow> int list" where
  "intervals_of pcs i =
     (let root = pcs ! i
      in sort (filter (\<lambda>x. 0 < x)
           (map (\<lambda>p. js_rem (js_rem (p - root) 12 + 12) 12) (take i pcs @ drop (Suc i) pcs))))"

text \<open>
  \<^verbatim>\<open>score = matches / template.length - (intervals.length - matches) * 0.1\<close>, in double
  arithmetic.
\<close>

definition score_of :: "nat \<Rightarrow> nat \<Rightarrow> nat \<Rightarrow> rat" where
  "score_of matches tlen ilen =
     fsub (fdiv (of_nat matches) (of_nat tlen)) (fmul (of_int (int ilen - int matches)) c01)"

text \<open>The body of the inner loop, on the running \<^verbatim>\<open>(best, bestScore)\<close>.\<close>

definition try_template ::
  "int \<Rightarrow> int list \<Rightarrow> string \<times> string \<times> int list \<Rightarrow> chord option \<times> rat \<Rightarrow> chord option \<times> rat" where
  "try_template r intervals tpl st =
     (case tpl of (nm, ab, template) \<Rightarrow>
      case st of (best, bestScore) \<Rightarrow>
        let matches = length (filter (\<lambda>t. t \<in> set intervals) template);
            score = score_of matches (length template) (length intervals)
        in if bestScore < score
           then (Some \<lparr>root = note_at r, rootPc = r, name = nm, abbrev = ab,
                        full = str_of (note_at r) @ ab\<rparr>, score)
           else (best, bestScore))"

definition try_root :: "int list \<Rightarrow> nat \<Rightarrow> chord option \<times> rat \<Rightarrow> chord option \<times> rat" where
  "try_root pcs i st = fold (try_template (pcs ! i) (intervals_of pcs i)) CHORDS st"

text \<open>
  \<^verbatim>\<open>matchChord(pitchClasses)\<close>; \<^verbatim>\<open>null\<close> and \<^verbatim>\<open>undefined\<close> as argument are \<open>None\<close>, and so
  is the result \<^verbatim>\<open>null\<close>.
\<close>

definition matchChord :: "int list option \<Rightarrow> chord option" where
  "matchChord pitchClasses =
     (case pitchClasses of
        None \<Rightarrow> None
      | Some xs \<Rightarrow>
          if length xs < 2 then None
          else let pcs = sort (Set_spread xs)
               in if length pcs < 2 then None
                  else fst (fold (try_root pcs) [0..<length pcs] (None, 1 / 2)))"

subsection \<open>The matcher as the spec words it\<close>

text \<open>
  The candidates are the pairs of a root (by its index in the sorted set) and a template, in
  ascending-root, then catalog order. The interval set of a root holds the intervals
  \<open>((pc - root) mod 12 + 12) mod 12\<close> of the other pitch classes, zero dropped; a candidate's
  score is \<open>matches / |template| - (|interval set| - matches) * 0.1\<close> with \<open>matches\<close> the size of
  the intersection of template and interval set. \<open>exact_score\<close> is this formula in exact
  arithmetic, with the penalty \<open>1/10\<close>; \<open>double_score\<close> is the formula in double arithmetic:
  the quotient, the product with the double nearest to \<open>1/10\<close> and the difference are each
  rounded. \<open>keep_best\<close> is the update of the best candidate so far: a candidate replaces it
  only with a strictly greater score.
\<close>

definition candidates :: "int list \<Rightarrow> (nat \<times> string \<times> string \<times> int list) list" where
  "candidates pcs = concat (map (\<lambda>i. map (\<lambda>t. (i, t)) CHORDS) [0..<length pcs])"

definition interval_set :: "int list \<Rightarrow> int \<Rightarrow> int set" where
  "interval_set pcs r = (\<lambda>p. ((p - r) mod 12 + 12) mod 12) ` (set pcs - {r}) - {0}"

definition exact_score :: "int list \<Rightarrow> nat \<times> string \<times> string \<times> int list \<Rightarrow> rat" where
  "exact_score pcs c =
     (case c of (i, nm, ab, template) \<Rightarrow>
        let I = interval_set pcs (pcs ! i); matches = card (set template \<inter> I)
        in of_nat matches / of_nat (card (set template))
             - of_int (int (card I) - int matches) * (1 / 10))"

definition double_score :: "int list \<Rightarrow> nat \<times> string \<times> string \<times> int list \<Rightarrow> rat" where
  "double_score pcs c =
     (case c of (i, nm, ab, template) \<Rightarrow>
        let I = interval_set pcs (pcs ! i); matches = card (set template \<inter> I)
        in fsub (fdiv (of_nat matches) (of_nat (card (set template))))
             (fmul (of_int (int (card I) - int matches)) c01))"

definition spec_chord :: "int list \<Rightarrow> nat \<times> string \<times> string \<times> int list \<Rightarrow> chord" where
  "spec_chord pcs c =
     (case c of (i, nm, ab, template) \<Rightarrow>
        \<lparr>root = note_at (pcs ! i), rootPc = pcs ! i, name = nm, abbrev = ab,
         full = str_of (note_at (pcs ! i)) @ ab\<rparr>)"

definition keep_best ::
  "('c \<Rightarrow> rat) \<Rightarrow> ('c \<Rightarrow> 'b) \<Rightarrow> 'c \<Rightarrow> 'b option \<times> rat \<Rightarrow> 'b option \<times> rat" where
  "keep_best sc mk c st = (case st of (b, s) \<Rightarrow> if s < sc c then (Some (mk c), sc c) else (b, s))"

definition code_score :: "int list \<Rightarrow> nat \<times> string \<times> string \<times> int list \<Rightarrow> rat" where
  "code_score pcs c =
     (case c of (i, nm, ab, template) \<Rightarrow>
        score_of (length (filter (\<lambda>t. t \<in> set (intervals_of pcs i)) template))
          (length template) (length (intervals_of pcs i)))"

section \<open>The detector: stability window and chord events\<close>

text \<open>
  The closure variables of \<^verbatim>\<open>createPolyphon\<close> that outlive a frame are the state of the
  detector. \<^verbatim>\<open>opts.stabilityFrames || 4\<close> replaces a missing or zero option by the default.
\<close>

record detector =
  noiseFloor :: rat
  history :: "string list"
  stable :: bool
  lastChord :: "chord option"

definition detector_init :: detector where
  "detector_init = \<lparr>noiseFloor = 0, history = [], stable = False, lastChord = None\<rparr>"

definition or_default :: "nat option \<Rightarrow> nat \<Rightarrow> nat" where
  "or_default v d = (case v of None \<Rightarrow> d | Some n \<Rightarrow> if n = 0 then d else n)"

text \<open>
  \<^verbatim>\<open>uniquePcs.join(',')\<close>: the decimal representations of the numbers, separated by commas.
\<close>

definition digit_char :: "nat \<Rightarrow> char" where
  "digit_char d = ''0123456789'' ! d"

function show_nat :: "nat \<Rightarrow> string" where
  "show_nat n = (if n < 10 then [digit_char n] else show_nat (n div 10) @ [digit_char (n mod 10)])"
  by pat_completeness auto
termination
  by (relation "measure id") auto

definition Number_toString :: "int \<Rightarrow> string" where
  "Number_toString i = (if i < 0 then CHR ''-'' # show_nat (nat (- i)) else show_nat (nat i))"

fun join :: "string list \<Rightarrow> string \<Rightarrow> string" where
  "join [] sep = []"
| "join [x] sep = x"
| "join (x # y # ys) sep = x @ sep @ join (y # ys) sep"

definition frame_key :: "int list \<Rightarrow> string" where
  "frame_key pcs = join (map Number_toString (sort (Set_spread pcs))) '',''"

text \<open>
  \<^verbatim>\<open>
  history.unshift(uniquePcs.join(','));
  if (history.length > config.stabilityFrames) history.pop();
  stable = history.length >= config.stabilityFrames && history.every(h => h === history[0]);
  if (stable && uniquePcs.length >= 2) {
    const chord = matchChord(uniquePcs);
    if (chord && chord.full !== lastChord?.full) { lastChord = chord; onChord(chord); }
  }
  \<close>
  \<open>gate\<close> is this part of \<^verbatim>\<open>loop\<close>, from the pitch classes of the frame's fundamentals on;
  it returns the new state and the chord passed to \<^verbatim>\<open>onChord\<close>, if the callback is called.
  \<open>run_gate\<close> runs it over a sequence of frames and \<open>emitted\<close> collects the calls of
  \<^verbatim>\<open>onChord\<close>.
\<close>

definition push_history :: "nat \<Rightarrow> string list \<Rightarrow> string \<Rightarrow> string list" where
  "push_history stabilityFrames hist key =
     (let h = key # hist in if stabilityFrames < length h then butlast h else h)"

definition is_stable :: "nat \<Rightarrow> string list \<Rightarrow> bool" where
  "is_stable stabilityFrames hist \<longleftrightarrow>
     stabilityFrames \<le> length hist \<and> list_all (\<lambda>h. h = hd hist) hist"

definition gate :: "nat \<Rightarrow> detector \<Rightarrow> int list \<Rightarrow> detector \<times> chord option" where
  "gate stabilityFrames d pcs =
     (let uniquePcs = sort (Set_spread pcs);
          hist = push_history stabilityFrames (history d) (join (map Number_toString uniquePcs) '','');
          st = is_stable stabilityFrames hist;
          d1 = d\<lparr>history := hist, stable := st\<rparr>
      in if st \<and> 2 \<le> length uniquePcs
         then (case matchChord (Some uniquePcs) of
                 None \<Rightarrow> (d1, None)
               | Some chord \<Rightarrow>
                   if (case lastChord d of None \<Rightarrow> True | Some l \<Rightarrow> full chord \<noteq> full l)
                   then (d1\<lparr>lastChord := Some chord\<rparr>, Some chord)
                   else (d1, None))
         else (d1, None))"

fun run_gate :: "nat \<Rightarrow> detector \<Rightarrow> int list list \<Rightarrow> (detector \<times> chord option) list" where
  "run_gate sf d [] = []"
| "run_gate sf d (pcs # rest) = (let r = gate sf d pcs in r # run_gate sf (fst r) rest)"

fun emitted :: "(detector \<times> chord option) list \<Rightarrow> chord list" where
  "emitted [] = []"
| "emitted ((d, None) # rs) = emitted rs"
| "emitted ((d, Some c) # rs) = c # emitted rs"

text \<open>Two chords of the catalog on the root C, for the examples.\<close>

definition chord_C :: chord where
  "chord_C = \<lparr>root = Some ''C'', rootPc = 0, name = ''Major'', abbrev = '''', full = ''C''\<rparr>"

definition chord_C5 :: chord where
  "chord_C5 = \<lparr>root = Some ''C'', rootPc = 0, name = ''5'', abbrev = ''5'', full = ''C5''\<rparr>"

section \<open>The frame loop\<close>

subsection \<open>Spectrum, frame maximum and noise floor\<close>

text \<open>
  \<^verbatim>\<open>
  let maxE = 0;
  for (let i = 0; i < config.binCount; i++) {
    spectrum[i] = raw[i];
    if (raw[i] > maxE) maxE = raw[i];
  }
  let sum = 0, cnt = 0;
  for (let i = 0; i < config.binCount; i += 10) {
    if (spectrum[i] < maxE * 0.3) { sum += spectrum[i]; cnt++; }
  }
  noiseFloor = noiseFloor * 0.95 + (cnt ? sum / cnt : 0) * 0.05;
  const threshold = Math.min(255, noiseFloor * 3);
  \<close>
  \<^verbatim>\<open>raw\<close> is the \<^verbatim>\<open>Uint8Array\<close> the analyser fills, with at least \<^verbatim>\<open>binCount\<close> bins;
  \<^verbatim>\<open>spectrum\<close> is a \<^verbatim>\<open>Float32Array\<close>.
\<close>

definition c03 :: rat where
  "c03 = fl64 (3 / 10)"

definition c095 :: rat where
  "c095 = fl64 (95 / 100)"

definition c005 :: rat where
  "c005 = fl64 (5 / 100)"

definition spectrum_of :: "nat list \<Rightarrow> nat \<Rightarrow> rat list" where
  "spectrum_of raw n = map (\<lambda>b. fl32 (of_nat b)) (take n raw)"

definition frame_max :: "nat list \<Rightarrow> nat \<Rightarrow> rat" where
  "frame_max raw n = of_nat (fold (\<lambda>b maxE. if maxE < b then b else maxE) (take n raw) 0)"

function noise_scan :: "rat list \<Rightarrow> rat \<Rightarrow> nat \<Rightarrow> rat \<times> nat \<Rightarrow> rat \<times> nat" where
  "noise_scan spectrum low i acc =
     (if i < length spectrum
      then noise_scan spectrum low (i + 10)
             (if spectrum ! i < low then (fadd (fst acc) (spectrum ! i), snd acc + 1) else acc)
      else acc)"
  by pat_completeness auto
termination
  by (relation "measure (\<lambda>(spectrum, low, i, acc). length spectrum - i)") auto

definition floor_estimate :: "rat list \<Rightarrow> rat \<Rightarrow> rat" where
  "floor_estimate spectrum maxE =
     (case noise_scan spectrum (fmul maxE c03) 0 (0, 0) of
        (acc_sum, cnt) \<Rightarrow> if cnt \<noteq> 0 then fdiv acc_sum (of_nat cnt) else 0)"

definition noise_floor_update :: "rat \<Rightarrow> rat list \<Rightarrow> rat \<Rightarrow> rat" where
  "noise_floor_update nf spectrum maxE = fadd (fmul nf c095) (fmul (floor_estimate spectrum maxE) c005)"

definition threshold_of :: "rat \<Rightarrow> rat" where
  "threshold_of nf = min 255 (fmul nf 3)"

text \<open>
  A frame is quiet when no bin sampled by the noise-floor loop lies strictly below 0.3 times
  the frame maximum.
\<close>

definition quiet :: "rat list \<Rightarrow> rat \<Rightarrow> bool" where
  "quiet spectrum maxE \<longleftrightarrow>
     list_all (\<lambda>i. \<not> spectrum ! i < fmul maxE c03) (filter (\<lambda>i. i mod 10 = 0) [0..<length spectrum])"

subsection \<open>Peaks\<close>

text \<open>
  \<^verbatim>\<open>
  peakCount = 0;
  for (let i = 1; i < config.binCount - 1 && peakCount < config.maxPeaks; i++) {
    const cur = spectrum[i], prev = spectrum[i-1], next = spectrum[i+1];
    if (cur > threshold && cur > prev && cur > next) {
      const d = 2 * (prev - 2*cur + next);
      const off = Math.abs(d) > 0.0001 ? Math.max(-0.5, Math.min(0.5, (prev-next)/d)) : 0;
      peakBins[peakCount] = i + off;
      peakEnergies[peakCount] = cur;
      peakCount++;
    }
  }
  \<close>
  The peaks found are the list of the pairs \<^verbatim>\<open>(peakBins[k], peakEnergies[k])\<close> for
  \<^verbatim>\<open>k < peakCount\<close>; both buffers are \<^verbatim>\<open>Float32Array\<close>s.
\<close>

definition c00001 :: rat where
  "c00001 = fl64 (1 / 10000)"

definition peak_offset :: "rat \<Rightarrow> rat \<Rightarrow> rat \<Rightarrow> rat" where
  "peak_offset prev cur next =
     (let d = fmul 2 (fadd (fsub prev (fmul 2 cur)) next)
      in if c00001 < \<bar>d\<bar> then max (- (1 / 2)) (min (1 / 2) (fdiv (fsub prev next) d)) else 0)"

function find_peaks_from ::
  "rat list \<Rightarrow> rat \<Rightarrow> nat \<Rightarrow> nat \<Rightarrow> (rat \<times> rat) list \<Rightarrow> (rat \<times> rat) list" where
  "find_peaks_from spectrum threshold maxPeaks i peaks =
     (if i + 1 < length spectrum \<and> length peaks < maxPeaks
      then let cur = spectrum ! i; prev = spectrum ! (i - 1); next = spectrum ! (i + 1)
           in find_peaks_from spectrum threshold maxPeaks (i + 1)
                (if threshold < cur \<and> prev < cur \<and> next < cur
                 then peaks @ [(fl32 (fadd (of_nat i) (peak_offset prev cur next)), fl32 cur)]
                 else peaks)
      else peaks)"
  by pat_completeness auto
termination
  by (relation "measure (\<lambda>(spectrum, threshold, maxPeaks, i, peaks). length spectrum - i)") auto

definition find_peaks :: "rat list \<Rightarrow> rat \<Rightarrow> nat \<Rightarrow> (rat \<times> rat) list" where
  "find_peaks spectrum threshold maxPeaks = find_peaks_from spectrum threshold maxPeaks 1 []"

text \<open>The pair the loop appends for the bin \<open>i\<close>.\<close>

definition code_peak :: "rat list \<Rightarrow> nat \<Rightarrow> rat \<times> rat" where
  "code_peak spectrum i =
     (fl32 (fadd (of_nat i) (peak_offset (spectrum ! (i - 1)) (spectrum ! i) (spectrum ! (i + 1)))),
      fl32 (spectrum ! i))"

text \<open>
  The peak extractor as the spec words it: the interior bins that are strict local maxima
  above the threshold, in ascending order, each with its interpolated position and its
  energy, the first \<open>maxPeaks\<close> of them.
\<close>

definition is_peak :: "rat list \<Rightarrow> rat \<Rightarrow> nat \<Rightarrow> bool" where
  "is_peak spectrum threshold i \<longleftrightarrow>
     threshold < spectrum ! i \<and> spectrum ! (i - 1) < spectrum ! i \<and> spectrum ! (i + 1) < spectrum ! i"

definition clamp :: "rat \<Rightarrow> rat \<Rightarrow> rat \<Rightarrow> rat" where
  "clamp x lo hi = max lo (min hi x)"

definition spec_offset :: "rat \<Rightarrow> rat \<Rightarrow> rat \<Rightarrow> rat" where
  "spec_offset prev cur next =
     (let d = fmul 2 (fadd (fsub prev (fmul 2 cur)) next)
      in if \<bar>d\<bar> \<le> c00001 then 0 else clamp (fdiv (fsub prev next) d) (- (1 / 2)) (1 / 2))"

definition spec_peak :: "rat list \<Rightarrow> nat \<Rightarrow> rat \<times> rat" where
  "spec_peak spectrum i =
     (fl32 (fadd (of_nat i) (spec_offset (spectrum ! (i - 1)) (spectrum ! i) (spectrum ! (i + 1)))),
      spectrum ! i)"

definition spec_peaks :: "rat list \<Rightarrow> rat \<Rightarrow> nat \<Rightarrow> (rat \<times> rat) list" where
  "spec_peaks spectrum threshold maxPeaks =
     take maxPeaks (map (spec_peak spectrum)
       (filter (is_peak spectrum threshold) [1..<length spectrum - 1]))"

subsection \<open>Harmonic sieve\<close>

text \<open>
  \<^verbatim>\<open>Math.log2\<close> and \<^verbatim>\<open>Math.sqrt\<close> are only called on the integers \<open>1..numHarmonics\<close>, and
  \<^verbatim>\<open>numHarmonics\<close> is 6: the two tables hold the doubles nearest to \<open>log\<^sub>2 n\<close> and to
  \<open>\<surd>n\<close> for \<open>n = 1..6\<close>.
\<close>

definition Math_log2 :: "nat \<Rightarrow> rat" where
  "Math_log2 n =
     [0, 1, 892254565955501 / 562949953421312, 2, 5228517251457905 / 2251799813685248,
      1455204519376813 / 562949953421312] ! (n - 1)"

definition Math_sqrt :: "nat \<Rightarrow> rat" where
  "Math_sqrt n =
     [1, 6369051672525773 / 4503599627370496, 3900231685776981 / 2251799813685248, 2,
      629397181890197 / 281474976710656, 2757880273211543 / 1125899906842624] ! (n - 1)"

text \<open>
  \<^verbatim>\<open>
  for (let i = 0; i < peakCount; i++) {
    const m = peakMidis[i];
    if (m < 24 || m > 96) continue;
    let s = peakEnergies[i], h = 1;
    for (let n = 2; n <= config.numHarmonics; n++) {
      const exp = m + 12 * Math.log2(n);
      for (let j = 0; j < peakCount; j++) {
        if (j !== i && Math.abs(peakMidis[j] - exp) < 0.5) { s += peakEnergies[j]/n; h++; break; }
      }
    }
    scores[i] = s * Math.sqrt(h);
  }
  let maxS = 0;
  for (let i = 0; i < peakCount; i++) if (scores[i] > maxS) maxS = scores[i];
  if (maxS > 0) for (let i = 0; i < peakCount; i++) scores[i] /= maxS;
  \<close>
  \<^verbatim>\<open>peakMidis\<close> and \<^verbatim>\<open>scores\<close> are \<^verbatim>\<open>Float32Array\<close>s, \<^verbatim>\<open>scores\<close> filled with zeros.
\<close>

definition harmonic :: "rat \<Rightarrow> nat \<Rightarrow> rat" where
  "harmonic m n = fadd m (fmul 12 (Math_log2 n))"

definition near :: "rat \<Rightarrow> rat \<Rightarrow> bool" where
  "near x expected \<longleftrightarrow> \<bar>fsub x expected\<bar> < 1 / 2"

definition first_match :: "rat list \<Rightarrow> nat \<Rightarrow> rat \<Rightarrow> nat option" where
  "first_match peakMidis i expected =
     find (\<lambda>j. j \<noteq> i \<and> near (peakMidis ! j) expected) [0..<length peakMidis]"

definition support_step :: "rat list \<Rightarrow> rat list \<Rightarrow> nat \<Rightarrow> nat \<Rightarrow> rat \<times> nat \<Rightarrow> rat \<times> nat" where
  "support_step peakMidis peakEnergies i n acc =
     (case first_match peakMidis i (harmonic (peakMidis ! i) n) of
        None \<Rightarrow> acc
      | Some j \<Rightarrow> (fadd (fst acc) (fdiv (peakEnergies ! j) (of_nat n)), snd acc + 1))"

definition peak_score :: "nat \<Rightarrow> rat list \<Rightarrow> rat list \<Rightarrow> nat \<Rightarrow> rat" where
  "peak_score nh peakMidis peakEnergies i =
     (let m = peakMidis ! i
      in if m < 24 \<or> 96 < m then 0
         else case fold (support_step peakMidis peakEnergies i) [2..<Suc nh] (peakEnergies ! i, 1) of
                (s, h) \<Rightarrow> fl32 (fmul s (Math_sqrt h)))"

definition normalize :: "rat list \<Rightarrow> rat list" where
  "normalize scores =
     (let maxS = fold (\<lambda>s maxS. if maxS < s then s else maxS) scores 0
      in if 0 < maxS then map (\<lambda>s. fl32 (fdiv s maxS)) scores else scores)"

definition sieve_scores :: "nat \<Rightarrow> rat list \<Rightarrow> rat list \<Rightarrow> rat list" where
  "sieve_scores nh peakMidis peakEnergies =
     normalize (map (peak_score nh peakMidis peakEnergies) [0..<length peakMidis])"

text \<open>
  \<^verbatim>\<open>
  while (fundCount < config.maxFundamentals) {
    let bi = -1, bs = 0.3;
    for (let i = 0; i < peakCount; i++) if (!used[i] && scores[i] > bs) { bs = scores[i]; bi = i; }
    if (bi < 0) break;
    fundMidis[fundCount++] = peakMidis[bi];
    used[bi] = 1;
    const fm = peakMidis[bi];
    for (let n = 2; n <= config.numHarmonics; n++) {
      const exp = fm + 12 * Math.log2(n);
      for (let j = 0; j < peakCount; j++) if (Math.abs(peakMidis[j] - exp) < 0.5) used[j] = 1;
    }
  }
  \<close>
  The first argument of \<open>select\<close> is what is left of \<^verbatim>\<open>maxFundamentals\<close>.
\<close>

definition pick_best :: "rat list \<Rightarrow> bool list \<Rightarrow> nat option" where
  "pick_best scores used =
     fst (fold (\<lambda>i (bi, bs). if \<not> used ! i \<and> bs < scores ! i then (Some i, scores ! i) else (bi, bs))
            [0..<length scores] (None, c03))"

definition mark_harmonics :: "nat \<Rightarrow> rat list \<Rightarrow> rat \<Rightarrow> bool list \<Rightarrow> bool list" where
  "mark_harmonics nh peakMidis fm used =
     fold (\<lambda>n u. fold (\<lambda>j u. if near (peakMidis ! j) (harmonic fm n) then u[j := True] else u)
                    [0..<length peakMidis] u)
          [2..<Suc nh] used"

fun select :: "nat \<Rightarrow> nat \<Rightarrow> rat list \<Rightarrow> rat list \<Rightarrow> bool list \<Rightarrow> rat list \<Rightarrow> rat list" where
  "select 0 nh peakMidis scores used fundMidis = fundMidis"
| "select (Suc left) nh peakMidis scores used fundMidis =
     (case pick_best scores used of
        None \<Rightarrow> fundMidis
      | Some bi \<Rightarrow>
          select left nh peakMidis scores
            (mark_harmonics nh peakMidis (peakMidis ! bi) (used[bi := True]))
            (fundMidis @ [fl32 (peakMidis ! bi)]))"

definition sieve :: "nat \<Rightarrow> nat \<Rightarrow> rat list \<Rightarrow> rat list \<Rightarrow> rat list" where
  "sieve maxFund nh peakMidis peakEnergies =
     select maxFund nh peakMidis (sieve_scores nh peakMidis peakEnergies)
       (replicate (length peakMidis) False) []"


subsection \<open>One frame\<close>

text \<open>
  \<^verbatim>\<open>binToMidi\<close> goes through \<^verbatim>\<open>Math.log\<close>, whose result the language leaves to the
  implementation: the frame function takes it as the parameter \<open>b2m\<close>, from a bin position
  to its MIDI value. The record is the argument of \<^verbatim>\<open>onUpdate\<close>.
\<close>

text \<open>
  \<^verbatim>\<open>createPolyphon\<close> builds the configuration from the options; \<^verbatim>\<open>maxPeaks\<close>,
  \<^verbatim>\<open>maxFundamentals\<close> and \<^verbatim>\<open>numHarmonics\<close> are constants.
\<close>

record options =
  opt_fftSize :: "nat option"
  opt_binCount :: "nat option"
  opt_stabilityFrames :: "nat option"

record config =
  fftSize :: nat
  binCount :: nat
  stabilityFrames :: nat
  maxPeaks :: nat
  maxFundamentals :: nat
  numHarmonics :: nat

definition make_config :: "options \<Rightarrow> config" where
  "make_config opts =
     \<lparr>fftSize = or_default (opt_fftSize opts) 16384,
      binCount = or_default (opt_binCount opts) 500,
      stabilityFrames = or_default (opt_stabilityFrames opts) 4,
      maxPeaks = 64, maxFundamentals = 8, numHarmonics = 6\<rparr>"

record update_data =
  peaks :: "(rat \<times> rat) list"
  fundMidis :: "rat list"
  pitchClasses :: "int list"
  u_stable :: bool
  u_chord :: "chord option"
  maxEnergy :: rat
  threshold :: rat

definition loop_frame ::
  "(rat \<Rightarrow> rat) \<Rightarrow> config \<Rightarrow> detector \<Rightarrow> nat list \<Rightarrow> detector \<times> chord option \<times> update_data" where
  "loop_frame b2m cfg d raw =
     (let spectrum = spectrum_of raw (binCount cfg);
          maxE = frame_max raw (binCount cfg);
          nf = noise_floor_update (noiseFloor d) spectrum maxE;
          thr = threshold_of nf;
          pks = find_peaks spectrum thr (maxPeaks cfg);
          peakMidis = map (\<lambda>p. fl32 (b2m (fst p))) pks;
          funds = sieve (maxFundamentals cfg) (numHarmonics cfg) peakMidis (map snd pks);
          pcs = map midiToPitchClass funds;
          r = gate (stabilityFrames cfg) (d\<lparr>noiseFloor := nf\<rparr>) pcs
      in (fst r, snd r,
          \<lparr>peaks = pks, fundMidis = funds, pitchClasses = sort (Set_spread pcs),
           u_stable = stable (fst r), u_chord = lastChord (fst r), maxEnergy = maxE,
           threshold = thr\<rparr>))"

text \<open>
  The quiet frames on the raw bytes, the state after a sequence of frames, and a small
  configuration for the examples.
\<close>

definition quiet_raw :: "config \<Rightarrow> nat list \<Rightarrow> bool" where
  "quiet_raw cfg raw \<longleftrightarrow> quiet (spectrum_of raw (binCount cfg)) (frame_max raw (binCount cfg))"

definition run_frames :: "(rat \<Rightarrow> rat) \<Rightarrow> config \<Rightarrow> detector \<Rightarrow> nat list list \<Rightarrow> detector" where
  "run_frames b2m cfg d raws = fold (\<lambda>raw d. fst (loop_frame b2m cfg d raw)) raws d"

definition small_config :: config where
  "small_config = make_config \<lparr>opt_fftSize = None, opt_binCount = Some 12, opt_stabilityFrames = None\<rparr>"

section \<open>Properties of the rounding\<close>

declare bitlen.simps [simp del]

lemma bitlen_bounds:
  "0 < k \<Longrightarrow> 1 \<le> bitlen k \<and> 2 ^ nat (bitlen k - 1) \<le> k \<and> k < 2 ^ nat (bitlen k)"
proof (induction k rule: bitlen.induct)
  case (1 k)
  show ?case
  proof (cases "k = 1")
    case True
    have "bitlen 1 = 1" by (simp add: bitlen.simps [of 1] bitlen.simps [of 0])
    then show ?thesis using True by simp
  next
    case False
    then have h: "0 < k div 2" using "1.prems" by simp
    have ih: "1 \<le> bitlen (k div 2)" "2 ^ nat (bitlen (k div 2) - 1) \<le> k div 2"
      "k div 2 < 2 ^ nat (bitlen (k div 2))"
      using "1.IH" h "1.prems" by simp_all
    have b: "bitlen k = 1 + bitlen (k div 2)"
      using "1.prems" by (simp add: bitlen.simps [of k])
    define c where "c = bitlen (k div 2)"
    have c: "1 \<le> c" "2 ^ nat (c - 1) \<le> k div 2" "k div 2 < 2 ^ nat c"
      using ih by (simp_all add: c_def)
    have n1: "nat c = Suc (nat (c - 1))" and n2: "nat (1 + c) = Suc (nat c)"
      using c(1) by simp_all
    have "(2 :: int) ^ nat c = 2 * 2 ^ nat (c - 1)"
      by (subst n1) simp
    then have lo: "2 ^ nat c \<le> k" using c(2) by linarith
    have "(2 :: int) ^ nat (1 + c) = 2 * 2 ^ nat c"
      by (subst n2) simp
    then have hi: "k < 2 ^ nat (1 + c)" using c(3) by linarith
    show ?thesis using lo hi c(1) by (simp add: b c_def [symmetric])
  qed
qed

lemma ilog2_bounds:
  assumes "0 < x"
  shows "2 powi (ilog2 x) \<le> x \<and> x < 2 powi (ilog2 x + 1)"
proof -
  obtain p q where pq: "quotient_of x = (p, q)" by (cases "quotient_of x") auto
  have q: "0 < q" using quotient_of_denom_pos [OF pq] .
  have x: "x = of_int p / of_int q" using quotient_of_div [OF pq] .
  have p: "0 < p" using assms q unfolding x by (simp add: zero_less_divide_iff)
  let ?bp = "bitlen p" and ?bq = "bitlen q"
  note bp = bitlen_bounds [OF p] and bq = bitlen_bounds [OF q]
  have P1: "(2 :: rat) powi (?bp - 1) \<le> of_int p"
  proof -
    have "(of_int (2 ^ nat (?bp - 1)) :: rat) \<le> of_int p" using bp by (simp only: of_int_le_iff)
    then show ?thesis using bp by (simp add: power_int_def)
  qed
  have P2: "of_int p < (2 :: rat) powi ?bp"
  proof -
    have "(of_int p :: rat) < of_int (2 ^ nat ?bp)" using bp by (simp only: of_int_less_iff)
    then show ?thesis using bp by (simp add: power_int_def)
  qed
  have Q1: "(2 :: rat) powi (?bq - 1) \<le> of_int q"
  proof -
    have "(of_int (2 ^ nat (?bq - 1)) :: rat) \<le> of_int q" using bq by (simp only: of_int_le_iff)
    then show ?thesis using bq by (simp add: power_int_def)
  qed
  have Q2: "of_int q < (2 :: rat) powi ?bq"
  proof -
    have "(of_int q :: rat) < of_int (2 ^ nat ?bq)" using bq by (simp only: of_int_less_iff)
    then show ?thesis using bq by (simp add: power_int_def)
  qed
  have qpos: "(0 :: rat) < of_int q" using q by simp
  let ?e = "?bp - ?bq"
  have up: "x < 2 powi (?e + 1)"
  proof -
    have "2 powi (?e + 1) * (of_int q :: rat) \<ge> 2 powi (?e + 1) * 2 powi (?bq - 1)"
      using Q1 by (intro mult_left_mono) simp_all
    also have "2 powi (?e + 1) * (2 :: rat) powi (?bq - 1) = 2 powi ?bp"
      by (simp add: power_int_add [symmetric])
    finally have "of_int p < 2 powi (?e + 1) * (of_int q :: rat)" using P2 by linarith
    then show ?thesis unfolding x using qpos by (simp add: pos_divide_less_eq)
  qed
  have lo: "2 powi (?e - 1) \<le> x"
  proof -
    have "2 powi (?e - 1) * (of_int q :: rat) \<le> 2 powi (?e - 1) * 2 powi ?bq"
      using Q2 by (intro mult_left_mono) simp_all
    also have "2 powi (?e - 1) * (2 :: rat) powi ?bq = 2 powi (?bp - 1)"
      by (simp add: power_int_add [symmetric])
    finally have "2 powi (?e - 1) * (of_int q :: rat) \<le> of_int p" using P1 by linarith
    then show ?thesis unfolding x using qpos by (simp add: pos_le_divide_eq)
  qed
  have il: "ilog2 x = (if 2 powi ?e \<le> x then ?e else ?e - 1)"
    by (simp add: ilog2_def pq Let_def)
  show ?thesis
  proof (cases "2 powi ?e \<le> x")
    case True
    then show ?thesis using up il by simp
  next
    case False
    then show ?thesis using lo il by simp
  qed
qed

lemma ilog2_unique:
  assumes "2 powi e \<le> x" "x < 2 powi (e + 1)"
  shows "ilog2 x = e"
proof -
  have x: "0 < x" using assms(1) zero_less_power_int [of "2 :: rat" e] by linarith
  note b = ilog2_bounds [OF x]
  have "\<not> ilog2 x < e"
  proof
    assume "ilog2 x < e"
    then have "(2 :: rat) powi (ilog2 x + 1) \<le> 2 powi e"
      by (intro power_int_increasing) simp_all
    then show False using b assms by linarith
  qed
  moreover have "\<not> e < ilog2 x"
  proof
    assume "e < ilog2 x"
    then have "(2 :: rat) powi (e + 1) \<le> 2 powi (ilog2 x)"
      by (intro power_int_increasing) simp_all
    then show False using b assms by linarith
  qed
  ultimately show ?thesis by simp
qed


lemma rne_of_int: "rne (of_int n) = n"
  by (simp add: rne_def)

lemma rne_floor_cases: "rne x = \<lfloor>x\<rfloor> \<or> rne x = \<lfloor>x\<rfloor> + 1"
  by (simp add: rne_def Let_def)

lemma rne_ge: "of_int a \<le> x \<Longrightarrow> a \<le> rne x"
proof -
  assume "of_int a \<le> x"
  then have "a \<le> \<lfloor>x\<rfloor>" by (simp add: le_floor_iff)
  then show ?thesis using rne_floor_cases [of x] by linarith
qed

lemma rne_le: "x \<le> of_int b \<Longrightarrow> rne x \<le> b"
proof -
  assume h: "x \<le> of_int b"
  then have fl: "\<lfloor>x\<rfloor> \<le> b" by (simp add: floor_le_iff)
  show ?thesis
  proof (cases "\<lfloor>x\<rfloor> = b")
    case True
    have "of_int \<lfloor>x\<rfloor> \<le> x" by simp
    then have "x = of_int b" using h True by simp
    then show ?thesis by (simp add: rne_of_int)
  next
    case False
    then show ?thesis using fl rne_floor_cases [of x] by linarith
  qed
qed

lemma rne_near:
  assumes "\<bar>x - of_int n\<bar> < 1 / 2"
  shows "rne x = n"
proof (cases "of_int n \<le> x")
  case True
  then have "\<lfloor>x\<rfloor> = n" using assms by (simp add: floor_eq_iff abs_less_iff)
  then show ?thesis using assms True by (simp add: rne_def Let_def abs_less_iff)
next
  case False
  then have "\<lfloor>x\<rfloor> = n - 1" using assms by (simp add: floor_eq_iff abs_less_iff)
  then show ?thesis using assms False by (simp add: rne_def Let_def abs_less_iff)
qed

lemma powi_less_exp:
  assumes "(2 :: rat) powi a < 2 powi b"
  shows "a < b"
proof (rule ccontr)
  assume "\<not> a < b"
  then have "(2 :: rat) powi b \<le> 2 powi a" by (intro power_int_increasing) simp_all
  then show False using assms by simp
qed

lemma round_to_zero: "round_to p emin 0 = 0"
  by (simp add: round_to_def)

lemma round_to_exact:
  assumes "\<bar>n\<bar> < 2 ^ p" "emin - int p + 1 \<le> k"
  shows "round_to p emin (of_int n * 2 powi k) = of_int n * 2 powi k"
proof (cases "n = 0")
  case True
  then show ?thesis by (simp add: round_to_zero)
next
  case False
  define x :: rat where "x = of_int n * 2 powi k"
  have x0: "x \<noteq> 0" using False by (simp add: x_def)
  have ax: "\<bar>x\<bar> = of_int \<bar>n\<bar> * 2 powi k"
    by (simp add: x_def abs_mult)
  have apos: "0 < \<bar>x\<bar>" using x0 by simp
  define e0 where "e0 = ilog2 \<bar>x\<bar>"
  have "(of_int \<bar>n\<bar> :: rat) < of_int (2 ^ p)" using assms(1) by (simp only: of_int_less_iff)
  then have "\<bar>x\<bar> < 2 ^ p * 2 powi k"
    unfolding ax by (intro mult_strict_right_mono) simp_all
  also have "(2 :: rat) ^ p * 2 powi k = 2 powi (int p + k)"
    by (simp add: power_int_add)
  finally have "2 powi e0 < (2 :: rat) powi (int p + k)"
    using ilog2_bounds [OF apos] by (simp add: e0_def)
  then have e0: "e0 < int p + k" by (rule powi_less_exp)
  define e where "e = max e0 emin"
  define d where "d = k - (e - int p + 1)"
  have d: "0 \<le> d" using e0 assms(2) by (simp add: d_def e_def)
  have k: "k = d + (e - int p + 1)" by (simp add: d_def)
  have q: "x / 2 powi (e - int p + 1) = of_int (n * 2 ^ nat d)"
  proof -
    have "x = of_int n * 2 powi d * 2 powi (e - int p + 1)"
      unfolding x_def by (subst k) (simp add: power_int_add)
    then have "x / 2 powi (e - int p + 1) = of_int n * 2 powi d" by simp
    also have "\<dots> = of_int (n * 2 ^ nat d)" using d by (simp add: power_int_def)
    finally show ?thesis .
  qed
  have "round_to p emin x = of_int (rne (x / 2 powi (e - int p + 1))) * 2 powi (e - int p + 1)"
    using x0 by (simp add: round_to_def Let_def e_def e0_def)
  also have "\<dots> = x / 2 powi (e - int p + 1) * 2 powi (e - int p + 1)"
    unfolding q by (simp only: rne_of_int)
  also have "\<dots> = x" by simp
  finally show ?thesis by (simp add: x_def)
qed


lemma round_to_unfold:
  assumes "x \<noteq> 0" "2 powi e0 \<le> \<bar>x\<bar>" "\<bar>x\<bar> < 2 powi (e0 + 1)"
  shows "round_to p emin x
    = of_int (rne (x / 2 powi (max e0 emin - int p + 1))) * 2 powi (max e0 emin - int p + 1)"
  using assms(1) by (simp add: round_to_def Let_def ilog2_unique [OF assms(2,3)])

lemma round_to_near:
  assumes "x \<noteq> 0" "2 powi e0 \<le> \<bar>x\<bar>" "\<bar>x\<bar> < 2 powi (e0 + 1)"
    and "\<bar>x / 2 powi (max e0 emin - int p + 1) - of_int n\<bar> < 1 / 2"
  shows "round_to p emin x = of_int n * 2 powi (max e0 emin - int p + 1)"
  by (simp only: round_to_unfold [OF assms(1-3)] rne_near [OF assms(4)])

lemma scaled_bound:
  assumes "x \<noteq> 0"
  shows "\<bar>x / 2 powi (max (ilog2 \<bar>x\<bar>) emin - int p + 1)\<bar> < 2 ^ p"
proof -
  define e where "e = max (ilog2 \<bar>x\<bar>) emin"
  have apos: "0 < \<bar>x\<bar>" using assms by simp
  have "\<bar>x\<bar> < 2 powi (ilog2 \<bar>x\<bar> + 1)" using ilog2_bounds [OF apos] by simp
  also have "\<dots> \<le> 2 powi (e + 1)"
    by (intro power_int_increasing) (simp_all add: e_def)
  also have "(2 :: rat) powi (e + 1) = 2 ^ p * 2 powi (e - int p + 1)"
    by (simp add: power_int_add [symmetric] flip: power_int_of_nat)
  finally have "\<bar>x\<bar> / 2 powi (e - int p + 1) < 2 ^ p"
    by (simp add: pos_divide_less_eq)
  then show ?thesis by (simp add: e_def abs_divide)
qed

lemma round_to_form:
  assumes "1 \<le> p"
  shows "\<exists>n k. round_to p emin x = of_int n * 2 powi k \<and> \<bar>n\<bar> < 2 ^ p \<and> emin - int p + 1 \<le> k"
proof (cases "x = 0")
  case True
  then show ?thesis
    by (intro exI [of _ 0] exI [of _ "emin - int p + 1"]) (simp add: round_to_zero)
next
  case False
  define e where "e = max (ilog2 \<bar>x\<bar>) emin"
  define u :: rat where "u = 2 powi (e - int p + 1)"
  define m where "m = rne (x / u)"
  have r: "round_to p emin x = of_int m * u"
    using False by (simp add: round_to_def Let_def e_def u_def m_def)
  have b: "\<bar>x / u\<bar> < 2 ^ p"
    using scaled_bound [OF False, of emin p] by (simp add: e_def u_def)
  have "x / u < 2 ^ p" "- (2 ^ p) < x / u"
    using b unfolding abs_less_iff by linarith+
  then have q: "x / u \<le> of_int (2 ^ p)" "of_int (- (2 ^ p)) \<le> x / u"
    by simp_all
  have m: "m \<le> 2 ^ p" "- (2 ^ p) \<le> m"
    unfolding m_def using rne_le [OF q(1)] rne_ge [OF q(2)] by simp_all
  have ek: "emin - int p + 1 \<le> e - int p + 1" by (simp add: e_def)
  show ?thesis
  proof (cases "\<bar>m\<bar> < 2 ^ p")
    case True
    then show ?thesis using r ek unfolding u_def by blast
  next
    case False
    then have "m = 2 ^ p \<or> m = - (2 ^ p)" using m by linarith
    then have "of_int m * u = of_int (if m = 2 ^ p then 1 else - 1) * 2 powi (e + 1)"
      by (auto simp: u_def power_int_add [symmetric] simp flip: power_int_of_nat)
    moreover have "\<bar>if m = 2 ^ p then 1 else - 1 :: int\<bar> < 2 ^ p"
      using assms by (simp add: one_less_power)
    moreover have "emin - int p + 1 \<le> e + 1" using ek by simp
    ultimately show ?thesis using r by metis
  qed
qed

lemma round_to_idem:
  assumes "1 \<le> p"
  shows "round_to p emin (round_to p emin x) = round_to p emin x"
proof -
  obtain n k where "round_to p emin x = of_int n * 2 powi k" "\<bar>n\<bar> < 2 ^ p" "emin - int p + 1 \<le> k"
    using round_to_form [OF assms] by blast
  then show ?thesis by (simp add: round_to_exact)
qed


lemma round_to_le:
  assumes "1 \<le> p" "\<bar>n\<bar> < 2 ^ p" "emin - int p + 1 \<le> k" "x \<le> of_int n * 2 powi k"
  shows "round_to p emin x \<le> of_int n * 2 powi k"
proof (cases "x = 0")
  case True
  then show ?thesis using assms(4) by (simp add: round_to_zero)
next
  case False
  define r :: rat where "r = of_int n * 2 powi k"
  define e0 where "e0 = ilog2 \<bar>x\<bar>"
  define e where "e = max e0 emin"
  define ku where "ku = e - int p + 1"
  define u :: rat where "u = 2 powi ku"
  have upos: "0 < u" by (simp add: u_def)
  have rt: "round_to p emin x = of_int (rne (x / u)) * u"
    using False by (simp add: round_to_def Let_def e_def e0_def u_def ku_def)
  have apos: "0 < \<bar>x\<bar>" using False by simp
  note ib = ilog2_bounds [OF apos, folded e0_def]
  show ?thesis
  proof (cases "ku \<le> k")
    case True
    define d where "d = k - ku"
    have d: "0 \<le> d" and k: "k = d + ku" using True by (simp_all add: d_def)
    have "r = of_int n * 2 powi d * u"
      unfolding r_def u_def by (subst k) (simp add: power_int_add)
    moreover have "(2 :: rat) powi d = of_int (2 ^ nat d)"
      using d by (simp add: power_int_def)
    ultimately have ru: "r = of_int (n * 2 ^ nat d) * u" by simp
    have "x / u \<le> of_int (n * 2 ^ nat d)"
      using assms(4) upos unfolding r_def [symmetric] ru by (simp add: pos_divide_le_eq)
    then have "rne (x / u) \<le> n * 2 ^ nat d" by (rule rne_le)
    then have "(of_int (rne (x / u)) :: rat) \<le> of_int (n * 2 ^ nat d)"
      by (simp only: of_int_le_iff)
    then have "of_int (rne (x / u)) * u \<le> of_int (n * 2 ^ nat d) * u"
      using upos by (intro mult_right_mono) simp_all
    then show ?thesis by (simp only: rt ru r_def [symmetric])
  next
    case False
    then have kk: "k < ku" by simp
    then have "emin < e" using assms(3) by (simp add: ku_def)
    then have ee: "e = e0" by (simp add: e_def)
    have "(of_int \<bar>n\<bar> :: rat) < of_int (2 ^ p)" using assms(2) by (simp only: of_int_less_iff)
    then have "\<bar>r\<bar> < 2 ^ p * 2 powi k"
      unfolding r_def abs_mult by (simp add: mult_strict_right_mono)
    also have "(2 :: rat) ^ p * 2 powi k = 2 powi (int p + k)"
      by (simp add: power_int_add)
    also have "\<dots> \<le> 2 powi e0"
      using kk by (intro power_int_increasing) (simp_all add: ku_def ee)
    finally have rx: "\<bar>r\<bar> < 2 powi e0" .
    then have "\<bar>r\<bar> < \<bar>x\<bar>" using ib by linarith
    then have xneg: "x < 0" using assms(4) unfolding r_def [symmetric] by linarith
    then have "x \<le> - (2 powi e0)" using ib by linarith
    also have "- ((2 :: rat) powi e0) = of_int (- (2 ^ (p - 1))) * u"
    proof -
      have "int (p - 1) + ku = e0" using assms(1) by (simp add: ku_def ee)
      then have "(2 :: rat) powi e0 = 2 ^ (p - 1) * 2 powi ku"
        by (simp add: power_int_add [symmetric] flip: power_int_of_nat)
      then show ?thesis by (simp add: u_def)
    qed
    finally have "x / u \<le> of_int (- (2 ^ (p - 1)))"
      using upos by (simp add: pos_divide_le_eq)
    then have "rne (x / u) \<le> - (2 ^ (p - 1))" by (rule rne_le)
    then have "(of_int (rne (x / u)) :: rat) \<le> of_int (- (2 ^ (p - 1)))"
      by (simp only: of_int_le_iff)
    then have "of_int (rne (x / u)) * u \<le> of_int (- (2 ^ (p - 1))) * u"
      using upos by (intro mult_right_mono) simp_all
    also have "\<dots> = - (2 powi e0)"
    proof -
      have "int (p - 1) + ku = e0" using assms(1) by (simp add: ku_def ee)
      then have "(2 :: rat) powi e0 = 2 ^ (p - 1) * 2 powi ku"
        by (simp add: power_int_add [symmetric] flip: power_int_of_nat)
      then show ?thesis by (simp add: u_def)
    qed
    also have "\<dots> < r" using rx by linarith
    finally have "of_int (rne (x / u)) * u \<le> r" by simp
    then show ?thesis by (simp only: rt r_def [symmetric])
  qed
qed

lemma rne_neg: "rne (- x) = - rne x"
proof (cases "x = of_int \<lfloor>x\<rfloor>")
  case True
  then obtain n where "x = of_int n" ..
  then have "- x = of_int (- n)" by simp
  then show ?thesis using \<open>x = of_int n\<close> by (simp only: rne_of_int)
next
  case False
  then have lt: "of_int \<lfloor>x\<rfloor> < x" using of_int_floor_le [of x] by linarith
  have "\<lfloor>- x\<rfloor> = - \<lfloor>x\<rfloor> - 1"
    using lt floor_correct [of x] by (simp add: floor_eq_iff) 
  then show ?thesis
    by (auto simp: rne_def Let_def)
qed

lemma round_to_neg: "round_to p emin (- x) = - round_to p emin x"
  by (simp add: round_to_def Let_def rne_neg)

lemma round_to_ge:
  assumes "1 \<le> p" "\<bar>n\<bar> < 2 ^ p" "emin - int p + 1 \<le> k" "of_int n * 2 powi k \<le> x"
  shows "of_int n * 2 powi k \<le> round_to p emin x"
proof -
  have "round_to p emin (- x) \<le> of_int (- n) * 2 powi k"
    using assms by (intro round_to_le) simp_all
  then show ?thesis by (simp add: round_to_neg)
qed


lemma rne_tie: "x = of_int f + 1 / 2 \<Longrightarrow> rne x = (if even f then f else f + 1)"
proof -
  assume x: "x = of_int f + 1 / 2"
  have "\<lfloor>x\<rfloor> = f" unfolding x by (simp add: floor_eq_iff)
  then show ?thesis by (simp add: rne_def Let_def x)
qed

lemma round_to_tie:
  assumes "x \<noteq> 0" "2 powi e0 \<le> \<bar>x\<bar>" "\<bar>x\<bar> < 2 powi (e0 + 1)"
    and "x / 2 powi (max e0 emin - int p + 1) = of_int f + 1 / 2"
  shows "round_to p emin x
     = of_int (if even f then f else f + 1) * 2 powi (max e0 emin - int p + 1)"
  by (simp only: round_to_unfold [OF assms(1-3)] rne_tie [OF assms(4)])


section \<open>Pitch classes\<close>

lemma js_rem_nonneg: "0 \<le> a \<Longrightarrow> 0 < b \<Longrightarrow> js_rem a b = a mod b"
  by (simp add: js_rem_def signed_modulo_int_def sgn_if)

lemma js_rem_neg: "a < 0 \<Longrightarrow> 0 < b \<Longrightarrow> js_rem a b = - ((- a) mod b)"
  by (simp add: js_rem_def signed_modulo_int_def sgn_if)

text \<open>
  Claim C7, as the code has it. \<open>midiToPitchClass midi\<close> is \<^verbatim>\<open>Math.round(midi) % 12\<close>. When
  the rounded value is not negative (\<open>midi \<ge> -0.5\<close>, which covers every fundamental of the
  sieve: those lie in \<open>[24, 96]\<close>), the result is \<open>round(midi) mod 12\<close> and an integer in
  \<open>[0, 11]\<close>.
\<close>

theorem midiToPitchClass_range:
  assumes "- 1 / 2 \<le> midi"
  shows "midiToPitchClass midi = Math_round midi mod 12
    \<and> 0 \<le> midiToPitchClass midi \<and> midiToPitchClass midi \<le> 11"
proof -
  have "0 \<le> Math_round midi"
    using assms by (simp add: Math_round_def)
  then have "midiToPitchClass midi = Math_round midi mod 12"
    by (simp add: midiToPitchClass_def js_rem_nonneg)
  moreover have "0 \<le> Math_round midi mod 12" "Math_round midi mod 12 \<le> 11"
    by simp_all
  ultimately show ?thesis by simp
qed

theorem midiToPitchClass_range_witness:
  "- 1 / 2 \<le> (61 :: rat) \<and> midiToPitchClass 61 = Math_round 61 mod 12
    \<and> 0 \<le> midiToPitchClass 61 \<and> midiToPitchClass 61 \<le> 11 \<and> midiToPitchClass 61 = 1"
proof -
  have h: "- 1 / 2 \<le> (61 :: rat)" by simp
  have "Math_round 61 = 61" by (simp add: Math_round_def floor_eq_iff)
  then have "Math_round 61 mod 12 = 1" by simp
  then show ?thesis using h midiToPitchClass_range [OF h] by simp
qed

text \<open>
  Claim C7, as the spec states it (for every midi value), fails below \<open>-0.5\<close>: at \<open>-1\<close>,
  the value \<^verbatim>\<open>hzToMidi\<close> returns for a frequency that is not positive, the remainder is
  \<open>-1\<close>, which is neither in \<open>[0, 11]\<close> nor \<open>-1 mod 12 = 11\<close>.
\<close>

theorem midiToPitchClass_negative_counterexample:
  "midiToPitchClass (- 1) = - 1 \<and> \<not> (0 \<le> midiToPitchClass (- 1))
    \<and> midiToPitchClass (- 1) \<noteq> Math_round (- 1) mod 12"
proof -
  have r: "Math_round (- 1) = - 1" by (simp add: Math_round_def floor_eq_iff)
  have "js_rem (- 1) 12 = - 1" by (simp add: js_rem_neg)
  then show ?thesis by (simp add: midiToPitchClass_def r)
qed

section \<open>Properties of the chord matcher\<close>

lemma Set_spread_fold:
  "distinct acc \<Longrightarrow>
     distinct (fold (\<lambda>x s. if x \<in> set s then s else s @ [x]) xs acc)
     \<and> set (fold (\<lambda>x s. if x \<in> set s then s else s @ [x]) xs acc) = set acc \<union> set xs"
  by (induction xs arbitrary: acc) auto

lemma distinct_Set_spread: "distinct (Set_spread xs)"
  using Set_spread_fold [of "[]" xs] by (simp add: Set_spread_def)

lemma set_Set_spread: "set (Set_spread xs) = set xs"
  using Set_spread_fold [of "[]" xs] by (simp add: Set_spread_def)

lemma length_Set_spread: "length (Set_spread xs) = card (set xs)"
  using distinct_card [OF distinct_Set_spread, of xs] by (simp add: set_Set_spread)

lemma sort_Set_spread: "sort (Set_spread xs) = sorted_list_of_set (set xs)"
proof (rule sorted_distinct_set_unique)
  show "distinct (sort (Set_spread xs))" by (simp add: distinct_Set_spread)
qed (simp_all add: set_Set_spread)

lemma Set_spread_id: "distinct xs \<Longrightarrow> sort (Set_spread xs) = sort xs"
  by (simp add: sort_Set_spread sorted_list_of_set_sort_remdups distinct_remdups_id)

lemma matchChord_canonical:
  "matchChord (Some xs) = matchChord (Some (sort (Set_spread xs)))"
proof -
  let ?pcs = "sort (Set_spread xs)"
  have idem: "sort (Set_spread ?pcs) = ?pcs"
    by (simp add: Set_spread_id distinct_Set_spread sort_key_id_if_sorted)
  have len: "length ?pcs \<le> length xs"
    using card_length [of xs] by (simp add: length_Set_spread)
  show ?thesis
    using len by (auto simp: matchChord_def idem Let_def)
qed

text \<open>
  Claim C6. An absent input (\<^verbatim>\<open>null\<close>, \<^verbatim>\<open>undefined\<close>) and an input with fewer than two
  distinct pitch classes, the empty list and the repetitions of one class among them, give
  \<^verbatim>\<open>null\<close>: a value, not an exception (the model has no other outcome).
\<close>

theorem matchChord_too_few:
  assumes "input = None \<or> (\<exists>xs. input = Some xs \<and> card (set xs) < 2)"
  shows "matchChord input = None"
  using assms by (auto simp: matchChord_def length_Set_spread Let_def)

theorem matchChord_too_few_witness:
  "card (set ([] :: int list)) < 2 \<and> card (set [5, 5, 5 :: int]) < 2
   \<and> matchChord None = None \<and> matchChord (Some []) = None \<and> matchChord (Some [5, 5, 5]) = None"
proof -
  have a: "card (set ([] :: int list)) < 2" "card (set [5, 5, 5 :: int]) < 2" by simp_all
  have "matchChord None = None" by (rule matchChord_too_few) simp
  moreover have "matchChord (Some []) = None" by (rule matchChord_too_few) simp
  moreover have "matchChord (Some [5, 5, 5]) = None" by (rule matchChord_too_few) simp
  ultimately show ?thesis using a by simp
qed

subsection \<open>The loops as one scan of the candidates\<close>

lemma keep_best_scan:
  "fold (keep_best sc mk) cs (b0, s0) = (b, s) \<Longrightarrow>
     s0 \<le> s \<and> (\<forall>j<length cs. sc (cs ! j) \<le> s)
     \<and> (s = s0 \<longrightarrow> b = b0)
     \<and> (s0 < s \<longrightarrow> (\<exists>k<length cs. b = Some (mk (cs ! k)) \<and> s = sc (cs ! k)
            \<and> (\<forall>j<k. sc (cs ! j) < sc (cs ! k))))"
proof (induction cs arbitrary: b s rule: rev_induct)
  case Nil
  then show ?case by simp
next
  case (snoc c cs)
  obtain b1 s1 where st: "fold (keep_best sc mk) cs (b0, s0) = (b1, s1)"
    by (cases "fold (keep_best sc mk) cs (b0, s0)") auto
  note ih = snoc.IH [OF st]
  have "keep_best sc mk c (b1, s1) = (b, s)"
    using snoc.prems by (simp only: fold_append fold_simps comp_apply st)
  then have step: "(b, s) = (if s1 < sc c then (Some (mk c), sc c) else (b1, s1))"
    by (simp add: keep_best_def)
  show ?case
  proof (cases "s1 < sc c")
    case True
    then have bs: "b = Some (mk c)" "s = sc c" using step by simp_all
    have le: "\<forall>j<length (cs @ [c]). sc ((cs @ [c]) ! j) \<le> s"
      using ih True bs by (auto simp: nth_append less_Suc_eq)
    have lt: "\<forall>j<length cs. sc ((cs @ [c]) ! j) < sc c"
      using ih True by (auto simp: nth_append intro: le_less_trans)
    have "\<exists>k<length (cs @ [c]). b = Some (mk ((cs @ [c]) ! k)) \<and> s = sc ((cs @ [c]) ! k)
            \<and> (\<forall>j<k. sc ((cs @ [c]) ! j) < sc ((cs @ [c]) ! k))"
      using bs lt by (intro exI [of _ "length cs"]) simp
    moreover have "s0 < s" using ih True bs by auto
    ultimately show ?thesis using le by auto
  next
    case False
    then have bs: "b = b1" "s = s1" using step by simp_all
    have le: "\<forall>j<length (cs @ [c]). sc ((cs @ [c]) ! j) \<le> s"
      using ih False bs by (auto simp: nth_append less_Suc_eq)
    have ex: "s0 < s \<longrightarrow> (\<exists>k<length (cs @ [c]). b = Some (mk ((cs @ [c]) ! k)) \<and> s = sc ((cs @ [c]) ! k)
            \<and> (\<forall>j<k. sc ((cs @ [c]) ! j) < sc ((cs @ [c]) ! k)))"
    proof
      assume "s0 < s"
      then obtain k where k: "k < length cs" "b = Some (mk (cs ! k))" "s = sc (cs ! k)"
        "\<forall>j<k. sc (cs ! j) < sc (cs ! k)"
        using ih bs by auto
      then show "\<exists>k<length (cs @ [c]). b = Some (mk ((cs @ [c]) ! k)) \<and> s = sc ((cs @ [c]) ! k)
            \<and> (\<forall>j<k. sc ((cs @ [c]) ! j) < sc ((cs @ [c]) ! k))"
        by (intro exI [of _ k]) (auto simp: nth_append)
    qed
    show ?thesis using ih bs le ex by auto
  qed
qed

lemma try_template_keep_best:
  "try_template (pcs ! i) (intervals_of pcs i) t st
     = keep_best (code_score pcs) (spec_chord pcs) (i, t) st"
  by (cases t; cases st) (simp add: try_template_def keep_best_def code_score_def spec_chord_def Let_def)

lemma try_root_fold:
  "try_root pcs i st
     = fold (keep_best (code_score pcs) (spec_chord pcs)) (map (\<lambda>t. (i, t)) CHORDS) st"
proof -
  have "try_template (pcs ! i) (intervals_of pcs i)
      = (\<lambda>t. keep_best (code_score pcs) (spec_chord pcs) (i, t))"
    by (rule ext)+ (simp add: try_template_keep_best)
  then show ?thesis
    unfolding try_root_def by (simp add: fold_map comp_def)
qed

lemma roots_fold:
  "fold (try_root pcs) is st
     = fold (keep_best (code_score pcs) (spec_chord pcs))
         (concat (map (\<lambda>i. map (\<lambda>t. (i, t)) CHORDS) is)) st"
  by (induction "is" arbitrary: st) (simp_all add: try_root_fold)

lemma js_rem_twice: "js_rem (js_rem a 12 + 12) 12 = a mod 12"
proof (cases "0 \<le> a")
  case True
  then show ?thesis by (simp add: js_rem_nonneg)
next
  case False
  then have a: "a < 0" by simp
  have r: "js_rem a 12 = - ((- a) mod 12)" using a by (simp add: js_rem_neg)
  have "0 \<le> js_rem a 12 + 12" unfolding r
    using pos_mod_bound [of 12 "- a"] by linarith
  then have "js_rem (js_rem a 12 + 12) 12 = (js_rem a 12 + 12) mod 12"
    by (simp add: js_rem_nonneg)
  also have "\<dots> = (- ((- a) mod 12)) mod 12" unfolding r by simp
  also have "\<dots> = a mod 12" by (simp add: mod_minus_eq)
  finally show ?thesis .
qed

lemma drop_nth_set:
  assumes "distinct pcs" "i < length pcs"
  shows "set (take i pcs @ drop (Suc i) pcs) = set pcs - {pcs ! i}"
proof -
  have "pcs = take i pcs @ pcs ! i # drop (Suc i) pcs"
    using assms(2) by (simp add: id_take_nth_drop)
  then have d: "distinct (take i pcs @ pcs ! i # drop (Suc i) pcs)"
    and s: "set pcs = set (take i pcs @ pcs ! i # drop (Suc i) pcs)"
    using assms(1) by simp_all
  show ?thesis using d unfolding s by auto
qed

lemma drop_nth_distinct:
  "distinct pcs \<Longrightarrow> distinct (take i pcs @ drop (Suc i) pcs)"
  by (simp add: set_take_disj_set_drop_if_distinct)

lemma intervals_of_set:
  assumes "distinct pcs" "i < length pcs"
  shows "set (intervals_of pcs i) = interval_set pcs (pcs ! i)"
proof -
  have u: "set (take i pcs) \<union> set (drop (Suc i) pcs) = set pcs - {pcs ! i}"
    using drop_nth_set [OF assms] by simp
  have "set (intervals_of pcs i)
      = {x \<in> (\<lambda>p. (p - pcs ! i) mod 12) ` (set (take i pcs) \<union> set (drop (Suc i) pcs)). 0 < x}"
    by (auto simp: intervals_of_def Let_def js_rem_twice)
  also have "\<dots> = {x \<in> (\<lambda>p. (p - pcs ! i) mod 12) ` (set pcs - {pcs ! i}). 0 < x}"
    by (simp only: u)
  also have "\<dots> = interval_set pcs (pcs ! i)"
    by (auto simp: interval_set_def order_less_le)
  finally show ?thesis .
qed

lemma mod12_inj:
  assumes "(p - r) mod 12 = (q - r) mod 12" "0 \<le> p" "p \<le> 11" "0 \<le> q" "q \<le> (11 :: int)"
  shows "p = q"
proof -
  have "12 dvd (p - r) - (q - r)"
    using assms(1) by (simp only: mod_eq_dvd_iff)
  then obtain k where k: "p - q = 12 * k" by (auto elim!: dvdE)
  have "- 11 \<le> 12 * k" "12 * k \<le> 11" using assms k by linarith+
  then have "k = 0" by linarith
  then show ?thesis using k by simp
qed

lemma intervals_of_distinct:
  assumes "distinct pcs" "set pcs \<subseteq> {0..11}"
  shows "distinct (intervals_of pcs i)"
proof -
  have inj: "inj_on (\<lambda>p. js_rem (js_rem (p - pcs ! i) 12 + 12) 12) (set (take i pcs @ drop (Suc i) pcs))"
  proof (rule inj_onI)
    fix p q
    assume p: "p \<in> set (take i pcs @ drop (Suc i) pcs)" and q: "q \<in> set (take i pcs @ drop (Suc i) pcs)"
      and e: "js_rem (js_rem (p - pcs ! i) 12 + 12) 12 = js_rem (js_rem (q - pcs ! i) 12 + 12) 12"
    have "p \<in> set pcs" "q \<in> set pcs"
      using p q by (auto dest: in_set_takeD in_set_dropD)
    then have "0 \<le> p" "p \<le> 11" "0 \<le> q" "q \<le> 11" using assms(2) by auto
    then show "p = q" using e mod12_inj [of p "pcs ! i" q] by (simp add: js_rem_twice)
  qed
  have "distinct (map (\<lambda>p. js_rem (js_rem (p - pcs ! i) 12 + 12) 12)
           (take i pcs @ drop (Suc i) pcs))"
    by (subst distinct_map) (intro conjI drop_nth_distinct [OF assms(1)] inj)
  then have "distinct (filter (\<lambda>x. 0 < x) (map (\<lambda>p. js_rem (js_rem (p - pcs ! i) 12 + 12) 12)
           (take i pcs @ drop (Suc i) pcs)))"
    by (rule distinct_filter)
  then show ?thesis
    unfolding intervals_of_def Let_def by (simp only: distinct_sort)
qed

lemma matches_card:
  "distinct template \<Longrightarrow> length (filter (\<lambda>t. t \<in> I) template) = card (set template \<inter> I)"
proof -
  assume d: "distinct template"
  have "card (set (filter (\<lambda>t. t \<in> I) template)) = length (filter (\<lambda>t. t \<in> I) template)"
    by (rule distinct_card) (simp add: d)
  moreover have "set (filter (\<lambda>t. t \<in> I) template) = set template \<inter> I" by auto
  ultimately show ?thesis by simp
qed

lemma CHORDS_distinct: "(nm, ab, template) \<in> set CHORDS \<Longrightarrow> distinct template"
  by (auto simp: CHORDS_def)

lemma candidates_set:
  "c \<in> set (candidates pcs) \<longleftrightarrow> fst c < length pcs \<and> snd c \<in> set CHORDS"
  by (cases c) (auto simp: candidates_def)

lemma code_score_spec:
  assumes "distinct pcs" "set pcs \<subseteq> {0..11}" "c \<in> set (candidates pcs)"
  shows "code_score pcs c = double_score pcs c"
proof -
  obtain i nm ab template where c: "c = (i, nm, ab, template)" by (cases c) auto
  have i: "i < length pcs" and t: "(nm, ab, template) \<in> set CHORDS"
    using assms(3) by (simp_all add: candidates_set c)
  have dt: "distinct template" using t by (rule CHORDS_distinct)
  have s: "set (intervals_of pcs i) = interval_set pcs (pcs ! i)"
    using assms(1) i by (rule intervals_of_set)
  have l: "length (intervals_of pcs i) = card (interval_set pcs (pcs ! i))"
    using distinct_card [OF intervals_of_distinct [OF assms(1,2)], of i] by (simp add: s)
  show ?thesis
    by (simp add: c code_score_def double_score_def score_of_def Let_def s l matches_card [OF dt] distinct_card [OF dt])
qed

lemma matchChord_as_scan:
  assumes "sorted pcs" "distinct pcs" "set pcs \<subseteq> {0..11}" "2 \<le> length pcs"
  shows "matchChord (Some pcs)
    = fst (fold (keep_best (double_score pcs) (spec_chord pcs)) (candidates pcs) (None, 1 / 2))"
proof -
  have pcs: "sort (Set_spread pcs) = pcs"
    using assms(1,2) by (simp add: Set_spread_id sort_key_id_if_sorted)
  have "fold (keep_best (code_score pcs) (spec_chord pcs)) (candidates pcs) (None, 1 / 2)
      = fold (keep_best (double_score pcs) (spec_chord pcs)) (candidates pcs) (None, 1 / 2)"
  proof (rule fold_cong)
    fix c assume "c \<in> set (candidates pcs)"
    then have "code_score pcs c = double_score pcs c"
      by (rule code_score_spec [OF assms(2,3)])
    then show "keep_best (code_score pcs) (spec_chord pcs) c
        = keep_best (double_score pcs) (spec_chord pcs) c"
      by (intro ext) (auto simp: keep_best_def split: prod.splits)
  qed simp_all
  then show ?thesis
    using assms(4) by (simp add: matchChord_def pcs roots_fold candidates_def)
qed

subsection \<open>Scores of the two- and three-note inputs\<close>

text \<open>
  The double operations that the scores of an input with one or two intervals need, each
  with the exponent and the significand of its result, and the scores themselves.
\<close>

lemma flop_1: "fl64 (1 / 10) = 3602879701896397 / 36028797018963968"
  unfolding fl64_def
  by (subst round_to_near [where ?e0.0 = "- 4" and n = "7205759403792794"]) simp_all

lemma flop_2: "fdiv 0 1 = 0"
  by (simp add: fdiv_def fl64_def round_to_zero)

lemma flop_3: "fmul 1 (3602879701896397 / 36028797018963968) = 3602879701896397 / 36028797018963968"
  unfolding fmul_def fl64_def
  by (subst round_to_near [where ?e0.0 = "- 4" and n = "7205759403792794"]) simp_all

lemma flop_4: "fsub 0 (3602879701896397 / 36028797018963968) = - (3602879701896397 / 36028797018963968)"
  unfolding fsub_def fl64_def
  by (subst round_to_near [where ?e0.0 = "- 4" and n = "- 7205759403792794"]) simp_all

lemma flop_5: "fdiv 1 1 = 1"
  unfolding fdiv_def fl64_def
  by (subst round_to_near [where ?e0.0 = "0" and n = "4503599627370496"]) simp_all

lemma flop_6: "fmul 0 (3602879701896397 / 36028797018963968) = 0"
  by (simp add: fmul_def fl64_def round_to_zero)

lemma flop_7: "fsub 1 0 = 1"
  unfolding fsub_def fl64_def
  by (subst round_to_near [where ?e0.0 = "0" and n = "4503599627370496"]) simp_all

lemma flop_8: "fdiv 0 2 = 0"
  by (simp add: fdiv_def fl64_def round_to_zero)

lemma flop_9: "fdiv 1 2 = 1 / 2"
  unfolding fdiv_def fl64_def
  by (subst round_to_near [where ?e0.0 = "- 1" and n = "4503599627370496"]) simp_all

lemma flop_10: "fsub (1 / 2) 0 = 1 / 2"
  unfolding fsub_def fl64_def
  by (subst round_to_near [where ?e0.0 = "- 1" and n = "4503599627370496"]) simp_all

lemma flop_11: "fdiv 0 3 = 0"
  by (simp add: fdiv_def fl64_def round_to_zero)

lemma flop_12: "fdiv 1 3 = 6004799503160661 / 18014398509481984"
  unfolding fdiv_def fl64_def
  by (subst round_to_near [where ?e0.0 = "- 2" and n = "6004799503160661"]) simp_all

lemma flop_13: "fsub (6004799503160661 / 18014398509481984) 0 = 6004799503160661 / 18014398509481984"
  unfolding fsub_def fl64_def
  by (subst round_to_near [where ?e0.0 = "- 2" and n = "6004799503160661"]) simp_all

lemma flop_14: "fdiv 0 4 = 0"
  by (simp add: fdiv_def fl64_def round_to_zero)

lemma flop_15: "fdiv 1 4 = 1 / 4"
  unfolding fdiv_def fl64_def
  by (subst round_to_near [where ?e0.0 = "- 2" and n = "4503599627370496"]) simp_all

lemma flop_16: "fsub (1 / 4) 0 = 1 / 4"
  unfolding fsub_def fl64_def
  by (subst round_to_near [where ?e0.0 = "- 2" and n = "4503599627370496"]) simp_all

lemma flop_17: "fdiv 0 5 = 0"
  by (simp add: fdiv_def fl64_def round_to_zero)

lemma flop_18: "fdiv 1 5 = 3602879701896397 / 18014398509481984"
  unfolding fdiv_def fl64_def
  by (subst round_to_near [where ?e0.0 = "- 3" and n = "7205759403792794"]) simp_all

lemma flop_19: "fsub (3602879701896397 / 18014398509481984) 0 = 3602879701896397 / 18014398509481984"
  unfolding fsub_def fl64_def
  by (subst round_to_near [where ?e0.0 = "- 3" and n = "7205759403792794"]) simp_all

lemma flop_20: "fmul 2 (3602879701896397 / 36028797018963968) = 3602879701896397 / 18014398509481984"
  unfolding fmul_def fl64_def
  by (subst round_to_near [where ?e0.0 = "- 3" and n = "7205759403792794"]) simp_all

lemma flop_21: "fsub 0 (3602879701896397 / 18014398509481984) = - (3602879701896397 / 18014398509481984)"
  unfolding fsub_def fl64_def
  by (subst round_to_near [where ?e0.0 = "- 3" and n = "- 7205759403792794"]) simp_all

lemma flop_22: "fsub 1 (3602879701896397 / 36028797018963968) = 8106479329266893 / 9007199254740992"
  unfolding fsub_def fl64_def
  by (subst round_to_near [where ?e0.0 = "- 1" and n = "8106479329266893"]) simp_all

lemma flop_23: "fsub (1 / 2) (3602879701896397 / 36028797018963968) = 3602879701896397 / 9007199254740992"
  unfolding fsub_def fl64_def
  by (subst round_to_tie [where ?e0.0 = "- 2" and f = "7205759403792793"]) simp_all

lemma flop_24: "fdiv 2 2 = 1"
  unfolding fdiv_def fl64_def
  by (subst round_to_near [where ?e0.0 = "0" and n = "4503599627370496"]) simp_all

lemma flop_25: "fsub (6004799503160661 / 18014398509481984) (3602879701896397 / 36028797018963968) = 8406719304424925 / 36028797018963968"
  unfolding fsub_def fl64_def
  by (subst round_to_near [where ?e0.0 = "- 3" and n = "8406719304424925"]) simp_all

lemma flop_26: "fdiv 2 3 = 6004799503160661 / 9007199254740992"
  unfolding fdiv_def fl64_def
  by (subst round_to_near [where ?e0.0 = "- 1" and n = "6004799503160661"]) simp_all

lemma flop_27: "fsub (6004799503160661 / 9007199254740992) 0 = 6004799503160661 / 9007199254740992"
  unfolding fsub_def fl64_def
  by (subst round_to_near [where ?e0.0 = "- 1" and n = "6004799503160661"]) simp_all

lemma flop_28: "fsub (1 / 4) (3602879701896397 / 36028797018963968) = 5404319552844595 / 36028797018963968"
  unfolding fsub_def fl64_def
  by (subst round_to_near [where ?e0.0 = "- 3" and n = "5404319552844595"]) simp_all

lemma flop_29: "fdiv 2 4 = 1 / 2"
  unfolding fdiv_def fl64_def
  by (subst round_to_near [where ?e0.0 = "- 1" and n = "4503599627370496"]) simp_all

lemma flop_30: "fsub (3602879701896397 / 18014398509481984) (3602879701896397 / 36028797018963968) = 3602879701896397 / 36028797018963968"
  unfolding fsub_def fl64_def
  by (subst round_to_near [where ?e0.0 = "- 4" and n = "7205759403792794"]) simp_all

lemma flop_31: "fdiv 2 5 = 3602879701896397 / 9007199254740992"
  unfolding fdiv_def fl64_def
  by (subst round_to_near [where ?e0.0 = "- 2" and n = "7205759403792794"]) simp_all

lemma flop_32: "fsub (3602879701896397 / 9007199254740992) 0 = 3602879701896397 / 9007199254740992"
  unfolding fsub_def fl64_def
  by (subst round_to_near [where ?e0.0 = "- 2" and n = "7205759403792794"]) simp_all

lemmas flops = flop_1 flop_2 flop_3 flop_4 flop_5 flop_6 flop_7 flop_8
  flop_9 flop_10 flop_11 flop_12 flop_13 flop_14 flop_15 flop_16
  flop_17 flop_18 flop_19 flop_20 flop_21 flop_22 flop_23 flop_24
  flop_25 flop_26 flop_27 flop_28 flop_29 flop_30 flop_31 flop_32

lemma c01_val: "c01 = 3602879701896397 / 36028797018963968"
  by (simp add: c01_def flops)

lemma score_0_1_1: "score_of 0 (Suc 0) (Suc 0) = - (3602879701896397 / 36028797018963968)"
  by (simp add: score_of_def c01_val flops)

lemma score_1_1_1: "score_of (Suc 0) (Suc 0) (Suc 0) = 1"
  by (simp add: score_of_def c01_val flops)

lemma score_0_2_1: "score_of 0 (Suc (Suc 0)) (Suc 0) = - (3602879701896397 / 36028797018963968)"
  by (simp add: score_of_def c01_val flops)

lemma score_1_2_1: "score_of (Suc 0) (Suc (Suc 0)) (Suc 0) = 1 / 2"
  by (simp add: score_of_def c01_val flops)

lemma score_0_3_1: "score_of 0 (Suc (Suc (Suc 0))) (Suc 0) = - (3602879701896397 / 36028797018963968)"
  by (simp add: score_of_def c01_val flops)

lemma score_1_3_1: "score_of (Suc 0) (Suc (Suc (Suc 0))) (Suc 0) = 6004799503160661 / 18014398509481984"
  by (simp add: score_of_def c01_val flops)

lemma score_0_4_1: "score_of 0 (Suc (Suc (Suc (Suc 0)))) (Suc 0) = - (3602879701896397 / 36028797018963968)"
  by (simp add: score_of_def c01_val flops)

lemma score_1_4_1: "score_of (Suc 0) (Suc (Suc (Suc (Suc 0)))) (Suc 0) = 1 / 4"
  by (simp add: score_of_def c01_val flops)

lemma score_0_5_1: "score_of 0 (Suc (Suc (Suc (Suc (Suc 0))))) (Suc 0) = - (3602879701896397 / 36028797018963968)"
  by (simp add: score_of_def c01_val flops)

lemma score_1_5_1: "score_of (Suc 0) (Suc (Suc (Suc (Suc (Suc 0))))) (Suc 0) = 3602879701896397 / 18014398509481984"
  by (simp add: score_of_def c01_val flops)

lemma score_0_1_2: "score_of 0 (Suc 0) (Suc (Suc 0)) = - (3602879701896397 / 18014398509481984)"
  by (simp add: score_of_def c01_val flops)

lemma score_1_1_2: "score_of (Suc 0) (Suc 0) (Suc (Suc 0)) = 8106479329266893 / 9007199254740992"
  by (simp add: score_of_def c01_val flops)

lemma score_0_2_2: "score_of 0 (Suc (Suc 0)) (Suc (Suc 0)) = - (3602879701896397 / 18014398509481984)"
  by (simp add: score_of_def c01_val flops)

lemma score_1_2_2: "score_of (Suc 0) (Suc (Suc 0)) (Suc (Suc 0)) = 3602879701896397 / 9007199254740992"
  by (simp add: score_of_def c01_val flops)

lemma score_2_2_2: "score_of (Suc (Suc 0)) (Suc (Suc 0)) (Suc (Suc 0)) = 1"
  by (simp add: score_of_def c01_val flops)

lemma score_0_3_2: "score_of 0 (Suc (Suc (Suc 0))) (Suc (Suc 0)) = - (3602879701896397 / 18014398509481984)"
  by (simp add: score_of_def c01_val flops)

lemma score_1_3_2: "score_of (Suc 0) (Suc (Suc (Suc 0))) (Suc (Suc 0)) = 8406719304424925 / 36028797018963968"
  by (simp add: score_of_def c01_val flops)

lemma score_2_3_2: "score_of (Suc (Suc 0)) (Suc (Suc (Suc 0))) (Suc (Suc 0)) = 6004799503160661 / 9007199254740992"
  by (simp add: score_of_def c01_val flops)

lemma score_0_4_2: "score_of 0 (Suc (Suc (Suc (Suc 0)))) (Suc (Suc 0)) = - (3602879701896397 / 18014398509481984)"
  by (simp add: score_of_def c01_val flops)

lemma score_1_4_2: "score_of (Suc 0) (Suc (Suc (Suc (Suc 0)))) (Suc (Suc 0)) = 5404319552844595 / 36028797018963968"
  by (simp add: score_of_def c01_val flops)

lemma score_2_4_2: "score_of (Suc (Suc 0)) (Suc (Suc (Suc (Suc 0)))) (Suc (Suc 0)) = 1 / 2"
  by (simp add: score_of_def c01_val flops)

lemma score_0_5_2: "score_of 0 (Suc (Suc (Suc (Suc (Suc 0))))) (Suc (Suc 0)) = - (3602879701896397 / 18014398509481984)"
  by (simp add: score_of_def c01_val flops)

lemma score_1_5_2: "score_of (Suc 0) (Suc (Suc (Suc (Suc (Suc 0))))) (Suc (Suc 0)) = 3602879701896397 / 36028797018963968"
  by (simp add: score_of_def c01_val flops)

lemma score_2_5_2: "score_of (Suc (Suc 0)) (Suc (Suc (Suc (Suc (Suc 0))))) (Suc (Suc 0)) = 3602879701896397 / 9007199254740992"
  by (simp add: score_of_def c01_val flops)

lemmas score_table =
  score_0_1_1 score_1_1_1 score_0_2_1 score_1_2_1 score_0_3_1 score_1_3_1
  score_0_4_1 score_1_4_1 score_0_5_1 score_1_5_1 score_0_1_2 score_1_1_2
  score_0_2_2 score_1_2_2 score_2_2_2 score_0_3_2 score_1_3_2 score_2_3_2
  score_0_4_2 score_1_4_2 score_2_4_2 score_0_5_2 score_1_5_2 score_2_5_2

lemmas matchChord_eval =
  matchChord_def Set_spread_def try_root_def intervals_of_def try_template_def CHORDS_def
  js_rem_def signed_modulo_int_def note_at_def NOTE_NAMES_def str_of_def Let_def score_table

lemma matchChord_C_major:
  "matchChord (Some [0, 4, 7])
     = Some \<lparr>root = Some ''C'', rootPc = 0, name = ''Major'', abbrev = '''', full = ''C''\<rparr>"
  by (simp add: matchChord_eval)

lemma matchChord_C5:
  "matchChord (Some [0, 7])
     = Some \<lparr>root = Some ''C'', rootPc = 0, name = ''5'', abbrev = ''5'', full = ''C5''\<rparr>"
  by (simp add: matchChord_eval)

lemma sort_spread_470: "sort (Set_spread [4, 7, 0 :: int]) = [0, 4, 7]"
  by (simp add: Set_spread_def)

lemma sort_spread_004477: "sort (Set_spread [0, 0, 4, 4, 7, 7 :: int]) = [0, 4, 7]"
  by (simp add: Set_spread_def)

subsection \<open>Scores of a six-note input\<close>

text \<open>
  The double operations and the scores of an input with five intervals, and the input
  \<open>[0, 1, 3, 4, 5, 7]\<close>: C Major is candidate 0 and D#13 is candidate 68; both score \<open>7/10\<close> in
  exact arithmetic, the doubles are \<open>1 - 0.30000000000000004 = 0.7\<close> and
  \<open>0.8 - 0.1 = 0.7000000000000001\<close>.
\<close>

lemma flop6n_2: "fdiv 0 1 = 0"
  by (simp add: fdiv_def fl64_def round_to_zero)

lemma flop6n_3: "fmul 5 (3602879701896397 / 36028797018963968) = 1 / 2"
  unfolding fmul_def fl64_def
  by (subst round_to_near [where ?e0.0 = "- 1" and n = "4503599627370496"]) simp_all

lemma flop6n_4: "fsub 0 (1 / 2) = - (1 / 2)"
  unfolding fsub_def fl64_def
  by (subst round_to_near [where ?e0.0 = "- 1" and n = "- 4503599627370496"]) simp_all

lemma flop6n_5: "fdiv 1 1 = 1"
  unfolding fdiv_def fl64_def
  by (subst round_to_near [where ?e0.0 = "0" and n = "4503599627370496"]) simp_all

lemma flop6n_6: "fmul 4 (3602879701896397 / 36028797018963968) = 3602879701896397 / 9007199254740992"
  unfolding fmul_def fl64_def
  by (subst round_to_near [where ?e0.0 = "- 2" and n = "7205759403792794"]) simp_all

lemma flop6n_7: "fsub 1 (3602879701896397 / 9007199254740992) = 5404319552844595 / 9007199254740992"
  unfolding fsub_def fl64_def
  by (subst round_to_near [where ?e0.0 = "- 1" and n = "5404319552844595"]) simp_all

lemma flop6n_8: "fdiv 0 2 = 0"
  by (simp add: fdiv_def fl64_def round_to_zero)

lemma flop6n_9: "fdiv 1 2 = 1 / 2"
  unfolding fdiv_def fl64_def
  by (subst round_to_near [where ?e0.0 = "- 1" and n = "4503599627370496"]) simp_all

lemma flop6n_10: "fsub (1 / 2) (3602879701896397 / 9007199254740992) = 900719925474099 / 9007199254740992"
  unfolding fsub_def fl64_def
  by (subst round_to_near [where ?e0.0 = "- 4" and n = "7205759403792792"]) simp_all

lemma flop6n_11: "fdiv 2 2 = 1"
  unfolding fdiv_def fl64_def
  by (subst round_to_near [where ?e0.0 = "0" and n = "4503599627370496"]) simp_all

lemma flop6n_12: "fmul 3 (3602879701896397 / 36028797018963968) = 1351079888211149 / 4503599627370496"
  unfolding fmul_def fl64_def
  by (subst round_to_tie [where ?e0.0 = "- 2" and f = "5404319552844595"]) simp_all

lemma flop6n_13: "fsub 1 (1351079888211149 / 4503599627370496) = 3152519739159347 / 4503599627370496"
  unfolding fsub_def fl64_def
  by (subst round_to_near [where ?e0.0 = "- 1" and n = "6305039478318694"]) simp_all

lemma flop6n_14: "fdiv 0 3 = 0"
  by (simp add: fdiv_def fl64_def round_to_zero)

lemma flop6n_15: "fdiv 1 3 = 6004799503160661 / 18014398509481984"
  unfolding fdiv_def fl64_def
  by (subst round_to_near [where ?e0.0 = "- 2" and n = "6004799503160661"]) simp_all

lemma flop6n_16: "fsub (6004799503160661 / 18014398509481984) (3602879701896397 / 9007199254740992) = - (1200959900632133 / 18014398509481984)"
  unfolding fsub_def fl64_def
  by (subst round_to_near [where ?e0.0 = "- 4" and n = "- 4803839602528532"]) simp_all

lemma flop6n_17: "fdiv 2 3 = 6004799503160661 / 9007199254740992"
  unfolding fdiv_def fl64_def
  by (subst round_to_near [where ?e0.0 = "- 1" and n = "6004799503160661"]) simp_all

lemma flop6n_18: "fsub (6004799503160661 / 9007199254740992) (1351079888211149 / 4503599627370496) = 3302639726738363 / 9007199254740992"
  unfolding fsub_def fl64_def
  by (subst round_to_near [where ?e0.0 = "- 2" and n = "6605279453476726"]) simp_all

lemma flop6n_19: "fdiv 3 3 = 1"
  unfolding fdiv_def fl64_def
  by (subst round_to_near [where ?e0.0 = "0" and n = "4503599627370496"]) simp_all

lemma flop6n_20: "fmul 2 (3602879701896397 / 36028797018963968) = 3602879701896397 / 18014398509481984"
  unfolding fmul_def fl64_def
  by (subst round_to_near [where ?e0.0 = "- 3" and n = "7205759403792794"]) simp_all

lemma flop6n_21: "fsub 1 (3602879701896397 / 18014398509481984) = 3602879701896397 / 4503599627370496"
  unfolding fsub_def fl64_def
  by (subst round_to_tie [where ?e0.0 = "- 1" and f = "7205759403792793"]) simp_all

lemma flop6n_22: "fdiv 0 4 = 0"
  by (simp add: fdiv_def fl64_def round_to_zero)

lemma flop6n_23: "fdiv 1 4 = 1 / 4"
  unfolding fdiv_def fl64_def
  by (subst round_to_near [where ?e0.0 = "- 2" and n = "4503599627370496"]) simp_all

lemma flop6n_24: "fsub (1 / 4) (3602879701896397 / 9007199254740992) = - (1351079888211149 / 9007199254740992)"
  unfolding fsub_def fl64_def
  by (subst round_to_near [where ?e0.0 = "- 3" and n = "- 5404319552844596"]) simp_all

lemma flop6n_25: "fdiv 2 4 = 1 / 2"
  unfolding fdiv_def fl64_def
  by (subst round_to_near [where ?e0.0 = "- 1" and n = "4503599627370496"]) simp_all

lemma flop6n_26: "fsub (1 / 2) (1351079888211149 / 4503599627370496) = 900719925474099 / 4503599627370496"
  unfolding fsub_def fl64_def
  by (subst round_to_near [where ?e0.0 = "- 3" and n = "7205759403792792"]) simp_all

lemma flop6n_27: "fdiv 3 4 = 3 / 4"
  unfolding fdiv_def fl64_def
  by (subst round_to_near [where ?e0.0 = "- 1" and n = "6755399441055744"]) simp_all

lemma flop6n_28: "fsub (3 / 4) (3602879701896397 / 18014398509481984) = 2476979795053773 / 4503599627370496"
  unfolding fsub_def fl64_def
  by (subst round_to_tie [where ?e0.0 = "- 1" and f = "4953959590107545"]) simp_all

lemma flop6n_29: "fdiv 4 4 = 1"
  unfolding fdiv_def fl64_def
  by (subst round_to_near [where ?e0.0 = "0" and n = "4503599627370496"]) simp_all

lemma flop6n_30: "fmul 1 (3602879701896397 / 36028797018963968) = 3602879701896397 / 36028797018963968"
  unfolding fmul_def fl64_def
  by (subst round_to_near [where ?e0.0 = "- 4" and n = "7205759403792794"]) simp_all

lemma flop6n_31: "fsub 1 (3602879701896397 / 36028797018963968) = 8106479329266893 / 9007199254740992"
  unfolding fsub_def fl64_def
  by (subst round_to_near [where ?e0.0 = "- 1" and n = "8106479329266893"]) simp_all

lemma flop6n_32: "fdiv 0 5 = 0"
  by (simp add: fdiv_def fl64_def round_to_zero)

lemma flop6n_33: "fdiv 1 5 = 3602879701896397 / 18014398509481984"
  unfolding fdiv_def fl64_def
  by (subst round_to_near [where ?e0.0 = "- 3" and n = "7205759403792794"]) simp_all

lemma flop6n_34: "fsub (3602879701896397 / 18014398509481984) (3602879701896397 / 9007199254740992) = - (3602879701896397 / 18014398509481984)"
  unfolding fsub_def fl64_def
  by (subst round_to_near [where ?e0.0 = "- 3" and n = "- 7205759403792794"]) simp_all

lemma flop6n_35: "fdiv 2 5 = 3602879701896397 / 9007199254740992"
  unfolding fdiv_def fl64_def
  by (subst round_to_near [where ?e0.0 = "- 2" and n = "7205759403792794"]) simp_all

lemma flop6n_36: "fsub (3602879701896397 / 9007199254740992) (1351079888211149 / 4503599627370496) = 900719925474099 / 9007199254740992"
  unfolding fsub_def fl64_def
  by (subst round_to_near [where ?e0.0 = "- 4" and n = "7205759403792792"]) simp_all

lemma flop6n_37: "fdiv 3 5 = 5404319552844595 / 9007199254740992"
  unfolding fdiv_def fl64_def
  by (subst round_to_near [where ?e0.0 = "- 1" and n = "5404319552844595"]) simp_all

lemma flop6n_38: "fsub (5404319552844595 / 9007199254740992) (3602879701896397 / 18014398509481984) = 7205759403792793 / 18014398509481984"
  unfolding fsub_def fl64_def
  by (subst round_to_near [where ?e0.0 = "- 2" and n = "7205759403792793"]) simp_all

lemma flop6n_39: "fdiv 4 5 = 3602879701896397 / 4503599627370496"
  unfolding fdiv_def fl64_def
  by (subst round_to_near [where ?e0.0 = "- 1" and n = "7205759403792794"]) simp_all

lemma flop6n_40: "fsub (3602879701896397 / 4503599627370496) (3602879701896397 / 36028797018963968) = 6305039478318695 / 9007199254740992"
  unfolding fsub_def fl64_def
  by (subst round_to_near [where ?e0.0 = "- 1" and n = "6305039478318695"]) simp_all

lemma flop6n_41: "fdiv 5 5 = 1"
  unfolding fdiv_def fl64_def
  by (subst round_to_near [where ?e0.0 = "0" and n = "4503599627370496"]) simp_all

lemma flop6n_42: "fmul 0 (3602879701896397 / 36028797018963968) = 0"
  by (simp add: fmul_def fl64_def round_to_zero)

lemma flop6n_43: "fsub 1 0 = 1"
  unfolding fsub_def fl64_def
  by (subst round_to_near [where ?e0.0 = "0" and n = "4503599627370496"]) simp_all

lemmas flops6n = flop6n_2 flop6n_3 flop6n_4 flop6n_5 flop6n_6 flop6n_7
  flop6n_8 flop6n_9 flop6n_10 flop6n_11 flop6n_12 flop6n_13
  flop6n_14 flop6n_15 flop6n_16 flop6n_17 flop6n_18 flop6n_19
  flop6n_20 flop6n_21 flop6n_22 flop6n_23 flop6n_24 flop6n_25
  flop6n_26 flop6n_27 flop6n_28 flop6n_29 flop6n_30 flop6n_31
  flop6n_32 flop6n_33 flop6n_34 flop6n_35 flop6n_36 flop6n_37
  flop6n_38 flop6n_39 flop6n_40 flop6n_41 flop6n_42 flop6n_43

lemma score_0_1_5: "score_of 0 (Suc 0) (Suc (Suc (Suc (Suc (Suc 0))))) = - (1 / 2)"
  by (simp add: score_of_def c01_val flops6n)

lemma score_1_1_5: "score_of (Suc 0) (Suc 0) (Suc (Suc (Suc (Suc (Suc 0))))) = 5404319552844595 / 9007199254740992"
  by (simp add: score_of_def c01_val flops6n)

lemma score_0_2_5: "score_of 0 (Suc (Suc 0)) (Suc (Suc (Suc (Suc (Suc 0))))) = - (1 / 2)"
  by (simp add: score_of_def c01_val flops6n)

lemma score_1_2_5: "score_of (Suc 0) (Suc (Suc 0)) (Suc (Suc (Suc (Suc (Suc 0))))) = 900719925474099 / 9007199254740992"
  by (simp add: score_of_def c01_val flops6n)

lemma score_2_2_5: "score_of (Suc (Suc 0)) (Suc (Suc 0)) (Suc (Suc (Suc (Suc (Suc 0))))) = 3152519739159347 / 4503599627370496"
  by (simp add: score_of_def c01_val flops6n)

lemma score_0_3_5: "score_of 0 (Suc (Suc (Suc 0))) (Suc (Suc (Suc (Suc (Suc 0))))) = - (1 / 2)"
  by (simp add: score_of_def c01_val flops6n)

lemma score_1_3_5: "score_of (Suc 0) (Suc (Suc (Suc 0))) (Suc (Suc (Suc (Suc (Suc 0))))) = - (1200959900632133 / 18014398509481984)"
  by (simp add: score_of_def c01_val flops6n)

lemma score_2_3_5: "score_of (Suc (Suc 0)) (Suc (Suc (Suc 0))) (Suc (Suc (Suc (Suc (Suc 0))))) = 3302639726738363 / 9007199254740992"
  by (simp add: score_of_def c01_val flops6n)

lemma score_3_3_5: "score_of (Suc (Suc (Suc 0))) (Suc (Suc (Suc 0))) (Suc (Suc (Suc (Suc (Suc 0))))) = 3602879701896397 / 4503599627370496"
  by (simp add: score_of_def c01_val flops6n)

lemma score_0_4_5: "score_of 0 (Suc (Suc (Suc (Suc 0)))) (Suc (Suc (Suc (Suc (Suc 0))))) = - (1 / 2)"
  by (simp add: score_of_def c01_val flops6n)

lemma score_1_4_5: "score_of (Suc 0) (Suc (Suc (Suc (Suc 0)))) (Suc (Suc (Suc (Suc (Suc 0))))) = - (1351079888211149 / 9007199254740992)"
  by (simp add: score_of_def c01_val flops6n)

lemma score_2_4_5: "score_of (Suc (Suc 0)) (Suc (Suc (Suc (Suc 0)))) (Suc (Suc (Suc (Suc (Suc 0))))) = 900719925474099 / 4503599627370496"
  by (simp add: score_of_def c01_val flops6n)

lemma score_3_4_5: "score_of (Suc (Suc (Suc 0))) (Suc (Suc (Suc (Suc 0)))) (Suc (Suc (Suc (Suc (Suc 0))))) = 2476979795053773 / 4503599627370496"
  by (simp add: score_of_def c01_val flops6n)

lemma score_4_4_5: "score_of (Suc (Suc (Suc (Suc 0)))) (Suc (Suc (Suc (Suc 0)))) (Suc (Suc (Suc (Suc (Suc 0))))) = 8106479329266893 / 9007199254740992"
  by (simp add: score_of_def c01_val flops6n)

lemma score_0_5_5: "score_of 0 (Suc (Suc (Suc (Suc (Suc 0))))) (Suc (Suc (Suc (Suc (Suc 0))))) = - (1 / 2)"
  by (simp add: score_of_def c01_val flops6n)

lemma score_1_5_5: "score_of (Suc 0) (Suc (Suc (Suc (Suc (Suc 0))))) (Suc (Suc (Suc (Suc (Suc 0))))) = - (3602879701896397 / 18014398509481984)"
  by (simp add: score_of_def c01_val flops6n)

lemma score_2_5_5: "score_of (Suc (Suc 0)) (Suc (Suc (Suc (Suc (Suc 0))))) (Suc (Suc (Suc (Suc (Suc 0))))) = 900719925474099 / 9007199254740992"
  by (simp add: score_of_def c01_val flops6n)

lemma score_3_5_5: "score_of (Suc (Suc (Suc 0))) (Suc (Suc (Suc (Suc (Suc 0))))) (Suc (Suc (Suc (Suc (Suc 0))))) = 7205759403792793 / 18014398509481984"
  by (simp add: score_of_def c01_val flops6n)

lemma score_4_5_5: "score_of (Suc (Suc (Suc (Suc 0)))) (Suc (Suc (Suc (Suc (Suc 0))))) (Suc (Suc (Suc (Suc (Suc 0))))) = 6305039478318695 / 9007199254740992"
  by (simp add: score_of_def c01_val flops6n)

lemma score_5_5_5: "score_of (Suc (Suc (Suc (Suc (Suc 0))))) (Suc (Suc (Suc (Suc (Suc 0))))) (Suc (Suc (Suc (Suc (Suc 0))))) = 1"
  by (simp add: score_of_def c01_val flops6n)

lemmas score_table6n =
  score_0_1_5 score_1_1_5 score_0_2_5 score_1_2_5 score_2_2_5 score_0_3_5
  score_1_3_5 score_2_3_5 score_3_3_5 score_0_4_5 score_1_4_5 score_2_4_5
  score_3_4_5 score_4_4_5 score_0_5_5 score_1_5_5 score_2_5_5 score_3_5_5
  score_4_5_5 score_5_5_5

lemma matchChord_013457:
  "matchChord (Some [0, 1, 3, 4, 5, 7])
     = Some \<lparr>root = Some ''D#'', rootPc = 3, name = ''13'', abbrev = ''13'', full = ''D#13''\<rparr>"
  by (simp add: matchChord_def Set_spread_def try_root_def intervals_of_def try_template_def
      CHORDS_def js_rem_def signed_modulo_int_def note_at_def NOTE_NAMES_def str_of_def Let_def
      score_table6n)

lemma candidates_013457:
  "candidates [0, 1, 3, 4, 5, 7] ! 0 = (0, ''Major'', '''', [4, 7])"
  "candidates [0, 1, 3, 4, 5, 7] ! 68 = (2, ''13'', ''13'', [4, 7, 10, 2, 9])"
  by (simp_all add: candidates_def CHORDS_def upt_rec)

lemma interval_set_013457:
  "interval_set [0, 1, 3, 4, 5, 7] 0 = {1, 3, 4, 5, 7}"
  "interval_set [0, 1, 3, 4, 5, 7] 3 = {1, 2, 4, 9, 10}"
  by (simp_all add: interval_set_def insert_Diff_if) auto

lemma exact_score_013457:
  "exact_score [0, 1, 3, 4, 5, 7] (0, ''Major'', '''', [4, 7]) = 7 / 10"
  "exact_score [0, 1, 3, 4, 5, 7] (2, ''13'', ''13'', [4, 7, 10, 2, 9]) = 7 / 10"
  by (simp_all add: exact_score_def interval_set_013457 Let_def)

lemma double_score_013457:
  "double_score [0, 1, 3, 4, 5, 7] (0, ''Major'', '''', [4, 7]) = 3152519739159347 / 4503599627370496"
  "double_score [0, 1, 3, 4, 5, 7] (2, ''13'', ''13'', [4, 7, 10, 2, 9]) = 6305039478318695 / 9007199254740992"
  by (simp_all add: double_score_def interval_set_013457 Let_def c01_val flops6n)

text \<open>
  Claim C1. For a sorted, duplicate-free set of at least two pitch classes, every candidate
  (root, template) is scored by \<open>double_score\<close>: the formula
  \<open>matches / |template| - (|interval set| - matches) * 0.1\<close> evaluated in double arithmetic, as
  the code computes it. \<open>matchChord\<close> returns no match exactly when no candidate's score
  exceeds the baseline 0.5; a returned match is the candidate at some position \<open>k\<close> of the
  ascending-root, catalog-order enumeration whose score exceeds 0.5 and the score of every
  earlier candidate, and that no later candidate's score exceeds: the first candidate with
  the greatest double score, a tie of double scores never replacing it.
\<close>

theorem matchChord_first_best:
  assumes "sorted pcs" "distinct pcs" "set pcs \<subseteq> {0..11}" "2 \<le> length pcs"
  shows "(matchChord (Some pcs) = None
          \<longleftrightarrow> (\<forall>j<length (candidates pcs). double_score pcs (candidates pcs ! j) \<le> 1 / 2))
    \<and> (\<forall>ch. matchChord (Some pcs) = Some ch \<longrightarrow>
          (\<exists>k<length (candidates pcs).
              ch = spec_chord pcs (candidates pcs ! k)
            \<and> 1 / 2 < double_score pcs (candidates pcs ! k)
            \<and> (\<forall>j<k. double_score pcs (candidates pcs ! j) < double_score pcs (candidates pcs ! k))
            \<and> (\<forall>j<length (candidates pcs).
                  double_score pcs (candidates pcs ! j) \<le> double_score pcs (candidates pcs ! k))))"
proof -
  let ?cs = "candidates pcs" and ?sc = "double_score pcs" and ?mk = "spec_chord pcs"
  obtain b s where st: "fold (keep_best ?sc ?mk) ?cs (None, 1 / 2) = (b, s)"
    by (cases "fold (keep_best ?sc ?mk) ?cs (None, 1 / 2)") auto
  have m: "matchChord (Some pcs) = b"
    by (simp add: matchChord_as_scan [OF assms] st)
  note scan = keep_best_scan [OF st]
  show ?thesis
  proof (cases "s = 1 / 2")
    case True
    then have "b = None" "\<forall>j<length ?cs. ?sc (?cs ! j) \<le> 1 / 2"
      using scan by auto
    then show ?thesis by (simp add: m)
  next
    case False
    then have lt: "1 / 2 < s" using scan by auto
    then obtain k where k: "k < length ?cs" "b = Some (?mk (?cs ! k))" "s = ?sc (?cs ! k)"
      "\<forall>j<k. ?sc (?cs ! j) < ?sc (?cs ! k)"
      using scan by auto
    have le: "\<forall>j<length ?cs. ?sc (?cs ! j) \<le> ?sc (?cs ! k)"
      using scan k(3) by auto
    have "\<not> (\<forall>j<length ?cs. ?sc (?cs ! j) \<le> 1 / 2)"
      using k(1,3) lt by (auto simp: not_le intro!: exI [of _ k])
    moreover have "\<exists>k<length ?cs. ?mk (?cs ! k) = ?mk (?cs ! k) \<and> True" using k(1) by auto
    ultimately show ?thesis
      using k lt le by (auto simp: m)
  qed
qed

theorem matchChord_first_best_witness:
  "sorted [0, 4, 7 :: int] \<and> distinct [0, 4, 7 :: int] \<and> set [0, 4, 7 :: int] \<subseteq> {0..11}
   \<and> 2 \<le> length [0, 4, 7 :: int]
   \<and> (\<exists>k<length (candidates [0, 4, 7]).
          \<lparr>root = Some ''C'', rootPc = 0, name = ''Major'', abbrev = '''', full = ''C''\<rparr>
            = spec_chord [0, 4, 7] (candidates [0, 4, 7] ! k)
        \<and> 1 / 2 < double_score [0, 4, 7] (candidates [0, 4, 7] ! k)
        \<and> (\<forall>j<k. double_score [0, 4, 7] (candidates [0, 4, 7] ! j)
                   < double_score [0, 4, 7] (candidates [0, 4, 7] ! k))
        \<and> (\<forall>j<length (candidates [0, 4, 7]).
              double_score [0, 4, 7] (candidates [0, 4, 7] ! j)
                \<le> double_score [0, 4, 7] (candidates [0, 4, 7] ! k)))"
proof -
  have h: "sorted [0, 4, 7 :: int]" "distinct [0, 4, 7 :: int]" "set [0, 4, 7 :: int] \<subseteq> {0..11}"
    "2 \<le> length [0, 4, 7 :: int]"
    by simp_all
  show ?thesis
    using h matchChord_first_best [OF h] matchChord_C_major by blast
qed

text \<open>
  With the scores of the formula in exact arithmetic the statement fails: on
  \<open>[0, 1, 3, 4, 5, 7]\<close> the candidates C Major (the first of all) and D#13 tie at \<open>7/10\<close>, and
  \<open>matchChord\<close> returns the later one, D#13, whose double score is the greater.
\<close>

theorem matchChord_tie_counterexample:
  "matchChord (Some [0, 1, 3, 4, 5, 7])
     = Some (spec_chord [0, 1, 3, 4, 5, 7] (candidates [0, 1, 3, 4, 5, 7] ! 68))
   \<and> spec_chord [0, 1, 3, 4, 5, 7] (candidates [0, 1, 3, 4, 5, 7] ! 68)
     = \<lparr>root = Some ''D#'', rootPc = 3, name = ''13'', abbrev = ''13'', full = ''D#13''\<rparr>
   \<and> spec_chord [0, 1, 3, 4, 5, 7] (candidates [0, 1, 3, 4, 5, 7] ! 0)
     = \<lparr>root = Some ''C'', rootPc = 0, name = ''Major'', abbrev = '''', full = ''C''\<rparr>
   \<and> exact_score [0, 1, 3, 4, 5, 7] (candidates [0, 1, 3, 4, 5, 7] ! 0) = 7 / 10
   \<and> exact_score [0, 1, 3, 4, 5, 7] (candidates [0, 1, 3, 4, 5, 7] ! 68) = 7 / 10
   \<and> double_score [0, 1, 3, 4, 5, 7] (candidates [0, 1, 3, 4, 5, 7] ! 0)
     < double_score [0, 1, 3, 4, 5, 7] (candidates [0, 1, 3, 4, 5, 7] ! 68)"
  unfolding candidates_013457 exact_score_013457 double_score_013457 matchChord_013457
  by (simp add: spec_chord_def note_at_def NOTE_NAMES_def str_of_def)


text \<open>
  Claim C5. The result depends on the set of the input only: it is the result on the sorted,
  duplicate-free list of the input's elements, whatever their order and multiplicity. The
  three inputs of the spec give the C major chord: root \<open>C\<close>, abbreviation empty, full \<open>C\<close>.
\<close>

theorem matchChord_order_dup_invariant:
  "matchChord (Some xs) = matchChord (Some (sorted_list_of_set (set xs)))
   \<and> matchChord (Some [0, 4, 7])
       = Some \<lparr>root = Some ''C'', rootPc = 0, name = ''Major'', abbrev = '''', full = ''C''\<rparr>
   \<and> matchChord (Some [4, 7, 0]) = matchChord (Some [0, 4, 7])
   \<and> matchChord (Some [0, 0, 4, 4, 7, 7]) = matchChord (Some [0, 4, 7])"
proof -
  have "matchChord (Some xs) = matchChord (Some (sorted_list_of_set (set xs)))"
    using matchChord_canonical [of xs] by (simp add: sort_Set_spread)
  moreover have "matchChord (Some [4, 7, 0]) = matchChord (Some [0, 4, 7])"
    using matchChord_canonical [of "[4, 7, 0]"] by (simp only: sort_spread_470)
  moreover have "matchChord (Some [0, 0, 4, 4, 7, 7]) = matchChord (Some [0, 4, 7])"
    using matchChord_canonical [of "[0, 0, 4, 4, 7, 7]"] by (simp only: sort_spread_004477)
  ultimately show ?thesis using matchChord_C_major by simp
qed

text \<open>
  Claim C9. Two-note inputs do not all give \<^verbatim>\<open>null\<close>: the input \<open>{0, 7}\<close> has two distinct
  pitch classes and matches the bare fifth on C, whose template \<open>[7]\<close> is fully covered by
  the interval set of the root 0, with score 1 above the baseline 0.5.
\<close>

theorem matchChord_bare_fifth:
  "card (set [0, 7 :: int]) = 2
   \<and> matchChord (Some [0, 7])
       = Some \<lparr>root = Some ''C'', rootPc = 0, name = ''5'', abbrev = ''5'', full = ''C5''\<rparr>
   \<and> intervals_of [0, 7] 0 = [7]
   \<and> code_score [0, 7] (0, ''5'', ''5'', [7]) = 1
   \<and> (1 / 2 :: rat) < 1"
  using matchChord_C5
  by (simp add: code_score_def intervals_of_def js_rem_def signed_modulo_int_def score_table)

section \<open>Properties of the stability window\<close>

lemma push_history_take:
  "length hist \<le> sf \<Longrightarrow> push_history sf hist k = take sf (k # hist)"
  by (cases "length hist = sf") (auto simp: push_history_def Let_def butlast_conv_take)

lemma gate_history:
  "history (fst (gate sf d pcs)) = push_history sf (history d) (frame_key pcs)"
  by (simp add: gate_def Let_def frame_key_def split: option.splits)

lemma gate_stable:
  "stable (fst (gate sf d pcs)) = is_stable sf (history (fst (gate sf d pcs)))"
  by (simp add: gate_def Let_def frame_key_def split: option.splits)

lemma run_gate_length: "length (run_gate sf d frames) = length frames"
  by (induction frames arbitrary: d) (simp_all add: Let_def)

lemma run_gate_history:
  "length (history d) \<le> sf \<Longrightarrow> j < length frames \<Longrightarrow>
     history (fst (run_gate sf d frames ! j))
       = take sf (rev (map frame_key (take (Suc j) frames)) @ history d)"
proof (induction frames arbitrary: d j)
  case Nil
  then show ?case by simp
next
  case (Cons pcs frames)
  let ?d1 = "fst (gate sf d pcs)"
  have h1: "history ?d1 = take sf (frame_key pcs # history d)"
    using Cons.prems(1) by (simp add: gate_history push_history_take)
  show ?case
  proof (cases j)
    case 0
    then show ?thesis using h1 by (simp add: Let_def)
  next
    case (Suc i)
    have len: "length (history ?d1) \<le> sf" by (simp add: h1)
    have i: "i < length frames" using Cons.prems(2) Suc by simp
    have "history (fst (run_gate sf ?d1 frames ! i))
        = take sf (rev (map frame_key (take (Suc i) frames)) @ history ?d1)"
      using Cons.IH [OF len i] .
    also have "\<dots> = take sf (rev (map frame_key (take (Suc i) frames)) @ frame_key pcs # history d)"
      unfolding h1 by (simp add: take_append min_def) 
    finally show ?thesis using Suc by (simp add: Let_def)
  qed
qed

declare show_nat.simps [simp del]

lemma digit_char_cases:
  "d < 10 \<Longrightarrow> d = 0 \<or> d = 1 \<or> d = 2 \<or> d = 3 \<or> d = 4 \<or> d = 5 \<or> d = 6 \<or> d = 7 \<or> d = 8 \<or> d = (9 :: nat)"
  by arith

lemma digit_char_eval:
  "digit_char 0 = CHR ''0''" "digit_char 1 = CHR ''1''" "digit_char 2 = CHR ''2''"
  "digit_char 3 = CHR ''3''" "digit_char 4 = CHR ''4''" "digit_char 5 = CHR ''5''"
  "digit_char 6 = CHR ''6''" "digit_char 7 = CHR ''7''" "digit_char 8 = CHR ''8''"
  "digit_char 9 = CHR ''9''" "digit_char (Suc 0) = CHR ''1''"
  by (simp_all add: digit_char_def numeral_nat)

lemma digit_char_plain: "d < 10 \<Longrightarrow> digit_char d \<noteq> CHR '','' \<and> digit_char d \<noteq> CHR ''-''"
  using digit_char_cases [of d] by (auto simp: digit_char_eval)

lemma digit_char_inj: "d < 10 \<Longrightarrow> e < 10 \<Longrightarrow> digit_char d = digit_char e \<Longrightarrow> d = e"
  using digit_char_cases [of d] digit_char_cases [of e] by (auto simp: digit_char_eval)

lemma show_nat_nonempty: "show_nat n \<noteq> []"
  by (subst show_nat.simps) simp

lemma show_nat_chars: "c \<in> set (show_nat n) \<Longrightarrow> c \<noteq> CHR '','' \<and> c \<noteq> CHR ''-''"
proof (induction n rule: show_nat.induct)
  case (1 n)
  show ?case
  proof (cases "n < 10")
    case True
    then show ?thesis using "1.prems" digit_char_plain [of n]
      by (simp add: show_nat.simps [of n])
  next
    case False
    then have "c \<in> set (show_nat (n div 10)) \<or> c = digit_char (n mod 10)"
      using "1.prems" by (auto simp: show_nat.simps [of n])
    then show ?thesis
      using "1.IH" False digit_char_plain [of "n mod 10"] by auto
  qed
qed

lemma show_nat_inj: "show_nat n = show_nat m \<Longrightarrow> n = m"
proof (induction n arbitrary: m rule: show_nat.induct)
  case (1 n)
  show ?case
  proof (cases "n < 10")
    case n: True
    show ?thesis
    proof (cases "m < 10")
      case True
      then show ?thesis using "1.prems" n digit_char_inj [of n m]
        by (simp add: show_nat.simps [of n] show_nat.simps [of m])
    next
      case False
      then have "show_nat (m div 10) = []"
        using "1.prems" n by (simp add: show_nat.simps [of n] show_nat.simps [of m])
      then show ?thesis using show_nat_nonempty by simp
    qed
  next
    case n: False
    show ?thesis
    proof (cases "m < 10")
      case True
      then have "show_nat (n div 10) = []"
        using "1.prems" n by (simp add: show_nat.simps [of n] show_nat.simps [of m])
      then show ?thesis using show_nat_nonempty by simp
    next
      case False
      then have e: "show_nat (n div 10) = show_nat (m div 10)"
        "digit_char (n mod 10) = digit_char (m mod 10)"
        using "1.prems" n by (simp_all add: show_nat.simps [of n] show_nat.simps [of m])
      have "n div 10 = m div 10" using "1.IH" [OF n e(1)] .
      moreover have "n mod 10 = m mod 10" using digit_char_inj [OF _ _ e(2)] by simp
      ultimately show ?thesis by (metis div_mult_mod_eq)
    qed
  qed
qed

lemma Number_toString_nonempty: "Number_toString i \<noteq> []"
  by (simp add: Number_toString_def show_nat_nonempty)

lemma Number_toString_no_comma: "CHR '','' \<notin> set (Number_toString i)"
  using show_nat_chars by (auto simp: Number_toString_def)

lemma show_nat_hd: "hd (show_nat n) \<noteq> CHR ''-''"
  using show_nat_chars [of "hd (show_nat n)" n] show_nat_nonempty [of n] by simp

lemma Number_toString_inj: "Number_toString i = Number_toString j \<Longrightarrow> i = j"
proof -
  assume e: "Number_toString i = Number_toString j"
  show ?thesis
  proof (cases "i < 0")
    case i: True
    show ?thesis
    proof (cases "j < 0")
      case True
      then have "nat (- i) = nat (- j)" using e i show_nat_inj by (simp add: Number_toString_def)
      then show ?thesis using i True by simp
    next
      case False
      then have "hd (show_nat (nat j)) = CHR ''-''"
        using e i by (simp add: Number_toString_def) (metis list.sel(1))
      then show ?thesis using show_nat_hd by simp
    qed
  next
    case i: False
    show ?thesis
    proof (cases "j < 0")
      case True
      then have "hd (show_nat (nat i)) = CHR ''-''"
        using e i by (simp add: Number_toString_def)
      then show ?thesis using show_nat_hd by simp
    next
      case False
      then have "nat i = nat j" using e i show_nat_inj by (simp add: Number_toString_def)
      then show ?thesis using i False by simp
    qed
  qed
qed

lemma split_at_sep:
  assumes "a @ c # r = b @ c # s" "c \<notin> set a" "c \<notin> set b"
  shows "a = b \<and> r = s"
proof -
  have "takeWhile (\<lambda>x. x \<noteq> c) (a @ c # r) = a" "takeWhile (\<lambda>x. x \<noteq> c) (b @ c # s) = b"
    using assms(2,3) by (auto simp: takeWhile_tail takeWhile_eq_all_conv)
  then have "a = b" using assms(1) by simp
  then show ?thesis using assms(1) by simp
qed

lemma join_Cons: "join (x # xs) sep = (if xs = [] then x else x @ sep @ join xs sep)"
  by (cases xs) simp_all

lemma join_nonempty: "xs \<noteq> [] \<Longrightarrow> \<forall>x\<in>set xs. x \<noteq> [] \<Longrightarrow> join xs sep \<noteq> []"
  by (cases xs) (simp_all add: join_Cons)

lemma join_inj:
  assumes "\<forall>x\<in>set xs. x \<noteq> [] \<and> c \<notin> set x" "\<forall>y\<in>set ys. y \<noteq> [] \<and> c \<notin> set y"
    and "join xs [c] = join ys [c]"
  shows "xs = ys"
  using assms
proof (induction xs arbitrary: ys)
  case Nil
  then show ?case using join_nonempty [of ys "[c]"] by auto
next
  case (Cons x xs)
  show ?case
  proof (cases ys)
    case Nil
    then show ?thesis using Cons.prems join_nonempty [of "x # xs" "[c]"] by auto
  next
    case ys: (Cons y ys')
    have gx: "c \<notin> set x" and gy: "c \<notin> set y" using Cons.prems ys by simp_all
    have e: "(if xs = [] then x else x @ c # join xs [c])
           = (if ys' = [] then y else y @ c # join ys' [c])"
      using Cons.prems(3) by (auto simp: ys join_Cons split: if_splits)
    show ?thesis
    proof (cases "xs = []")
      case x0: True
      show ?thesis
      proof (cases "ys' = []")
        case True
        then show ?thesis using e x0 ys by simp
      next
        case False
        then have "c \<in> set x" using e x0 by simp
        then show ?thesis using gx by simp
      qed
    next
      case x1: False
      show ?thesis
      proof (cases "ys' = []")
        case True
        then have "y = x @ c # join xs [c]" using e x1 by simp
        then have "c \<in> set y" by simp
        then show ?thesis using gy by simp
      next
        case False
        then have "x @ c # join xs [c] = y @ c # join ys' [c]" using e x1 by simp
        then have "x = y" "join xs [c] = join ys' [c]"
          using split_at_sep [OF _ gx gy] by blast+
        moreover have "xs = ys'"
          using Cons.IH [of ys'] Cons.prems(1,2) calculation(2) ys by simp
        ultimately show ?thesis using ys by simp
      qed
    qed
  qed
qed

lemma frame_key_inj:
  assumes "frame_key a = frame_key b"
  shows "set a = set b"
proof -
  have "map Number_toString (sort (Set_spread a)) = map Number_toString (sort (Set_spread b))"
    using assms unfolding frame_key_def
    by (intro join_inj [where c = "CHR '',''"])
       (auto simp: Number_toString_nonempty Number_toString_no_comma)
  then have "sort (Set_spread a) = sort (Set_spread b)"
    by (rule map_injective) (auto simp: inj_on_def dest: Number_toString_inj)
  then have "set (sort (Set_spread a)) = set (sort (Set_spread b))" by simp
  then show ?thesis by (simp add: set_Set_spread)
qed

lemma frame_key_set: "set a = set b \<Longrightarrow> frame_key a = frame_key b"
  by (simp add: frame_key_def sort_Set_spread)

lemma run_gate_stable:
  "j < length frames \<Longrightarrow>
     stable (fst (run_gate sf d frames ! j)) = is_stable sf (history (fst (run_gate sf d frames ! j)))"
proof (induction frames arbitrary: d j)
  case Nil
  then show ?case by simp
next
  case (Cons pcs frames)
  then show ?case by (cases j) (simp_all add: Let_def gate_stable)
qed

lemma window_nth:
  assumes "i \<le> j" "j < length frames" "j - i < sf"
  shows "take sf (rev (map frame_key (take (Suc j) frames))) ! (j - i) = frame_key (frames ! i)"
proof -
  let ?ks = "map frame_key (take (Suc j) frames)"
  have len: "length ?ks = Suc j" using assms(2) by simp
  have "take sf (rev ?ks) ! (j - i) = rev ?ks ! (j - i)" using assms(3) by simp
  also have "\<dots> = ?ks ! (length ?ks - Suc (j - i))"
    using len by (intro rev_nth) simp
  also have "length ?ks - Suc (j - i) = i" using assms(1) len by simp
  also have "?ks ! i = frame_key (frames ! i)" using assms(1,2) by simp
  finally show ?thesis .
qed

lemma window_length:
  "j < length frames \<Longrightarrow> length (take sf (rev (map frame_key (take (Suc j) frames)))) = min sf (Suc j)"
  by simp

lemma window_elem:
  assumes "j < length frames" "h \<in> set (take sf (rev (map frame_key (take (Suc j) frames))))"
  shows "\<exists>i\<le>j. h = frame_key (frames ! i)"
proof -
  have "h \<in> set (map frame_key (take (Suc j) frames))"
    using assms(2) by (auto dest: in_set_takeD)
  then obtain i where "i < length (take (Suc j) frames)" "h = frame_key (take (Suc j) frames ! i)"
    by (auto simp: in_set_conv_nth)
  then show ?thesis using assms(1) by (intro exI [of _ i]) simp
qed

lemma show_nat_digit: "n < 10 \<Longrightarrow> show_nat n = [digit_char n]"
  by (simp add: show_nat.simps [of n])

lemma frame_key_047: "set pcs = {0, 4, 7} \<Longrightarrow> frame_key pcs = ''0,4,7''"
proof -
  assume "set pcs = {0, 4, 7}"
  then have "sort (Set_spread pcs) = sorted_list_of_set {0, 4, 7}" by (simp add: sort_Set_spread)
  also have "\<dots> = [0, 4, 7]" by simp
  finally show ?thesis
    by (simp add: frame_key_def Number_toString_def show_nat_digit digit_char_eval)
qed

lemma frame_key_07: "set pcs = {0, 7} \<Longrightarrow> frame_key pcs = ''0,7''"
proof -
  assume "set pcs = {0, 7}"
  then have "sort (Set_spread pcs) = sorted_list_of_set {0, 7}" by (simp add: sort_Set_spread)
  also have "\<dots> = [0, 7]" by simp
  finally show ?thesis
    by (simp add: frame_key_def Number_toString_def show_nat_digit digit_char_eval)
qed

lemma run_gate_window:
  assumes "j < length frames"
  shows "stable (fst (run_gate sf detector_init frames ! j))
     = is_stable sf (take sf (rev (map frame_key (take (Suc j) frames))))"
  using run_gate_stable [OF assms, of sf detector_init]
    run_gate_history [of detector_init sf j frames] assms
  by (simp add: detector_init_def)

text \<open>
  Claim C4. The frames are fed to a fresh detector; frame \<open>j\<close> is the \<open>(j+1)\<close>-th. After every
  frame the window holds at most \<open>stabilityFrames\<close> entries, and the frame is reported stable
  exactly when the window holds \<open>stabilityFrames\<close> entries that all equal its first entry,
  which is the newest: the key of this frame's pitch-class set. So no frame before the
  \<open>stabilityFrames\<close>-th is stable, and the \<open>stabilityFrames\<close>-th is stable when all the sets fed
  so far are identical. A frame is not stable when its set differs from the set of one of the
  \<open>stabilityFrames - 1\<close> frames before it. Hence a frame \<open>i\<close> whose set differs from its
  predecessor's is not stable, and neither are the frames up to \<open>i + stabilityFrames - 2\<close>:
  \<open>stabilityFrames - 1\<close> frames, the differing one counted. The frame after these no longer
  sees the predecessor and can be stable, so the differing frame does not make all of the
  \<open>stabilityFrames - 1\<close> frames that follow it not stable.
\<close>

theorem stability_gate:
  assumes "j < length frames"
  shows "length (history (fst (run_gate sf detector_init frames ! j))) \<le> sf
    \<and> (stable (fst (run_gate sf detector_init frames ! j))
         \<longleftrightarrow> length (history (fst (run_gate sf detector_init frames ! j))) = sf
           \<and> (\<forall>h\<in>set (history (fst (run_gate sf detector_init frames ! j))).
                 h = hd (history (fst (run_gate sf detector_init frames ! j)))))
    \<and> (0 < sf \<longrightarrow> hd (history (fst (run_gate sf detector_init frames ! j))) = frame_key (frames ! j))
    \<and> (Suc j < sf \<longrightarrow> \<not> stable (fst (run_gate sf detector_init frames ! j)))
    \<and> (Suc j = sf \<and> (\<forall>i<j. set (frames ! i) = set (frames ! j))
         \<longrightarrow> stable (fst (run_gate sf detector_init frames ! j)))
    \<and> (\<forall>i<j. j < i + sf \<and> set (frames ! i) \<noteq> set (frames ! j)
         \<longrightarrow> \<not> stable (fst (run_gate sf detector_init frames ! j)))
    \<and> (\<forall>i\<le>j. 0 < i \<and> Suc j < i + sf \<and> set (frames ! i) \<noteq> set (frames ! (i - 1))
         \<longrightarrow> \<not> stable (fst (run_gate sf detector_init frames ! j)))"
proof -
  let ?H = "history (fst (run_gate sf detector_init frames ! j))"
  let ?W = "take sf (rev (map frame_key (take (Suc j) frames)))"
  have H: "?H = ?W"
    using run_gate_history [of detector_init sf j frames] assms by (simp add: detector_init_def)
  have st: "stable (fst (run_gate sf detector_init frames ! j)) = is_stable sf ?H"
    using assms by (rule run_gate_stable)
  have len: "length ?H = min sf (Suc j)" unfolding H using assms by simp
  have c1: "length ?H \<le> sf" using len by simp
  have c2: "is_stable sf ?H \<longleftrightarrow> length ?H = sf \<and> (\<forall>h\<in>set ?H. h = hd ?H)"
    using c1 by (auto simp: is_stable_def list_all_iff)
  have hd0: "0 < sf \<Longrightarrow> hd ?H = frame_key (frames ! j)"
  proof -
    assume sf: "0 < sf"
    have "?H \<noteq> []" using len sf by auto
    then have "hd ?H = ?H ! 0" by (simp add: hd_conv_nth)
    also have "\<dots> = frame_key (frames ! j)"
      unfolding H using window_nth [of j j frames sf] assms sf by simp
    finally show ?thesis .
  qed
  have c4: "Suc j < sf \<Longrightarrow> \<not> is_stable sf ?H"
    using len by (simp add: is_stable_def)
  have c5: "is_stable sf ?H" if sf: "Suc j = sf" and eq: "\<forall>i<j. set (frames ! i) = set (frames ! j)"
  proof -
    have pos: "0 < sf" using sf by simp
    have "h = hd ?H" if hin: "h \<in> set ?H" for h
    proof -
      have "h \<in> set ?W" using hin H by simp
      then obtain i where i: "i \<le> j" "h = frame_key (frames ! i)"
        using window_elem [OF assms, of h sf] by auto
      have "set (frames ! i) = set (frames ! j)" using eq i(1) by (cases "i = j") simp_all
      then have "frame_key (frames ! i) = frame_key (frames ! j)" by (rule frame_key_set)
      then show ?thesis using i(2) hd0 [OF pos] by simp
    qed
    then show ?thesis using len sf by (simp add: c2)
  qed
  have c6: "\<not> is_stable sf ?H" if i: "i < j" "j < i + sf" "set (frames ! i) \<noteq> set (frames ! j)" for i
  proof
    assume s: "is_stable sf ?H"
    have pos: "0 < sf" using i by simp
    have ji: "j - i < sf" using i by simp
    have "j - i < length ?H" using len ji by simp
    then have "?H ! (j - i) \<in> set ?H" by (rule nth_mem)
    moreover have "?H ! (j - i) = frame_key (frames ! i)"
      unfolding H using window_nth [of i j frames sf] assms i ji by simp
    ultimately have "frame_key (frames ! i) = hd ?H" using s c2 by auto
    then have "frame_key (frames ! i) = frame_key (frames ! j)" using hd0 [OF pos] by simp
    then show False using frame_key_inj i(3) by blast
  qed
  have c7: "\<not> is_stable sf ?H"
    if i: "i \<le> j" "0 < i" "Suc j < i + sf" "set (frames ! i) \<noteq> set (frames ! (i - 1))" for i
  proof (cases "set (frames ! i) = set (frames ! j)")
    case True
    have "i - 1 < j" "j < i - 1 + sf" "set (frames ! (i - 1)) \<noteq> set (frames ! j)"
      using i True by auto
    then show ?thesis by (rule c6)
  next
    case False
    then have "i \<noteq> j" by auto
    then have "i < j" "j < i + sf" using i by simp_all
    then show ?thesis using False by (rule c6)
  qed
  show ?thesis
    unfolding st
  proof (intro conjI impI allI)
    show "length ?H \<le> sf" by (rule c1)
    show "is_stable sf ?H \<longleftrightarrow> length ?H = sf \<and> (\<forall>h\<in>set ?H. h = hd ?H)" by (rule c2)
    show "hd ?H = frame_key (frames ! j)" if "0 < sf" using that by (rule hd0)
    show "\<not> is_stable sf ?H" if "Suc j < sf" using that by (rule c4)
    show "is_stable sf ?H" if "Suc j = sf \<and> (\<forall>i<j. set (frames ! i) = set (frames ! j))"
      using that c5 by simp
    show "\<not> is_stable sf ?H" if "i < j" "j < i + sf \<and> set (frames ! i) \<noteq> set (frames ! j)" for i
      using that c6 [of i] by simp
    show "\<not> is_stable sf ?H"
      if "i \<le> j" "0 < i \<and> Suc j < i + sf \<and> set (frames ! i) \<noteq> set (frames ! (i - 1))" for i
      using that c7 [of i] by simp
  qed
qed

theorem stability_gate_witness:
  "3 < length [[0, 4, 7], [7, 4, 0], [0, 4, 7, 7], [4, 0, 7], [2, 5, 9], [2, 5, 9], [2, 5, 9], [2, 5, 9 :: int]]
   \<and> \<not> stable (fst (run_gate 4 detector_init
         [[0, 4, 7], [7, 4, 0], [0, 4, 7, 7], [4, 0, 7], [2, 5, 9], [2, 5, 9], [2, 5, 9], [2, 5, 9]] ! 2))
   \<and> stable (fst (run_gate 4 detector_init
         [[0, 4, 7], [7, 4, 0], [0, 4, 7, 7], [4, 0, 7], [2, 5, 9], [2, 5, 9], [2, 5, 9], [2, 5, 9]] ! 3))
   \<and> \<not> stable (fst (run_gate 4 detector_init
         [[0, 4, 7], [7, 4, 0], [0, 4, 7, 7], [4, 0, 7], [2, 5, 9], [2, 5, 9], [2, 5, 9], [2, 5, 9]] ! 4))
   \<and> \<not> stable (fst (run_gate 4 detector_init
         [[0, 4, 7], [7, 4, 0], [0, 4, 7, 7], [4, 0, 7], [2, 5, 9], [2, 5, 9], [2, 5, 9], [2, 5, 9]] ! 6))"
proof -
  define F :: "int list list" where
    "F = [[0, 4, 7], [7, 4, 0], [0, 4, 7, 7], [4, 0, 7], [2, 5, 9], [2, 5, 9], [2, 5, 9], [2, 5, 9]]"
  have len: "length F = 8" by (simp add: F_def)
  have s: "set (F ! 0) = {0, 4, 7}" "set (F ! 1) = {0, 4, 7}" "set (F ! 2) = {0, 4, 7}"
    "set (F ! 3) = {0, 4, 7}" "set (F ! 4) = {2, 5, 9}" "set (F ! 6) = {2, 5, 9}"
    by (simp_all add: F_def insert_commute)
  have a: "\<forall>i<3. set (F ! i) = set (F ! 3)"
  proof (intro allI impI)
    fix i :: nat
    assume "i < 3"
    then consider "i = 0" | "i = 1" | "i = 2" by linarith
    then show "set (F ! i) = set (F ! 3)" by cases (simp_all only: s)
  qed
  have d: "set (F ! 3) \<noteq> set (F ! 4)" "set (F ! 3) \<noteq> set (F ! 6)"
  proof -
    have "(0 :: int) \<in> set (F ! 3)" "(0 :: int) \<notin> set (F ! 4)" "(0 :: int) \<notin> set (F ! 6)"
      by (simp_all add: s)
    then show "set (F ! 3) \<noteq> set (F ! 4)" "set (F ! 3) \<noteq> set (F ! 6)" by blast+
  qed
  have w2: "\<not> stable (fst (run_gate 4 detector_init F ! 2))"
  proof -
    have "2 < length F" "Suc 2 < (4 :: nat)" by (simp_all add: len)
    then show ?thesis using stability_gate [of 2 F 4] by blast
  qed
  have w3: "stable (fst (run_gate 4 detector_init F ! 3))"
  proof -
    have "3 < length F" "Suc 3 = (4 :: nat)" by (simp_all add: len)
    then show ?thesis using stability_gate [of 3 F 4] a by blast
  qed
  have w4: "\<not> stable (fst (run_gate 4 detector_init F ! 4))"
  proof -
    have "4 < length F" "3 < (4 :: nat)" "4 < 3 + (4 :: nat)" by (simp_all add: len)
    then show ?thesis using stability_gate [of 4 F 4] d(1) by blast
  qed
  have w6: "\<not> stable (fst (run_gate 4 detector_init F ! 6))"
  proof -
    have "6 < length F" "3 < (6 :: nat)" "6 < 3 + (4 :: nat)" by (simp_all add: len)
    then show ?thesis using stability_gate [of 6 F 4] d(2) by blast
  qed
  have "3 < length F" by (simp add: len)
  then show ?thesis
    using w2 w3 w4 w6 unfolding F_def by blast
qed

text \<open>
  With \<open>stabilityFrames = 4\<close>, four frames of the set \<open>{0, 4, 7}\<close> followed by four frames of
  the set \<open>{0, 7}\<close>: frame 4 is the first with the differing set, and frame \<open>7 = 4 + 3\<close>, the
  last of the three frames that follow it, is stable.
\<close>

theorem stability_next_counterexample:
  "set ([[0, 4, 7], [0, 4, 7], [0, 4, 7], [0, 4, 7], [0, 7], [0, 7], [0, 7], [0, 7 :: int]] ! 4)
     \<noteq> set ([[0, 4, 7], [0, 4, 7], [0, 4, 7], [0, 4, 7], [0, 7], [0, 7], [0, 7], [0, 7 :: int]] ! 3)
   \<and> map (\<lambda>r. stable (fst r))
        (run_gate 4 detector_init
           [[0, 4, 7], [0, 4, 7], [0, 4, 7], [0, 4, 7], [0, 7], [0, 7], [0, 7], [0, 7]])
      = [False, False, False, True, False, False, False, True]"
proof -
  define F :: "int list list" where
    "F = [[0, 4, 7], [0, 4, 7], [0, 4, 7], [0, 4, 7], [0, 7], [0, 7], [0, 7], [0, 7]]"
  have k: "frame_key [0, 4, 7] = ''0,4,7''" "frame_key [0, 7] = ''0,7''"
    by (simp_all add: frame_key_047 frame_key_07)
  have st: "stable (fst (run_gate 4 detector_init F ! j))
      = is_stable 4 (take 4 (rev (map frame_key (take (Suc j) F))))" if "j < 8" for j
    using that by (intro run_gate_window) (simp add: F_def)
  have s: "stable (fst (run_gate 4 detector_init F ! 0)) = False"
    "stable (fst (run_gate 4 detector_init F ! 1)) = False"
    "stable (fst (run_gate 4 detector_init F ! 2)) = False"
    "stable (fst (run_gate 4 detector_init F ! 3)) = True"
    "stable (fst (run_gate 4 detector_init F ! 4)) = False"
    "stable (fst (run_gate 4 detector_init F ! 5)) = False"
    "stable (fst (run_gate 4 detector_init F ! 6)) = False"
    "stable (fst (run_gate 4 detector_init F ! 7)) = True"
  proof -
    have w: "is_stable 4 (take 4 (rev (map frame_key (take (Suc 0) F)))) = False"
      "is_stable 4 (take 4 (rev (map frame_key (take (Suc 1) F)))) = False"
      "is_stable 4 (take 4 (rev (map frame_key (take (Suc 2) F)))) = False"
      "is_stable 4 (take 4 (rev (map frame_key (take (Suc 3) F)))) = True"
      "is_stable 4 (take 4 (rev (map frame_key (take (Suc 4) F)))) = False"
      "is_stable 4 (take 4 (rev (map frame_key (take (Suc 5) F)))) = False"
      "is_stable 4 (take 4 (rev (map frame_key (take (Suc 6) F)))) = False"
      "is_stable 4 (take 4 (rev (map frame_key (take (Suc 7) F)))) = True"
      by (simp_all add: F_def k is_stable_def)
    show "stable (fst (run_gate 4 detector_init F ! 0)) = False"
      using st [of 0] w(1) by simp
    show "stable (fst (run_gate 4 detector_init F ! 1)) = False"
      using st [of 1] w(2) by simp
    show "stable (fst (run_gate 4 detector_init F ! 2)) = False"
      using st [of 2] w(3) by simp
    show "stable (fst (run_gate 4 detector_init F ! 3)) = True"
      using st [of 3] w(4) by simp
    show "stable (fst (run_gate 4 detector_init F ! 4)) = False"
      using st [of 4] w(5) by simp
    show "stable (fst (run_gate 4 detector_init F ! 5)) = False"
      using st [of 5] w(6) by simp
    show "stable (fst (run_gate 4 detector_init F ! 6)) = False"
      using st [of 6] w(7) by simp
    show "stable (fst (run_gate 4 detector_init F ! 7)) = True"
      using st [of 7] w(8) by simp
  qed
  have "length F = 8" by (simp add: F_def)
  then have len: "length (run_gate 4 detector_init F) = 8" by (simp only: run_gate_length)
  have "map (\<lambda>r. stable (fst r)) (run_gate 4 detector_init F)
      = map (\<lambda>j. stable (fst (run_gate 4 detector_init F ! j))) [0..<8]"
    using len by (intro nth_equalityI) simp_all
  also have "[0..<8] = [0, 1, 2, 3, 4, 5, 6, 7 :: nat]" by (simp add: upt_rec)
  finally have "map (\<lambda>r. stable (fst r)) (run_gate 4 detector_init F)
      = [False, False, False, True, False, False, False, True]"
    by (simp only: list.map s)
  moreover have "set (F ! 4) \<noteq> set (F ! 3)"
  proof -
    have "(4 :: int) \<in> set (F ! 3)" "(4 :: int) \<notin> set (F ! 4)" by (simp_all add: F_def)
    then show ?thesis by blast
  qed
  ultimately show ?thesis unfolding F_def by simp
qed


section \<open>Properties of the chord events\<close>

lemma gate_emit:
  assumes "snd (gate sf d pcs) = Some c"
  shows "stable (fst (gate sf d pcs)) \<and> 2 \<le> length (sort (Set_spread pcs))
    \<and> matchChord (Some (sort (Set_spread pcs))) = Some c
    \<and> (\<forall>l. lastChord d = Some l \<longrightarrow> full c \<noteq> full l)
    \<and> lastChord (fst (gate sf d pcs)) = Some c"
  using assms by (auto simp: gate_def Let_def split: option.splits if_splits)

lemma gate_silent:
  assumes "snd (gate sf d pcs) = None"
  shows "lastChord (fst (gate sf d pcs)) = lastChord d"
  using assms by (auto simp: gate_def Let_def split: option.splits if_splits)

lemma emitted_append: "emitted (rs @ ss) = emitted rs @ emitted ss"
  by (induction rs rule: emitted.induct) simp_all

lemma run_gate_state:
  assumes "j < length frames"
  shows "\<exists>dj. run_gate sf d frames ! j = gate sf dj (frames ! j)
    \<and> lastChord dj = (if emitted (take j (run_gate sf d frames)) = [] then lastChord d
                      else Some (last (emitted (take j (run_gate sf d frames)))))"
  using assms
proof (induction frames arbitrary: d j)
  case Nil
  then show ?case by simp
next
  case (Cons pcs frames)
  let ?r = "gate sf d pcs"
  show ?case
  proof (cases j)
    case 0
    then show ?thesis by (intro exI [of _ d]) (simp add: Let_def)
  next
    case (Suc i)
    then have i: "i < length frames" using Cons.prems by simp
    obtain di where di: "run_gate sf (fst ?r) frames ! i = gate sf di (frames ! i)"
      "lastChord di = (if emitted (take i (run_gate sf (fst ?r) frames)) = [] then lastChord (fst ?r)
                       else Some (last (emitted (take i (run_gate sf (fst ?r) frames)))))"
      using Cons.IH [OF i, of "fst ?r"] by blast
    have "lastChord di = (if emitted (take j (run_gate sf d (pcs # frames))) = [] then lastChord d
                      else Some (last (emitted (take j (run_gate sf d (pcs # frames))))))"
    proof (cases "snd ?r")
      case None
      then have "emitted (take j (run_gate sf d (pcs # frames)))
          = emitted (take i (run_gate sf (fst ?r) frames))"
        using Suc by (cases ?r) (simp add: Let_def)
      then show ?thesis using di(2) gate_silent [OF None] by simp
    next
      case (Some c)
      then have "emitted (take j (run_gate sf d (pcs # frames)))
          = c # emitted (take i (run_gate sf (fst ?r) frames))"
        using Suc by (cases ?r) (simp add: Let_def)
      then show ?thesis using di(2) gate_emit [OF Some] by simp
    qed
    then show ?thesis using di(1) Suc by (intro exI [of _ di]) (simp add: Let_def)
  qed
qed

lemma emitted_distinct_adj:
  "distinct_adj (map full (emitted (run_gate sf d frames)))
   \<and> (\<forall>l. lastChord d = Some l \<and> emitted (run_gate sf d frames) \<noteq> []
         \<longrightarrow> full (hd (emitted (run_gate sf d frames))) \<noteq> full l)"
proof (induction frames arbitrary: d)
  case Nil
  then show ?case by simp
next
  case (Cons pcs frames)
  let ?r = "gate sf d pcs"
  let ?es = "emitted (run_gate sf (fst ?r) frames)"
  note ih = Cons.IH [of "fst ?r"]
  show ?case
  proof (cases "snd ?r")
    case None
    then have e: "emitted (run_gate sf d (pcs # frames)) = ?es"
      by (cases ?r) (simp add: Let_def)
    show ?thesis unfolding e using ih gate_silent [OF None] by simp
  next
    case (Some c)
    then have e: "emitted (run_gate sf d (pcs # frames)) = c # ?es"
      by (cases ?r) (simp add: Let_def)
    have "?es \<noteq> [] \<longrightarrow> full (hd ?es) \<noteq> full c"
      using ih gate_emit [OF Some] by simp
    then have "distinct_adj (map full (c # ?es))"
      using ih by (cases ?es) (auto simp: distinct_adj_Cons)
    then show ?thesis unfolding e using gate_emit [OF Some] by simp
  qed
qed

text \<open>
  Claim C8. In every sequence of frames fed to a fresh detector, \<^verbatim>\<open>onChord\<close> is called at a
  frame only if the frame is stable and the chord matched for its pitch classes has a
  \<open>full\<close> name different from that of the chord of the previous call, if there was one; so
  the \<open>full\<close> names of consecutive calls always differ.
\<close>

theorem chord_callback_edge_triggered:
  assumes "j < length frames"
  shows "(\<forall>c. snd (run_gate sf detector_init frames ! j) = Some c \<longrightarrow>
            stable (fst (run_gate sf detector_init frames ! j))
          \<and> matchChord (Some (sort (Set_spread (frames ! j)))) = Some c
          \<and> (emitted (take j (run_gate sf detector_init frames)) \<noteq> [] \<longrightarrow>
               full c \<noteq> full (last (emitted (take j (run_gate sf detector_init frames))))))
    \<and> distinct_adj (map full (emitted (run_gate sf detector_init frames)))"
proof -
  obtain dj where dj: "run_gate sf detector_init frames ! j = gate sf dj (frames ! j)"
    "lastChord dj = (if emitted (take j (run_gate sf detector_init frames)) = []
                     then lastChord detector_init
                     else Some (last (emitted (take j (run_gate sf detector_init frames)))))"
    using run_gate_state [OF assms] by blast
  have "stable (fst (gate sf dj (frames ! j)))
      \<and> matchChord (Some (sort (Set_spread (frames ! j)))) = Some c
      \<and> (emitted (take j (run_gate sf detector_init frames)) \<noteq> [] \<longrightarrow>
           full c \<noteq> full (last (emitted (take j (run_gate sf detector_init frames)))))"
    if "snd (gate sf dj (frames ! j)) = Some c" for c
    using gate_emit [OF that] dj(2) by simp
  then show ?thesis
    using emitted_distinct_adj [of sf detector_init frames] unfolding dj(1) by blast
qed

lemma gate_unfold:
  "gate sf d pcs =
     (let uniquePcs = sort (Set_spread pcs);
          hist = push_history sf (history d) (frame_key pcs);
          st = is_stable sf hist;
          d1 = d\<lparr>history := hist, stable := st\<rparr>
      in if st \<and> 2 \<le> length uniquePcs
         then (case matchChord (Some uniquePcs) of
                 None \<Rightarrow> (d1, None)
               | Some chord \<Rightarrow>
                   if (case lastChord d of None \<Rightarrow> True | Some l \<Rightarrow> full chord \<noteq> full l)
                   then (d1\<lparr>lastChord := Some chord\<rparr>, Some chord)
                   else (d1, None))
         else (d1, None))"
  by (simp add: gate_def frame_key_def)

lemma gate_step1:
  "gate 2 detector_init [0, 4, 7]
     = (\<lparr>noiseFloor = 0, history = [''0,4,7''], stable = False, lastChord = None\<rparr>, None)"
  by (simp add: gate_unfold Let_def frame_key_047 push_history_def is_stable_def detector_init_def)

lemma gate_step2:
  "gate 2 \<lparr>noiseFloor = 0, history = [''0,4,7''], stable = False, lastChord = None\<rparr> [4, 7, 0]
     = (\<lparr>noiseFloor = 0, history = [''0,4,7'', ''0,4,7''], stable = True, lastChord = Some chord_C\<rparr>,
        Some chord_C)"
  by (simp add: gate_unfold Let_def frame_key_047 insert_commute push_history_def is_stable_def
        sort_spread_470 matchChord_C_major chord_C_def)

lemma gate_step3:
  "gate 2 \<lparr>noiseFloor = 0, history = [''0,4,7'', ''0,4,7''], stable = True, lastChord = Some chord_C\<rparr>
       [0, 0, 4, 4, 7, 7]
     = (\<lparr>noiseFloor = 0, history = [''0,4,7'', ''0,4,7''], stable = True, lastChord = Some chord_C\<rparr>,
        None)"
  by (simp add: gate_unfold Let_def frame_key_047 insert_commute push_history_def is_stable_def
        sort_spread_004477 matchChord_C_major chord_C_def)

lemma gate_step4:
  "gate 2 \<lparr>noiseFloor = 0, history = [''0,4,7'', ''0,4,7''], stable = True, lastChord = Some chord_C\<rparr>
       [0, 7]
     = (\<lparr>noiseFloor = 0, history = [''0,7'', ''0,4,7''], stable = False, lastChord = Some chord_C\<rparr>,
        None)"
  by (simp add: gate_unfold Let_def frame_key_07 push_history_def is_stable_def)

lemma sort_spread_70: "sort (Set_spread [7, 0 :: int]) = [0, 7]"
  by (simp add: Set_spread_def)

lemma gate_step5:
  "gate 2 \<lparr>noiseFloor = 0, history = [''0,7'', ''0,4,7''], stable = False, lastChord = Some chord_C\<rparr>
       [7, 0]
     = (\<lparr>noiseFloor = 0, history = [''0,7'', ''0,7''], stable = True, lastChord = Some chord_C5\<rparr>,
        Some chord_C5)"
  by (simp add: gate_unfold Let_def frame_key_07 insert_commute push_history_def is_stable_def
        sort_spread_70 matchChord_C5 chord_C_def chord_C5_def)

lemma run_example:
  "run_gate 2 detector_init [[0, 4, 7], [4, 7, 0], [0, 0, 4, 4, 7, 7], [0, 7], [7, 0]]
   = [(\<lparr>noiseFloor = 0, history = [''0,4,7''], stable = False, lastChord = None\<rparr>, None),
      (\<lparr>noiseFloor = 0, history = [''0,4,7'', ''0,4,7''], stable = True, lastChord = Some chord_C\<rparr>,
       Some chord_C),
      (\<lparr>noiseFloor = 0, history = [''0,4,7'', ''0,4,7''], stable = True, lastChord = Some chord_C\<rparr>,
       None),
      (\<lparr>noiseFloor = 0, history = [''0,7'', ''0,4,7''], stable = False, lastChord = Some chord_C\<rparr>,
       None),
      (\<lparr>noiseFloor = 0, history = [''0,7'', ''0,7''], stable = True, lastChord = Some chord_C5\<rparr>,
       Some chord_C5)]"
  by (simp only: run_gate.simps Let_def gate_step1 gate_step2 gate_step3 gate_step4 gate_step5 fst_conv)

theorem chord_callback_edge_triggered_witness:
  "4 < length [[0, 4, 7], [4, 7, 0], [0, 0, 4, 4, 7, 7], [0, 7], [7, 0 :: int]]
   \<and> snd (run_gate 2 detector_init [[0, 4, 7], [4, 7, 0], [0, 0, 4, 4, 7, 7], [0, 7], [7, 0]] ! 4)
       = Some chord_C5
   \<and> stable (fst (run_gate 2 detector_init [[0, 4, 7], [4, 7, 0], [0, 0, 4, 4, 7, 7], [0, 7], [7, 0]] ! 4))
   \<and> emitted (take 4 (run_gate 2 detector_init [[0, 4, 7], [4, 7, 0], [0, 0, 4, 4, 7, 7], [0, 7], [7, 0]]))
       = [chord_C]
   \<and> full chord_C5 \<noteq> full chord_C
   \<and> emitted (run_gate 2 detector_init [[0, 4, 7], [4, 7, 0], [0, 0, 4, 4, 7, 7], [0, 7], [7, 0]])
       = [chord_C, chord_C5]
   \<and> distinct_adj (map full
        (emitted (run_gate 2 detector_init [[0, 4, 7], [4, 7, 0], [0, 0, 4, 4, 7, 7], [0, 7], [7, 0]])))"
proof -
  have h: "4 < length [[0, 4, 7], [4, 7, 0], [0, 0, 4, 4, 7, 7], [0, 7], [7, 0 :: int]]" by simp
  note t = chord_callback_edge_triggered [OF h, of 2, unfolded run_example]
  show ?thesis
    unfolding run_example using t by (simp add: chord_C_def chord_C5_def)
qed
section \<open>Properties of the peak extractor\<close>

declare find_peaks_from.simps [simp del]

lemma find_peaks_from_eq:
  "length acc \<le> cap \<Longrightarrow>
     find_peaks_from sp thr cap i acc
       = acc @ take (cap - length acc) (map (code_peak sp) (filter (is_peak sp thr) [i..<length sp - 1]))"
proof (induction sp thr cap i acc rule: find_peaks_from.induct)
  case (1 sp thr cap i acc)
  show ?case
  proof (cases "i + 1 < length sp \<and> length acc < cap")
    case False
    then have "find_peaks_from sp thr cap i acc = acc"
      by (subst find_peaks_from.simps) auto
    moreover have "take (cap - length acc) (map (code_peak sp) (filter (is_peak sp thr) [i..<length sp - 1])) = []"
      using False "1.prems" by (cases "i + 1 < length sp") auto
    ultimately show ?thesis by simp
  next
    case True
    then have i: "i < length sp - 1" and c: "length acc < cap" by linarith+
    have upt: "[i..<length sp - 1] = i # [i + 1..<length sp - 1]"
      using i by (simp add: upt_conv_Cons)
    show ?thesis
    proof (cases "is_peak sp thr i")
      case p: True
      have p': "thr < sp ! i" "sp ! (i - Suc 0) < sp ! i" "sp ! Suc i < sp ! i"
        using p by (simp_all add: is_peak_def)
      let ?acc = "acc @ [code_peak sp i]"
      have step: "find_peaks_from sp thr cap i acc = find_peaks_from sp thr cap (i + 1) ?acc"
        using True p' by (subst find_peaks_from.simps) (simp add: Let_def code_peak_def [of sp i])
      have "find_peaks_from sp thr cap (i + 1) ?acc
          = ?acc @ take (cap - length ?acc)
              (map (code_peak sp) (filter (is_peak sp thr) [i + 1..<length sp - 1]))"
        using "1.IH" [OF True refl refl refl] True c p'
        by (simp add: code_peak_def [of sp i])
      moreover have "cap - length acc = Suc (cap - length ?acc)" using c by simp
      ultimately show ?thesis
        unfolding step upt using p by simp
    next
      case p: False
      have p': "\<not> (thr < sp ! i \<and> sp ! (i - Suc 0) < sp ! i \<and> sp ! Suc i < sp ! i)"
        using p by (simp add: is_peak_def)
      have step: "find_peaks_from sp thr cap i acc = find_peaks_from sp thr cap (i + 1) acc"
        using True p' by (subst find_peaks_from.simps) (auto simp: Let_def)
      have "find_peaks_from sp thr cap (i + 1) acc
          = acc @ take (cap - length acc)
              (map (code_peak sp) (filter (is_peak sp thr) [i + 1..<length sp - 1]))"
        using "1.IH" [OF True refl refl refl] True p' "1.prems"
        by auto
      then show ?thesis
        unfolding step upt using p by simp
    qed
  qed
qed

lemma peak_offset_spec: "peak_offset a b c = spec_offset a b c"
  by (simp add: peak_offset_def spec_offset_def clamp_def Let_def not_less)

lemma fl32_of_nat: "n < 16777216 \<Longrightarrow> fl32 (of_nat n) = of_nat n"
  using round_to_exact [of "int n" 24 "- 126" 0] by (simp add: fl32_def)

text \<open>
  Claim C2. For every spectrum (a \<^verbatim>\<open>Float32Array\<close>: its entries are single-precision
  floats), every threshold and every cap, the peaks found are \<open>spec_peaks\<close>: the interior
  bins \<open>1 \<le> i \<le> binCount - 2\<close> with \<open>spectrum[i]\<close> above the threshold and above both
  neighbours, in ascending order of the bin, cut after the first \<open>maxPeaks\<close>; each with the
  position \<open>i + offset\<close>, the offset being \<open>(prev - next) / d\<close> clamped to \<open>[-0.5, 0.5]\<close>
  for \<open>d = 2 * (prev - 2 * cur + next)\<close> and 0 when \<open>|d| \<le> 1e-4\<close>, and with the energy
  \<open>spectrum[i]\<close> itself. The arithmetic is the code's: doubles, and the position stored in
  the \<^verbatim>\<open>Float32Array\<close> of the peak bins.
\<close>

theorem find_peaks_spec:
  assumes "\<forall>v\<in>set spectrum. fl32 v = v"
  shows "find_peaks spectrum thr cap = spec_peaks spectrum thr cap"
proof -
  have "code_peak spectrum i = spec_peak spectrum i"
    if "i \<in> set (filter (is_peak spectrum thr) [1..<length spectrum - 1])" for i
  proof -
    have "i < length spectrum" using that by auto
    then have "fl32 (spectrum ! i) = spectrum ! i" using assms by simp
    then show ?thesis by (simp add: code_peak_def spec_peak_def peak_offset_spec)
  qed
  then have m: "map (code_peak spectrum) (filter (is_peak spectrum thr) [1..<length spectrum - 1])
      = map (spec_peak spectrum) (filter (is_peak spectrum thr) [1..<length spectrum - 1])"
    by (intro map_cong refl)
  have e: "find_peaks_from spectrum thr cap 1 []
      = [] @ take (cap - length ([] :: (rat \<times> rat) list))
          (map (code_peak spectrum) (filter (is_peak spectrum thr) [1..<length spectrum - 1]))"
    by (rule find_peaks_from_eq) simp
  show ?thesis
    unfolding find_peaks_def spec_peaks_def e m by simp
qed

lemma pkop_1: "fl64 (1 / 10000) = 7378697629483821 / 73786976294838206464"
  unfolding fl64_def
  by (subst round_to_near [where ?e0.0 = "- 14" and n = "7378697629483821"]) simp_all

lemma pkop_2: "fmul 2 3 = 6"
  unfolding fmul_def fl64_def
  by (subst round_to_near [where ?e0.0 = "2" and n = "6755399441055744"]) simp_all

lemma pkop_3: "fsub 0 6 = - 6"
  unfolding fsub_def fl64_def
  by (subst round_to_near [where ?e0.0 = "2" and n = "- 6755399441055744"]) simp_all

lemma pkop_4: "fadd (- 6) 1 = - 5"
  unfolding fadd_def fl64_def
  by (subst round_to_near [where ?e0.0 = "2" and n = "- 5629499534213120"]) simp_all

lemma pkop_5: "fmul 2 (- 5) = - 10"
  unfolding fmul_def fl64_def
  by (subst round_to_near [where ?e0.0 = "3" and n = "- 5629499534213120"]) simp_all

lemma pkop_6: "fsub 0 1 = - 1"
  unfolding fsub_def fl64_def
  by (subst round_to_near [where ?e0.0 = "0" and n = "- 4503599627370496"]) simp_all

lemma pkop_7: "fdiv (- 1) (- 10) = 3602879701896397 / 36028797018963968"
  unfolding fdiv_def fl64_def
  by (subst round_to_near [where ?e0.0 = "- 4" and n = "7205759403792794"]) simp_all

lemma pkop_8: "fadd 1 (3602879701896397 / 36028797018963968) = 2476979795053773 / 2251799813685248"
  unfolding fadd_def fl64_def
  by (subst round_to_near [where ?e0.0 = "0" and n = "4953959590107546"]) simp_all

lemma pkop_9: "fl32 (2476979795053773 / 2251799813685248) = 9227469 / 8388608"
  unfolding fl32_def
  by (subst round_to_near [where ?e0.0 = "0" and n = "9227469"]) simp_all

lemma pkop_10: "fmul 2 5 = 10"
  unfolding fmul_def fl64_def
  by (subst round_to_near [where ?e0.0 = "3" and n = "5629499534213120"]) simp_all

lemma pkop_11: "fsub 1 10 = - 9"
  unfolding fsub_def fl64_def
  by (subst round_to_near [where ?e0.0 = "3" and n = "- 5066549580791808"]) simp_all

lemma pkop_12: "fadd (- 9) 2 = - 7"
  unfolding fadd_def fl64_def
  by (subst round_to_near [where ?e0.0 = "2" and n = "- 7881299347898368"]) simp_all

lemma pkop_13: "fmul 2 (- 7) = - 14"
  unfolding fmul_def fl64_def
  by (subst round_to_near [where ?e0.0 = "3" and n = "- 7881299347898368"]) simp_all

lemma pkop_14: "fsub 1 2 = - 1"
  unfolding fsub_def fl64_def
  by (subst round_to_near [where ?e0.0 = "0" and n = "- 4503599627370496"]) simp_all

lemma pkop_15: "fdiv (- 1) (- 14) = 2573485501354569 / 36028797018963968"
  unfolding fdiv_def fl64_def
  by (subst round_to_near [where ?e0.0 = "- 4" and n = "5146971002709138"]) simp_all

lemma pkop_16: "fadd 3 (2573485501354569 / 36028797018963968) = 6916242284890405 / 2251799813685248"
  unfolding fadd_def fl64_def
  by (subst round_to_near [where ?e0.0 = "1" and n = "6916242284890405"]) simp_all

lemma pkop_17: "fl32 (6916242284890405 / 2251799813685248) = 12882505 / 4194304"
  unfolding fl32_def
  by (subst round_to_near [where ?e0.0 = "1" and n = "12882505"]) simp_all

lemma pkop_18: "fmul 2 7 = 14"
  unfolding fmul_def fl64_def
  by (subst round_to_near [where ?e0.0 = "3" and n = "7881299347898368"]) simp_all

lemma pkop_19: "fsub 2 14 = - 12"
  unfolding fsub_def fl64_def
  by (subst round_to_near [where ?e0.0 = "3" and n = "- 6755399441055744"]) simp_all

lemma pkop_20: "fadd (- 12) 0 = - 12"
  unfolding fadd_def fl64_def
  by (subst round_to_near [where ?e0.0 = "3" and n = "- 6755399441055744"]) simp_all

lemma pkop_21: "fmul 2 (- 12) = - 24"
  unfolding fmul_def fl64_def
  by (subst round_to_near [where ?e0.0 = "4" and n = "- 6755399441055744"]) simp_all

lemma pkop_22: "fsub 2 0 = 2"
  unfolding fsub_def fl64_def
  by (subst round_to_near [where ?e0.0 = "1" and n = "4503599627370496"]) simp_all

lemma pkop_23: "fdiv 2 (- 24) = - (6004799503160661 / 72057594037927936)"
  unfolding fdiv_def fl64_def
  by (subst round_to_near [where ?e0.0 = "- 4" and n = "- 6004799503160661"]) simp_all

lemma pkop_24: "fadd 6 (- (6004799503160661 / 72057594037927936)) = 6661574448818859 / 1125899906842624"
  unfolding fadd_def fl64_def
  by (subst round_to_near [where ?e0.0 = "2" and n = "6661574448818859"]) simp_all

lemma pkop_25: "fl32 (6661574448818859 / 1125899906842624) = 12408149 / 2097152"
  unfolding fl32_def
  by (subst round_to_near [where ?e0.0 = "2" and n = "12408149"]) simp_all

lemmas peak_flops = pkop_1 pkop_2 pkop_3 pkop_4 pkop_5 pkop_6 pkop_7 pkop_8
  pkop_9 pkop_10 pkop_11 pkop_12 pkop_13 pkop_14 pkop_15 pkop_16
  pkop_17 pkop_18 pkop_19 pkop_20 pkop_21 pkop_22 pkop_23 pkop_24
  pkop_25


lemma c00001_val: "c00001 = 7378697629483821 / 73786976294838206464"
  by (simp add: c00001_def peak_flops)

lemma spec_peaks_example:
  "spec_peaks [0, 3, 1, 5, 2, 2, 7, 0] 1 2 = [(9227469 / 8388608, 3), (12882505 / 4194304, 5)]"
  by (simp add: spec_peaks_def spec_peak_def spec_offset_def clamp_def is_peak_def Let_def
        c00001_val peak_flops upt_rec_numeral)

theorem find_peaks_spec_witness:
  "list_all (\<lambda>v. fl32 v = v) [0, 3, 1, 5, 2, 2, 7, 0]
   \<and> find_peaks [0, 3, 1, 5, 2, 2, 7, 0] 1 2 = spec_peaks [0, 3, 1, 5, 2, 2, 7, 0] 1 2
   \<and> find_peaks [0, 3, 1, 5, 2, 2, 7, 0] 1 2 = [(9227469 / 8388608, 3), (12882505 / 4194304, 5)]"
proof -
  have f: "fl32 0 = 0" "fl32 1 = 1" "fl32 2 = 2" "fl32 3 = 3" "fl32 5 = 5" "fl32 7 = 7"
    using fl32_of_nat [of 0] fl32_of_nat [of 1] fl32_of_nat [of 2] fl32_of_nat [of 3]
      fl32_of_nat [of 5] fl32_of_nat [of 7]
    by simp_all
  then have h: "\<forall>v\<in>set [0, 3, 1, 5, 2, 2, 7, 0 :: rat]. fl32 v = v" by simp
  show ?thesis
    using find_peaks_spec [OF h, of 1 2] f by (simp add: spec_peaks_example)
qed

section \<open>Properties of the noise floor\<close>

declare noise_scan.simps [simp del]

lemma fl64_idem: "fl64 (fl64 x) = fl64 x"
  by (simp add: fl64_def round_to_idem)

lemma fl64_zero: "fl64 0 = 0"
  by (simp add: fl64_def round_to_zero)

lemma noise_scan_none:
  "\<forall>i<length sp. i mod 10 = 0 \<longrightarrow> \<not> sp ! i < low \<Longrightarrow> k mod 10 = 0 \<Longrightarrow>
     noise_scan sp low k acc = acc"
proof (induction sp low k acc rule: noise_scan.induct)
  case (1 sp low k acc)
  show ?case
  proof (cases "k < length sp")
    case True
    then have nb: "\<not> sp ! k < low" using "1.prems" by simp
    have "noise_scan sp low k acc = noise_scan sp low (k + 10) acc"
      using True nb by (subst noise_scan.simps) simp
    also have "\<dots> = acc"
      using "1.IH" [OF True] "1.prems" nb by simp
    finally show ?thesis .
  next
    case False
    then show ?thesis by (subst noise_scan.simps) simp
  qed
qed

lemma nfop_1: "fl64 (19 / 20) = 4278419646001971 / 4503599627370496"
  unfolding fl64_def
  by (subst round_to_near [where ?e0.0 = "- 1" and n = "8556839292003942"]) simp_all

lemma nfop_2: "fmul 10 (4278419646001971 / 4503599627370496) = 19 / 2"
  unfolding fmul_def fl64_def
  by (subst round_to_near [where ?e0.0 = "3" and n = "5348024557502464"]) simp_all

lemma c095_val: "c095 = 4278419646001971 / 4503599627370496"
  by (simp add: c095_def nfop_1)

lemma decay_bounds:
  assumes "fl64 nf = nf" "0 \<le> nf"
  shows "0 \<le> fmul nf c095 \<and> fmul nf c095 \<le> nf"
proof -
  obtain n k where nk: "fl64 nf = of_int n * 2 powi k" "\<bar>n\<bar> < 2 ^ 53" "- 1022 - int 53 + 1 \<le> k"
    using round_to_form [of 53 "- 1022" nf] unfolding fl64_def by auto
  have nf: "nf = of_int n * 2 powi k" using nk(1) assms(1) by simp
  have "nf * c095 \<le> nf * 1"
    using assms(2) by (intro mult_left_mono) (simp_all add: c095_val)
  then have "nf * c095 \<le> of_int n * 2 powi k" using nf by simp
  then have "round_to 53 (- 1022) (nf * c095) \<le> of_int n * 2 powi k"
    using nk(2,3) by (intro round_to_le) simp_all
  then have up: "fmul nf c095 \<le> nf" by (simp add: fmul_def fl64_def nf)
  have "of_int 0 * 2 powi 0 \<le> nf * c095"
    using assms(2) by (simp add: c095_val)
  then have "of_int 0 * 2 powi 0 \<le> round_to 53 (- 1022) (nf * c095)"
    by (intro round_to_ge) simp_all
  then have "0 \<le> fmul nf c095" by (simp add: fmul_def fl64_def)
  then show ?thesis using up by simp
qed

lemma quiet_iff:
  "quiet spectrum maxE \<longleftrightarrow> (\<forall>i<length spectrum. i mod 10 = 0 \<longrightarrow> \<not> spectrum ! i < fmul maxE c03)"
  by (auto simp: quiet_def list_all_iff)

lemma gate_noiseFloor: "noiseFloor (fst (gate sf d pcs)) = noiseFloor d"
  by (simp add: gate_def Let_def split: option.splits)

lemma loop_frame_noiseFloor:
  "noiseFloor (fst (loop_frame b2m cfg d raw))
     = noise_floor_update (noiseFloor d) (spectrum_of raw (binCount cfg)) (frame_max raw (binCount cfg))"
  by (simp add: loop_frame_def Let_def gate_noiseFloor)

lemma loop_frame_threshold:
  "threshold (snd (snd (loop_frame b2m cfg d raw)))
     = threshold_of (noise_floor_update (noiseFloor d) (spectrum_of raw (binCount cfg))
         (frame_max raw (binCount cfg)))"
  by (simp add: loop_frame_def Let_def)

lemma quiet_update:
  assumes "quiet spectrum maxE"
  shows "floor_estimate spectrum maxE = 0" "noise_floor_update nf spectrum maxE = fmul nf c095"
proof -
  have s: "noise_scan spectrum (fmul maxE c03) 0 (0, 0) = (0, 0)"
    using assms by (intro noise_scan_none) (simp_all add: quiet_iff)
  show e: "floor_estimate spectrum maxE = 0" by (simp add: floor_estimate_def s)
  show "noise_floor_update nf spectrum maxE = fmul nf c095"
    by (simp add: noise_floor_update_def e fadd_def fmul_def fl64_zero fl64_idem)
qed

lemma fmul_fixed: "fl64 (fmul a b) = fmul a b"
  by (simp add: fmul_def fl64_idem)

lemma decay_funpow:
  assumes "fl64 nf = nf" "0 \<le> nf"
  shows "fl64 (((\<lambda>x. fmul x c095) ^^ k) nf) = ((\<lambda>x. fmul x c095) ^^ k) nf
    \<and> 0 \<le> ((\<lambda>x. fmul x c095) ^^ k) nf \<and> ((\<lambda>x. fmul x c095) ^^ k) nf \<le> nf"
proof (induction k)
  case 0
  then show ?case using assms by simp
next
  case (Suc k)
  let ?x = "((\<lambda>x. fmul x c095) ^^ k) nf"
  have "0 \<le> fmul ?x c095 \<and> fmul ?x c095 \<le> ?x"
    using Suc by (intro decay_bounds) simp_all
  then show ?case using Suc by (simp add: fmul_fixed)
qed

lemma run_frames_quiet:
  "\<forall>raw\<in>set raws. quiet_raw cfg raw \<Longrightarrow>
     noiseFloor (run_frames b2m cfg d raws) = ((\<lambda>x. fmul x c095) ^^ length raws) (noiseFloor d)"
proof (induction raws arbitrary: d)
  case Nil
  then show ?case by (simp add: run_frames_def)
next
  case (Cons raw raws)
  let ?d = "fst (loop_frame b2m cfg d raw)"
  have q: "quiet (spectrum_of raw (binCount cfg)) (frame_max raw (binCount cfg))"
    using Cons.prems by (simp add: quiet_raw_def)
  have d: "noiseFloor ?d = fmul (noiseFloor d) c095"
    by (simp add: loop_frame_noiseFloor quiet_update(2) [OF q])
  have "noiseFloor (run_frames b2m cfg d (raw # raws)) = noiseFloor (run_frames b2m cfg ?d raws)"
    by (simp add: run_frames_def)
  also have "\<dots> = ((\<lambda>x. fmul x c095) ^^ length raws) (noiseFloor ?d)"
    using Cons.IH [of ?d] Cons.prems by simp
  finally show ?case
    using funpow_swap1 [of "\<lambda>x. fmul x c095" "length raws" "noiseFloor d"] by (simp add: d)
qed

lemma fl32_zero: "fl32 0 = 0"
  by (simp add: fl32_def round_to_zero)

lemma silent_quiet:
  assumes "\<forall>b\<in>set (take (binCount cfg) raw). b = 0"
  shows "quiet_raw cfg raw"
proof -
  have m: "fold (\<lambda>b maxE. if maxE < b then b else maxE) xs 0 = (0 :: nat)" if "\<forall>b\<in>set xs. b = 0" for xs
    using that by (induction xs) simp_all
  have "frame_max raw (binCount cfg) = 0"
    using m [OF assms] by (simp add: frame_max_def)
  moreover have "spectrum_of raw (binCount cfg) ! i = 0"
    if "i < length (spectrum_of raw (binCount cfg))" for i
  proof -
    have "take (binCount cfg) raw ! i \<in> set (take (binCount cfg) raw)"
      using that by (intro nth_mem) (simp add: spectrum_of_def)
    then have "take (binCount cfg) raw ! i = 0" using assms by blast
    then show ?thesis using that by (simp add: spectrum_of_def fl32_zero)
  qed
  ultimately show ?thesis
    by (simp add: quiet_raw_def quiet_iff fmul_def fl64_zero)
qed

text \<open>
  Claim C10. On every quiet frame (no bin sampled at stride 10 strictly below 0.3 times the
  frame maximum; every all-zero frame is one, its maximum being 0) the count of the loop is
  0 and the floor estimate is 0, not the undefined mean of no samples: the noise floor
  becomes \<open>noiseFloor * 0.95\<close> and the threshold \<open>min(255, noiseFloor * 0.95 * 3)\<close>. Over a
  run of quiet frames the noise floor is multiplied by 0.95 once per frame (in double
  arithmetic), and it never increases.
\<close>

theorem quiet_frames_noise_floor:
  assumes "\<forall>raw\<in>set raws. quiet_raw cfg raw"
  shows "(\<forall>raw\<in>set raws. \<forall>d.
            floor_estimate (spectrum_of raw (binCount cfg)) (frame_max raw (binCount cfg)) = 0
          \<and> noiseFloor (fst (loop_frame b2m cfg d raw)) = fmul (noiseFloor d) c095
          \<and> threshold (snd (snd (loop_frame b2m cfg d raw)))
              = min 255 (fmul (fmul (noiseFloor d) c095) 3))
    \<and> noiseFloor (run_frames b2m cfg d0 raws)
        = ((\<lambda>nf. fmul nf c095) ^^ length raws) (noiseFloor d0)
    \<and> (fl64 (noiseFloor d0) = noiseFloor d0 \<and> 0 \<le> noiseFloor d0 \<longrightarrow>
          0 \<le> noiseFloor (run_frames b2m cfg d0 raws)
        \<and> noiseFloor (run_frames b2m cfg d0 raws) \<le> noiseFloor d0)
    \<and> (\<forall>raw. (\<forall>b\<in>set (take (binCount cfg) raw). b = 0) \<longrightarrow> quiet_raw cfg raw)"
proof -
  have one: "floor_estimate (spectrum_of raw (binCount cfg)) (frame_max raw (binCount cfg)) = 0
      \<and> noiseFloor (fst (loop_frame b2m cfg d raw)) = fmul (noiseFloor d) c095
      \<and> threshold (snd (snd (loop_frame b2m cfg d raw))) = min 255 (fmul (fmul (noiseFloor d) c095) 3)"
    if "raw \<in> set raws" for raw d
  proof -
    have q: "quiet (spectrum_of raw (binCount cfg)) (frame_max raw (binCount cfg))"
      using assms that by (simp add: quiet_raw_def)
    show ?thesis
      by (simp add: loop_frame_noiseFloor loop_frame_threshold quiet_update [OF q] threshold_of_def)
  qed
  have run: "noiseFloor (run_frames b2m cfg d0 raws)
      = ((\<lambda>nf. fmul nf c095) ^^ length raws) (noiseFloor d0)"
    using assms by (rule run_frames_quiet)
  have mono: "0 \<le> noiseFloor (run_frames b2m cfg d0 raws)
      \<and> noiseFloor (run_frames b2m cfg d0 raws) \<le> noiseFloor d0"
    if "fl64 (noiseFloor d0) = noiseFloor d0 \<and> 0 \<le> noiseFloor d0"
    using decay_funpow [of "noiseFloor d0" "length raws"] that by (simp add: run)
  show ?thesis
    using one run mono silent_quiet by blast
qed

lemma nfop_3: "fmul (19 / 2) (4278419646001971 / 4503599627370496) = 5080623329627341 / 562949953421312"
  unfolding fmul_def fl64_def
  by (subst round_to_near [where ?e0.0 = "3" and n = "5080623329627341"]) simp_all

lemma nfop_4: "fmul (19 / 2) 3 = 57 / 2"
  unfolding fmul_def fl64_def
  by (subst round_to_near [where ?e0.0 = "4" and n = "8022036836253696"]) simp_all

theorem quiet_frames_noise_floor_witness:
  "quiet_raw small_config (replicate 12 0)
   \<and> noiseFloor (fst (loop_frame (\<lambda>x. 60) small_config (detector_init\<lparr>noiseFloor := 10\<rparr>)
                       (replicate 12 0))) = 19 / 2
   \<and> threshold (snd (snd (loop_frame (\<lambda>x. 60) small_config (detector_init\<lparr>noiseFloor := 10\<rparr>)
                       (replicate 12 0)))) = 57 / 2
   \<and> noiseFloor (run_frames (\<lambda>x. 60) small_config (detector_init\<lparr>noiseFloor := 10\<rparr>)
                   [replicate 12 0, replicate 12 0]) = 5080623329627341 / 562949953421312"
proof -
  have q: "quiet_raw small_config (replicate 12 0)"
    by (rule silent_quiet) simp
  then have h: "\<forall>raw\<in>set [replicate 12 0, replicate 12 0]. quiet_raw small_config raw" by simp
  note t = quiet_frames_noise_floor [OF h, of "\<lambda>x. 60" "detector_init\<lparr>noiseFloor := 10\<rparr>"]
  have one: "noiseFloor (fst (loop_frame (\<lambda>x. 60) small_config (detector_init\<lparr>noiseFloor := 10\<rparr>)
                 (replicate 12 0))) = fmul 10 c095"
    "threshold (snd (snd (loop_frame (\<lambda>x. 60) small_config (detector_init\<lparr>noiseFloor := 10\<rparr>)
                 (replicate 12 0)))) = min 255 (fmul (fmul 10 c095) 3)"
    using t by simp_all
  have two: "noiseFloor (run_frames (\<lambda>x. 60) small_config (detector_init\<lparr>noiseFloor := 10\<rparr>)
                 [replicate 12 0, replicate 12 0]) = fmul (fmul 10 c095) c095"
    using t by (simp add: numeral_2_eq_2)
  show ?thesis
    using q one two by (simp add: c095_val nfop_2 nfop_3 nfop_4)
qed

section \<open>Properties of the harmonic sieve\<close>

subsection \<open>Marking and selection\<close>
















subsection \<open>A base peak with its harmonics\<close>

text \<open>
  The double and float32 operations of the sieve on the peaks \<open>harmonic_peaks 48\<close>, each with
  the exponent and the significand of its result; then the expected harmonic positions of
  the four peaks, which peak is within 0.5 semitones of which position, and the scores and
  the selection for the energies \<open>[1, 1, 1, 1]\<close> and \<open>[1, 100, 1, 1]\<close>.
\<close>

lemma sv_1: "fl64 (3 / 10) = 5404319552844595 / 18014398509481984"
  unfolding fl64_def
  by (subst round_to_near [where ?e0.0 = "- 2" and n = "5404319552844595"]) simp_all

lemma sv_2: "fmul 12 0 = 0"
  by (simp add: fmul_def fl64_def round_to_zero)

lemma sv_3: "fmul 12 1 = 12"
  unfolding fmul_def fl64_def
  by (subst round_to_near [where ?e0.0 = "3" and n = "6755399441055744"]) simp_all

lemma sv_4: "fmul 12 (892254565955501 / 562949953421312) = 2676763697866503 / 140737488355328"
  unfolding fmul_def fl64_def
  by (subst round_to_near [where ?e0.0 = "4" and n = "5353527395733006"]) simp_all

lemma sv_5: "fmul 12 2 = 24"
  unfolding fmul_def fl64_def
  by (subst round_to_near [where ?e0.0 = "4" and n = "6755399441055744"]) simp_all

lemma sv_6: "fmul 12 (5228517251457905 / 2251799813685248) = 3921387938593429 / 140737488355328"
  unfolding fmul_def fl64_def
  by (subst round_to_tie [where ?e0.0 = "4" and f = "7842775877186857"]) simp_all

lemma sv_7: "fmul 12 (1455204519376813 / 562949953421312) = 4365613558130439 / 140737488355328"
  unfolding fmul_def fl64_def
  by (subst round_to_near [where ?e0.0 = "4" and n = "8731227116260878"]) simp_all

lemma sv_8: "fadd 48 0 = 48"
  unfolding fadd_def fl64_def
  by (subst round_to_near [where ?e0.0 = "5" and n = "6755399441055744"]) simp_all

lemma sv_9: "fl32 48 = 48"
  unfolding fl32_def
  by (subst round_to_near [where ?e0.0 = "5" and n = "12582912"]) simp_all

lemma sv_10: "fadd 48 12 = 60"
  unfolding fadd_def fl64_def
  by (subst round_to_near [where ?e0.0 = "5" and n = "8444249301319680"]) simp_all

lemma sv_11: "fl32 60 = 60"
  unfolding fl32_def
  by (subst round_to_near [where ?e0.0 = "5" and n = "15728640"]) simp_all

lemma sv_12: "fadd 48 (2676763697866503 / 140737488355328) = 1179020392365281 / 17592186044416"
  unfolding fadd_def fl64_def
  by (subst round_to_tie [where ?e0.0 = "6" and f = "4716081569461123"]) simp_all

lemma sv_13: "fl32 (1179020392365281 / 17592186044416) = 4392193 / 65536"
  unfolding fl32_def
  by (subst round_to_near [where ?e0.0 = "6" and n = "8784386"]) simp_all

lemma sv_14: "fadd 48 24 = 72"
  unfolding fadd_def fl64_def
  by (subst round_to_near [where ?e0.0 = "6" and n = "5066549580791808"]) simp_all

lemma sv_15: "fl32 72 = 72"
  unfolding fl32_def
  by (subst round_to_near [where ?e0.0 = "6" and n = "9437184"]) simp_all

lemma sv_16: "fadd 48 (3921387938593429 / 140737488355328) = 2669196844912293 / 35184372088832"
  unfolding fadd_def fl64_def
  by (subst round_to_tie [where ?e0.0 = "6" and f = "5338393689824586"]) simp_all

lemma sv_17: "fadd 48 (4365613558130439 / 140737488355328) = 1390126624898273 / 17592186044416"
  unfolding fadd_def fl64_def
  by (subst round_to_tie [where ?e0.0 = "6" and f = "5560506499593091"]) simp_all

lemma sv_18: "fadd 60 12 = 72"
  unfolding fadd_def fl64_def
  by (subst round_to_near [where ?e0.0 = "6" and n = "5066549580791808"]) simp_all

lemma sv_19: "fadd 60 (2676763697866503 / 140737488355328) = 1390126624898273 / 17592186044416"
  unfolding fadd_def fl64_def
  by (subst round_to_tie [where ?e0.0 = "6" and f = "5560506499593091"]) simp_all

lemma sv_20: "fadd 60 24 = 84"
  unfolding fadd_def fl64_def
  by (subst round_to_near [where ?e0.0 = "6" and n = "5910974510923776"]) simp_all

lemma sv_21: "fadd 60 (3921387938593429 / 140737488355328) = 3091409309978277 / 35184372088832"
  unfolding fadd_def fl64_def
  by (subst round_to_tie [where ?e0.0 = "6" and f = "6182818619956554"]) simp_all

lemma sv_22: "fadd 60 (4365613558130439 / 140737488355328) = 1601232857431265 / 17592186044416"
  unfolding fadd_def fl64_def
  by (subst round_to_tie [where ?e0.0 = "6" and f = "6404931429725059"]) simp_all

lemma sv_23: "fadd (4392193 / 65536) 12 = 5178625 / 65536"
  unfolding fadd_def fl64_def
  by (subst round_to_near [where ?e0.0 = "6" and n = "5560506253312000"]) simp_all

lemma sv_24: "fadd (4392193 / 65536) (2676763697866503 / 140737488355328) = 1513615793028321 / 17592186044416"
  unfolding fadd_def fl64_def
  by (subst round_to_tie [where ?e0.0 = "6" and f = "6054463172113283"]) simp_all

lemma sv_25: "fadd (4392193 / 65536) 24 = 5965057 / 65536"
  unfolding fadd_def fl64_def
  by (subst round_to_near [where ?e0.0 = "6" and n = "6404931183443968"]) simp_all

lemma sv_26: "fadd (4392193 / 65536) (3921387938593429 / 140737488355328) = 3338387646238373 / 35184372088832"
  unfolding fadd_def fl64_def
  by (subst round_to_tie [where ?e0.0 = "6" and f = "6676775292476746"]) simp_all

lemma sv_27: "fadd (4392193 / 65536) (4365613558130439 / 140737488355328) = 1724722025561313 / 17592186044416"
  unfolding fadd_def fl64_def
  by (subst round_to_tie [where ?e0.0 = "6" and f = "6898888102245251"]) simp_all

lemma sv_28: "fadd 72 12 = 84"
  unfolding fadd_def fl64_def
  by (subst round_to_near [where ?e0.0 = "6" and n = "5910974510923776"]) simp_all

lemma sv_29: "fadd 72 (2676763697866503 / 140737488355328) = 1601232857431265 / 17592186044416"
  unfolding fadd_def fl64_def
  by (subst round_to_tie [where ?e0.0 = "6" and f = "6404931429725059"]) simp_all

lemma sv_30: "fadd 72 24 = 96"
  unfolding fadd_def fl64_def
  by (subst round_to_near [where ?e0.0 = "6" and n = "6755399441055744"]) simp_all

lemma sv_31: "fadd 72 (3921387938593429 / 140737488355328) = 3513621775044261 / 35184372088832"
  unfolding fadd_def fl64_def
  by (subst round_to_tie [where ?e0.0 = "6" and f = "7027243550088522"]) simp_all

lemma sv_32: "fadd 72 (4365613558130439 / 140737488355328) = 1812339089964257 / 17592186044416"
  unfolding fadd_def fl64_def
  by (subst round_to_tie [where ?e0.0 = "6" and f = "7249356359857027"]) simp_all

lemma sv_33: "fsub 48 60 = - 12"
  unfolding fsub_def fl64_def
  by (subst round_to_near [where ?e0.0 = "3" and n = "- 6755399441055744"]) simp_all

lemma sv_34: "fsub 60 60 = 0"
  by (simp add: fsub_def fl64_def round_to_zero)

lemma sv_35: "fsub (4392193 / 65536) 60 = 460033 / 65536"
  unfolding fsub_def fl64_def
  by (subst round_to_near [where ?e0.0 = "2" and n = "7903306760323072"]) simp_all

lemma sv_36: "fsub 72 60 = 12"
  unfolding fsub_def fl64_def
  by (subst round_to_near [where ?e0.0 = "3" and n = "6755399441055744"]) simp_all

lemma sv_37: "fsub 48 (1179020392365281 / 17592186044416) = - (334595462233313 / 17592186044416)"
  unfolding fsub_def fl64_def
  by (subst round_to_near [where ?e0.0 = "4" and n = "- 5353527395733008"]) simp_all

lemma sv_38: "fsub 60 (1179020392365281 / 17592186044416) = - (123489229700321 / 17592186044416)"
  unfolding fsub_def fl64_def
  by (subst round_to_near [where ?e0.0 = "2" and n = "- 7903310700820544"]) simp_all

lemma sv_39: "fsub (4392193 / 65536) (1179020392365281 / 17592186044416) = - (61570273 / 17592186044416)"
  unfolding fsub_def fl64_def
  by (subst round_to_near [where ?e0.0 = "- 19" and n = "- 8263822154399744"]) simp_all

lemma sv_40: "fsub 72 (1179020392365281 / 17592186044416) = 87617002832671 / 17592186044416"
  unfolding fsub_def fl64_def
  by (subst round_to_near [where ?e0.0 = "2" and n = "5607488181290944"]) simp_all

lemma sv_41: "fsub 48 72 = - 24"
  unfolding fsub_def fl64_def
  by (subst round_to_near [where ?e0.0 = "4" and n = "- 6755399441055744"]) simp_all

lemma sv_42: "fsub 60 72 = - 12"
  unfolding fsub_def fl64_def
  by (subst round_to_near [where ?e0.0 = "3" and n = "- 6755399441055744"]) simp_all

lemma sv_43: "fsub (4392193 / 65536) 72 = - (326399 / 65536)"
  unfolding fsub_def fl64_def
  by (subst round_to_near [where ?e0.0 = "2" and n = "- 5607492121788416"]) simp_all

lemma sv_44: "fsub 72 72 = 0"
  by (simp add: fsub_def fl64_def round_to_zero)

lemma sv_45: "fsub 48 (2669196844912293 / 35184372088832) = - (980346984648357 / 35184372088832)"
  unfolding fsub_def fl64_def
  by (subst round_to_near [where ?e0.0 = "4" and n = "- 7842775877186856"]) simp_all

lemma sv_46: "fsub 60 (2669196844912293 / 35184372088832) = - (558134519582373 / 35184372088832)"
  unfolding fsub_def fl64_def
  by (subst round_to_near [where ?e0.0 = "3" and n = "- 8930152313317968"]) simp_all

lemma sv_47: "fsub (4392193 / 65536) (2669196844912293 / 35184372088832) = - (311156183322277 / 35184372088832)"
  unfolding fsub_def fl64_def
  by (subst round_to_near [where ?e0.0 = "3" and n = "- 4978498933156432"]) simp_all

lemma sv_48: "fsub 72 (2669196844912293 / 35184372088832) = - (135922054516389 / 35184372088832)"
  unfolding fsub_def fl64_def
  by (subst round_to_near [where ?e0.0 = "1" and n = "- 8699011489048896"]) simp_all

lemma sv_49: "fsub 48 (1390126624898273 / 17592186044416) = - (545701694766305 / 17592186044416)"
  unfolding fsub_def fl64_def
  by (subst round_to_near [where ?e0.0 = "4" and n = "- 8731227116260880"]) simp_all

lemma sv_50: "fsub 60 (1390126624898273 / 17592186044416) = - (334595462233313 / 17592186044416)"
  unfolding fsub_def fl64_def
  by (subst round_to_near [where ?e0.0 = "4" and n = "- 5353527395733008"]) simp_all

lemma sv_51: "fsub (4392193 / 65536) (1390126624898273 / 17592186044416) = - (211106294103265 / 17592186044416)"
  unfolding fsub_def fl64_def
  by (subst round_to_near [where ?e0.0 = "3" and n = "- 6755401411304480"]) simp_all

lemma sv_52: "fsub 72 (1390126624898273 / 17592186044416) = - (123489229700321 / 17592186044416)"
  unfolding fsub_def fl64_def
  by (subst round_to_near [where ?e0.0 = "2" and n = "- 7903310700820544"]) simp_all

lemma sv_53: "fsub 48 84 = - 36"
  unfolding fsub_def fl64_def
  by (subst round_to_near [where ?e0.0 = "5" and n = "- 5066549580791808"]) simp_all

lemma sv_54: "fsub 60 84 = - 24"
  unfolding fsub_def fl64_def
  by (subst round_to_near [where ?e0.0 = "4" and n = "- 6755399441055744"]) simp_all

lemma sv_55: "fsub (4392193 / 65536) 84 = - (1112831 / 65536)"
  unfolding fsub_def fl64_def
  by (subst round_to_near [where ?e0.0 = "4" and n = "- 4779572750974976"]) simp_all

lemma sv_56: "fsub 72 84 = - 12"
  unfolding fsub_def fl64_def
  by (subst round_to_near [where ?e0.0 = "3" and n = "- 6755399441055744"]) simp_all

lemma sv_57: "fsub 48 (3091409309978277 / 35184372088832) = - (1402559449714341 / 35184372088832)"
  unfolding fsub_def fl64_def
  by (subst round_to_near [where ?e0.0 = "5" and n = "- 5610237798857364"]) simp_all

lemma sv_58: "fsub 60 (3091409309978277 / 35184372088832) = - (980346984648357 / 35184372088832)"
  unfolding fsub_def fl64_def
  by (subst round_to_near [where ?e0.0 = "4" and n = "- 7842775877186856"]) simp_all

lemma sv_59: "fsub (4392193 / 65536) (3091409309978277 / 35184372088832) = - (733368648388261 / 35184372088832)"
  unfolding fsub_def fl64_def
  by (subst round_to_near [where ?e0.0 = "4" and n = "- 5866949187106088"]) simp_all

lemma sv_60: "fsub 72 (3091409309978277 / 35184372088832) = - (558134519582373 / 35184372088832)"
  unfolding fsub_def fl64_def
  by (subst round_to_near [where ?e0.0 = "3" and n = "- 8930152313317968"]) simp_all

lemma sv_61: "fsub 48 (1601232857431265 / 17592186044416) = - (756807927299297 / 17592186044416)"
  unfolding fsub_def fl64_def
  by (subst round_to_near [where ?e0.0 = "5" and n = "- 6054463418394376"]) simp_all

lemma sv_62: "fsub 60 (1601232857431265 / 17592186044416) = - (545701694766305 / 17592186044416)"
  unfolding fsub_def fl64_def
  by (subst round_to_near [where ?e0.0 = "4" and n = "- 8731227116260880"]) simp_all

lemma sv_63: "fsub (4392193 / 65536) (1601232857431265 / 17592186044416) = - (422212526636257 / 17592186044416)"
  unfolding fsub_def fl64_def
  by (subst round_to_near [where ?e0.0 = "4" and n = "- 6755400426180112"]) simp_all

lemma sv_64: "fsub 72 (1601232857431265 / 17592186044416) = - (334595462233313 / 17592186044416)"
  unfolding fsub_def fl64_def
  by (subst round_to_near [where ?e0.0 = "4" and n = "- 5353527395733008"]) simp_all

lemma sv_65: "fsub 48 (5178625 / 65536) = - (2032897 / 65536)"
  unfolding fsub_def fl64_def
  by (subst round_to_near [where ?e0.0 = "4" and n = "- 8731226131136512"]) simp_all

lemma sv_66: "fsub 60 (5178625 / 65536) = - (1246465 / 65536)"
  unfolding fsub_def fl64_def
  by (subst round_to_near [where ?e0.0 = "4" and n = "- 5353526410608640"]) simp_all

lemma sv_67: "fsub (4392193 / 65536) (5178625 / 65536) = - 12"
  unfolding fsub_def fl64_def
  by (subst round_to_near [where ?e0.0 = "3" and n = "- 6755399441055744"]) simp_all

lemma sv_68: "fsub 72 (5178625 / 65536) = - (460033 / 65536)"
  unfolding fsub_def fl64_def
  by (subst round_to_near [where ?e0.0 = "2" and n = "- 7903306760323072"]) simp_all

lemma sv_69: "fsub 48 (1513615793028321 / 17592186044416) = - (669190862896353 / 17592186044416)"
  unfolding fsub_def fl64_def
  by (subst round_to_near [where ?e0.0 = "5" and n = "- 5353526903170824"]) simp_all

lemma sv_70: "fsub 60 (1513615793028321 / 17592186044416) = - (458084630363361 / 17592186044416)"
  unfolding fsub_def fl64_def
  by (subst round_to_near [where ?e0.0 = "4" and n = "- 7329354085813776"]) simp_all

lemma sv_71: "fsub (4392193 / 65536) (1513615793028321 / 17592186044416) = - (334595462233313 / 17592186044416)"
  unfolding fsub_def fl64_def
  by (subst round_to_near [where ?e0.0 = "4" and n = "- 5353527395733008"]) simp_all

lemma sv_72: "fsub 72 (1513615793028321 / 17592186044416) = - (246978397830369 / 17592186044416)"
  unfolding fsub_def fl64_def
  by (subst round_to_near [where ?e0.0 = "3" and n = "- 7903308730571808"]) simp_all

lemma sv_73: "fsub 48 (5965057 / 65536) = - (2819329 / 65536)"
  unfolding fsub_def fl64_def
  by (subst round_to_near [where ?e0.0 = "5" and n = "- 6054462925832192"]) simp_all

lemma sv_74: "fsub 60 (5965057 / 65536) = - (2032897 / 65536)"
  unfolding fsub_def fl64_def
  by (subst round_to_near [where ?e0.0 = "4" and n = "- 8731226131136512"]) simp_all

lemma sv_75: "fsub (4392193 / 65536) (5965057 / 65536) = - 24"
  unfolding fsub_def fl64_def
  by (subst round_to_near [where ?e0.0 = "4" and n = "- 6755399441055744"]) simp_all

lemma sv_76: "fsub 72 (5965057 / 65536) = - (1246465 / 65536)"
  unfolding fsub_def fl64_def
  by (subst round_to_near [where ?e0.0 = "4" and n = "- 5353526410608640"]) simp_all

lemma sv_77: "fsub 48 (3338387646238373 / 35184372088832) = - (1649537785974437 / 35184372088832)"
  unfolding fsub_def fl64_def
  by (subst round_to_near [where ?e0.0 = "5" and n = "- 6598151143897748"]) simp_all

lemma sv_78: "fsub 60 (3338387646238373 / 35184372088832) = - (1227325320908453 / 35184372088832)"
  unfolding fsub_def fl64_def
  by (subst round_to_near [where ?e0.0 = "5" and n = "- 4909301283633812"]) simp_all

lemma sv_79: "fsub (4392193 / 65536) (3338387646238373 / 35184372088832) = - (980346984648357 / 35184372088832)"
  unfolding fsub_def fl64_def
  by (subst round_to_near [where ?e0.0 = "4" and n = "- 7842775877186856"]) simp_all

lemma sv_80: "fsub 72 (3338387646238373 / 35184372088832) = - (805112855842469 / 35184372088832)"
  unfolding fsub_def fl64_def
  by (subst round_to_near [where ?e0.0 = "4" and n = "- 6440902846739752"]) simp_all

lemma sv_81: "fsub 48 (1724722025561313 / 17592186044416) = - (880297095429345 / 17592186044416)"
  unfolding fsub_def fl64_def
  by (subst round_to_near [where ?e0.0 = "5" and n = "- 7042376763434760"]) simp_all

lemma sv_82: "fsub 60 (1724722025561313 / 17592186044416) = - (669190862896353 / 17592186044416)"
  unfolding fsub_def fl64_def
  by (subst round_to_near [where ?e0.0 = "5" and n = "- 5353526903170824"]) simp_all

lemma sv_83: "fsub (4392193 / 65536) (1724722025561313 / 17592186044416) = - (545701694766305 / 17592186044416)"
  unfolding fsub_def fl64_def
  by (subst round_to_near [where ?e0.0 = "4" and n = "- 8731227116260880"]) simp_all

lemma sv_84: "fsub 72 (1724722025561313 / 17592186044416) = - (458084630363361 / 17592186044416)"
  unfolding fsub_def fl64_def
  by (subst round_to_near [where ?e0.0 = "4" and n = "- 7329354085813776"]) simp_all

lemma sv_85: "fsub 48 96 = - 48"
  unfolding fsub_def fl64_def
  by (subst round_to_near [where ?e0.0 = "5" and n = "- 6755399441055744"]) simp_all

lemma sv_86: "fsub 60 96 = - 36"
  unfolding fsub_def fl64_def
  by (subst round_to_near [where ?e0.0 = "5" and n = "- 5066549580791808"]) simp_all

lemma sv_87: "fsub (4392193 / 65536) 96 = - (1899263 / 65536)"
  unfolding fsub_def fl64_def
  by (subst round_to_near [where ?e0.0 = "4" and n = "- 8157272471502848"]) simp_all

lemma sv_88: "fsub 72 96 = - 24"
  unfolding fsub_def fl64_def
  by (subst round_to_near [where ?e0.0 = "4" and n = "- 6755399441055744"]) simp_all

lemma sv_89: "fsub 48 (3513621775044261 / 35184372088832) = - (1824771914780325 / 35184372088832)"
  unfolding fsub_def fl64_def
  by (subst round_to_near [where ?e0.0 = "5" and n = "- 7299087659121300"]) simp_all

lemma sv_90: "fsub 60 (3513621775044261 / 35184372088832) = - (1402559449714341 / 35184372088832)"
  unfolding fsub_def fl64_def
  by (subst round_to_near [where ?e0.0 = "5" and n = "- 5610237798857364"]) simp_all

lemma sv_91: "fsub (4392193 / 65536) (3513621775044261 / 35184372088832) = - (1155581113454245 / 35184372088832)"
  unfolding fsub_def fl64_def
  by (subst round_to_near [where ?e0.0 = "5" and n = "- 4622324453816980"]) simp_all

lemma sv_92: "fsub 72 (3513621775044261 / 35184372088832) = - (980346984648357 / 35184372088832)"
  unfolding fsub_def fl64_def
  by (subst round_to_near [where ?e0.0 = "4" and n = "- 7842775877186856"]) simp_all

lemma sv_93: "fsub 48 (1812339089964257 / 17592186044416) = - (967914159832289 / 17592186044416)"
  unfolding fsub_def fl64_def
  by (subst round_to_near [where ?e0.0 = "5" and n = "- 7743313278658312"]) simp_all

lemma sv_94: "fsub 60 (1812339089964257 / 17592186044416) = - (756807927299297 / 17592186044416)"
  unfolding fsub_def fl64_def
  by (subst round_to_near [where ?e0.0 = "5" and n = "- 6054463418394376"]) simp_all

lemma sv_95: "fsub (4392193 / 65536) (1812339089964257 / 17592186044416) = - (633318759169249 / 17592186044416)"
  unfolding fsub_def fl64_def
  by (subst round_to_near [where ?e0.0 = "5" and n = "- 5066550073353992"]) simp_all

lemma sv_96: "fsub 72 (1812339089964257 / 17592186044416) = - (545701694766305 / 17592186044416)"
  unfolding fsub_def fl64_def
  by (subst round_to_near [where ?e0.0 = "4" and n = "- 8731227116260880"]) simp_all

lemma sv_97: "fdiv 1 2 = 1 / 2"
  unfolding fdiv_def fl64_def
  by (subst round_to_near [where ?e0.0 = "- 1" and n = "4503599627370496"]) simp_all

lemma sv_98: "fadd 1 (1 / 2) = 3 / 2"
  unfolding fadd_def fl64_def
  by (subst round_to_near [where ?e0.0 = "0" and n = "6755399441055744"]) simp_all

lemma sv_99: "fdiv 1 3 = 6004799503160661 / 18014398509481984"
  unfolding fdiv_def fl64_def
  by (subst round_to_near [where ?e0.0 = "- 2" and n = "6004799503160661"]) simp_all

lemma sv_100: "fadd (3 / 2) (6004799503160661 / 18014398509481984) = 8256599316845909 / 4503599627370496"
  unfolding fadd_def fl64_def
  by (subst round_to_near [where ?e0.0 = "0" and n = "8256599316845909"]) simp_all

lemma sv_101: "fdiv 1 4 = 1 / 4"
  unfolding fdiv_def fl64_def
  by (subst round_to_near [where ?e0.0 = "- 2" and n = "4503599627370496"]) simp_all

lemma sv_102: "fadd (8256599316845909 / 4503599627370496) (1 / 4) = 2345624805922133 / 1125899906842624"
  unfolding fadd_def fl64_def
  by (subst round_to_tie [where ?e0.0 = "1" and f = "4691249611844266"]) simp_all

lemma sv_103: "fmul (2345624805922133 / 1125899906842624) 2 = 2345624805922133 / 562949953421312"
  unfolding fmul_def fl64_def
  by (subst round_to_near [where ?e0.0 = "2" and n = "4691249611844266"]) simp_all

lemma sv_104: "fl32 (2345624805922133 / 562949953421312) = 8738133 / 2097152"
  unfolding fl32_def
  by (subst round_to_near [where ?e0.0 = "2" and n = "8738133"]) simp_all

lemma sv_105: "fmul (3 / 2) (6369051672525773 / 4503599627370496) = 2388394377197165 / 1125899906842624"
  unfolding fmul_def fl64_def
  by (subst round_to_near [where ?e0.0 = "1" and n = "4776788754394330"]) simp_all

lemma sv_106: "fl32 (2388394377197165 / 1125899906842624) = 4448731 / 2097152"
  unfolding fl32_def
  by (subst round_to_near [where ?e0.0 = "1" and n = "8897462"]) simp_all

lemma sv_107: "fmul 1 1 = 1"
  unfolding fmul_def fl64_def
  by (subst round_to_near [where ?e0.0 = "0" and n = "4503599627370496"]) simp_all

lemma sv_108: "fl32 1 = 1"
  unfolding fl32_def
  by (subst round_to_near [where ?e0.0 = "0" and n = "8388608"]) simp_all

lemma sv_109: "fdiv (8738133 / 2097152) (8738133 / 2097152) = 1"
  unfolding fdiv_def fl64_def
  by (subst round_to_near [where ?e0.0 = "0" and n = "4503599627370496"]) simp_all

lemma sv_110: "fdiv (4448731 / 2097152) (8738133 / 2097152) = 2292858585909779 / 4503599627370496"
  unfolding fdiv_def fl64_def
  by (subst round_to_near [where ?e0.0 = "- 1" and n = "4585717171819558"]) simp_all

lemma sv_111: "fl32 (2292858585909779 / 4503599627370496) = 2135391 / 4194304"
  unfolding fl32_def
  by (subst round_to_near [where ?e0.0 = "- 1" and n = "8541564"]) simp_all

lemma sv_112: "fdiv 1 (8738133 / 2097152) = 8646911614404853 / 36028797018963968"
  unfolding fdiv_def fl64_def
  by (subst round_to_near [where ?e0.0 = "- 3" and n = "8646911614404853"]) simp_all

lemma sv_113: "fl32 (8646911614404853 / 36028797018963968) = 1006633 / 4194304"
  unfolding fl32_def
  by (subst round_to_near [where ?e0.0 = "- 3" and n = "16106128"]) simp_all

lemma sv_114: "fdiv 100 2 = 50"
  unfolding fdiv_def fl64_def
  by (subst round_to_near [where ?e0.0 = "5" and n = "7036874417766400"]) simp_all

lemma sv_115: "fadd 1 50 = 51"
  unfolding fadd_def fl64_def
  by (subst round_to_near [where ?e0.0 = "5" and n = "7177611906121728"]) simp_all

lemma sv_116: "fadd 51 (6004799503160661 / 18014398509481984) = 7224524402240171 / 140737488355328"
  unfolding fadd_def fl64_def
  by (subst round_to_near [where ?e0.0 = "5" and n = "7224524402240171"]) simp_all

lemma sv_117: "fadd (7224524402240171 / 140737488355328) (1 / 4) = 7259708774329003 / 140737488355328"
  unfolding fadd_def fl64_def
  by (subst round_to_near [where ?e0.0 = "5" and n = "7259708774329003"]) simp_all

lemma sv_118: "fmul (7259708774329003 / 140737488355328) 2 = 7259708774329003 / 70368744177664"
  unfolding fmul_def fl64_def
  by (subst round_to_near [where ?e0.0 = "6" and n = "7259708774329003"]) simp_all

lemma sv_119: "fl32 (7259708774329003 / 70368744177664) = 13522261 / 131072"
  unfolding fl32_def
  by (subst round_to_near [where ?e0.0 = "6" and n = "13522261"]) simp_all

lemma sv_120: "fadd 100 (1 / 2) = 201 / 2"
  unfolding fadd_def fl64_def
  by (subst round_to_near [where ?e0.0 = "6" and n = "7072058789855232"]) simp_all

lemma sv_121: "fmul (201 / 2) (6369051672525773 / 4503599627370496) = 1250175181814141 / 8796093022208"
  unfolding fmul_def fl64_def
  by (subst round_to_near [where ?e0.0 = "7" and n = "5000700727256564"]) simp_all

lemma sv_122: "fl32 (1250175181814141 / 8796093022208) = 9314531 / 65536"
  unfolding fl32_def
  by (subst round_to_near [where ?e0.0 = "7" and n = "9314531"]) simp_all

lemma sv_123: "fdiv (13522261 / 131072) (9314531 / 65536) = 6538047873887219 / 9007199254740992"
  unfolding fdiv_def fl64_def
  by (subst round_to_near [where ?e0.0 = "- 1" and n = "6538047873887219"]) simp_all

lemma sv_124: "fl32 (6538047873887219 / 9007199254740992) = 12178063 / 16777216"
  unfolding fl32_def
  by (subst round_to_near [where ?e0.0 = "- 1" and n = "12178063"]) simp_all

lemma sv_125: "fdiv (9314531 / 65536) (9314531 / 65536) = 1"
  unfolding fdiv_def fl64_def
  by (subst round_to_near [where ?e0.0 = "0" and n = "4503599627370496"]) simp_all

lemma sv_126: "fdiv 1 (9314531 / 65536) = 2027956741083215 / 288230376151711744"
  unfolding fdiv_def fl64_def
  by (subst round_to_near [where ?e0.0 = "- 8" and n = "8111826964332860"]) simp_all

lemma sv_127: "fl32 (2027956741083215 / 288230376151711744) = 15109455 / 2147483648"
  unfolding fl32_def
  by (subst round_to_near [where ?e0.0 = "- 8" and n = "15109455"]) simp_all

lemmas sieve_flops =
  sv_1 sv_2 sv_3 sv_4 sv_5 sv_6 sv_7 sv_8
  sv_9 sv_10 sv_11 sv_12 sv_13 sv_14 sv_15 sv_16
  sv_17 sv_18 sv_19 sv_20 sv_21 sv_22 sv_23 sv_24
  sv_25 sv_26 sv_27 sv_28 sv_29 sv_30 sv_31 sv_32
  sv_33 sv_34 sv_35 sv_36 sv_37 sv_38 sv_39 sv_40
  sv_41 sv_42 sv_43 sv_44 sv_45 sv_46 sv_47 sv_48
  sv_49 sv_50 sv_51 sv_52 sv_53 sv_54 sv_55 sv_56
  sv_57 sv_58 sv_59 sv_60 sv_61 sv_62 sv_63 sv_64
  sv_65 sv_66 sv_67 sv_68 sv_69 sv_70 sv_71 sv_72
  sv_73 sv_74 sv_75 sv_76 sv_77 sv_78 sv_79 sv_80
  sv_81 sv_82 sv_83 sv_84 sv_85 sv_86 sv_87 sv_88
  sv_89 sv_90 sv_91 sv_92 sv_93 sv_94 sv_95 sv_96
  sv_97 sv_98 sv_99 sv_100 sv_101 sv_102 sv_103 sv_104
  sv_105 sv_106 sv_107 sv_108 sv_109 sv_110 sv_111 sv_112
  sv_113 sv_114 sv_115 sv_116 sv_117 sv_118 sv_119 sv_120
  sv_121 sv_122 sv_123 sv_124 sv_125 sv_126 sv_127

lemma c03_val: "c03 = 5404319552844595 / 18014398509481984"
  by (simp add: c03_def sieve_flops)


lemma upt_4: "[0..<4] = [0, 1, 2, 3]"
  by (simp add: upt_rec)

lemma upt_orders: "[2..<Suc 6] = [2, 3, 4, 5, 6]"
  by (simp add: upt_rec)


lemma harmonic_0_2: "harmonic 48 2 = 60"
  by (simp add: harmonic_def Math_log2_def sieve_flops)

lemma harmonic_0_3: "harmonic 48 3 = 1179020392365281 / 17592186044416"
  by (simp add: harmonic_def Math_log2_def sieve_flops)

lemma harmonic_0_4: "harmonic 48 4 = 72"
  by (simp add: harmonic_def Math_log2_def sieve_flops)

lemma harmonic_0_5: "harmonic 48 5 = 2669196844912293 / 35184372088832"
  by (simp add: harmonic_def Math_log2_def sieve_flops)

lemma harmonic_0_6: "harmonic 48 6 = 1390126624898273 / 17592186044416"
  by (simp add: harmonic_def Math_log2_def sieve_flops)

lemma harmonic_1_2: "harmonic 60 2 = 72"
  by (simp add: harmonic_def Math_log2_def sieve_flops)

lemma harmonic_1_3: "harmonic 60 3 = 1390126624898273 / 17592186044416"
  by (simp add: harmonic_def Math_log2_def sieve_flops)

lemma harmonic_1_4: "harmonic 60 4 = 84"
  by (simp add: harmonic_def Math_log2_def sieve_flops)

lemma harmonic_1_5: "harmonic 60 5 = 3091409309978277 / 35184372088832"
  by (simp add: harmonic_def Math_log2_def sieve_flops)

lemma harmonic_1_6: "harmonic 60 6 = 1601232857431265 / 17592186044416"
  by (simp add: harmonic_def Math_log2_def sieve_flops)

lemma harmonic_2_2: "harmonic (4392193 / 65536) 2 = 5178625 / 65536"
  by (simp add: harmonic_def Math_log2_def sieve_flops)

lemma harmonic_2_3: "harmonic (4392193 / 65536) 3 = 1513615793028321 / 17592186044416"
  by (simp add: harmonic_def Math_log2_def sieve_flops)

lemma harmonic_2_4: "harmonic (4392193 / 65536) 4 = 5965057 / 65536"
  by (simp add: harmonic_def Math_log2_def sieve_flops)

lemma harmonic_2_5: "harmonic (4392193 / 65536) 5 = 3338387646238373 / 35184372088832"
  by (simp add: harmonic_def Math_log2_def sieve_flops)

lemma harmonic_2_6: "harmonic (4392193 / 65536) 6 = 1724722025561313 / 17592186044416"
  by (simp add: harmonic_def Math_log2_def sieve_flops)

lemma harmonic_3_2: "harmonic 72 2 = 84"
  by (simp add: harmonic_def Math_log2_def sieve_flops)

lemma harmonic_3_3: "harmonic 72 3 = 1601232857431265 / 17592186044416"
  by (simp add: harmonic_def Math_log2_def sieve_flops)

lemma harmonic_3_4: "harmonic 72 4 = 96"
  by (simp add: harmonic_def Math_log2_def sieve_flops)

lemma harmonic_3_5: "harmonic 72 5 = 3513621775044261 / 35184372088832"
  by (simp add: harmonic_def Math_log2_def sieve_flops)

lemma harmonic_3_6: "harmonic 72 6 = 1812339089964257 / 17592186044416"
  by (simp add: harmonic_def Math_log2_def sieve_flops)

lemmas harmonic_tab =
  harmonic_0_2 harmonic_0_3 harmonic_0_4 harmonic_0_5 harmonic_0_6 harmonic_1_2 harmonic_1_3 harmonic_1_4
  harmonic_1_5 harmonic_1_6 harmonic_2_2 harmonic_2_3 harmonic_2_4 harmonic_2_5 harmonic_2_6 harmonic_3_2
  harmonic_3_3 harmonic_3_4 harmonic_3_5 harmonic_3_6

lemma near_0_0_2: "\<not> near 48 60"
  by (simp add: near_def sieve_flops)

lemma near_1_0_2: "near 60 60"
  by (simp add: near_def sieve_flops)

lemma near_2_0_2: "\<not> near (4392193 / 65536) 60"
  by (simp add: near_def sieve_flops)

lemma near_3_0_2: "\<not> near 72 60"
  by (simp add: near_def sieve_flops)

lemma near_0_0_3: "\<not> near 48 (1179020392365281 / 17592186044416)"
  by (simp add: near_def sieve_flops)

lemma near_1_0_3: "\<not> near 60 (1179020392365281 / 17592186044416)"
  by (simp add: near_def sieve_flops)

lemma near_2_0_3: "near (4392193 / 65536) (1179020392365281 / 17592186044416)"
  by (simp add: near_def sieve_flops)

lemma near_3_0_3: "\<not> near 72 (1179020392365281 / 17592186044416)"
  by (simp add: near_def sieve_flops)

lemma near_0_0_4: "\<not> near 48 72"
  by (simp add: near_def sieve_flops)

lemma near_1_0_4: "\<not> near 60 72"
  by (simp add: near_def sieve_flops)

lemma near_2_0_4: "\<not> near (4392193 / 65536) 72"
  by (simp add: near_def sieve_flops)

lemma near_3_0_4: "near 72 72"
  by (simp add: near_def sieve_flops)

lemma near_0_0_5: "\<not> near 48 (2669196844912293 / 35184372088832)"
  by (simp add: near_def sieve_flops)

lemma near_1_0_5: "\<not> near 60 (2669196844912293 / 35184372088832)"
  by (simp add: near_def sieve_flops)

lemma near_2_0_5: "\<not> near (4392193 / 65536) (2669196844912293 / 35184372088832)"
  by (simp add: near_def sieve_flops)

lemma near_3_0_5: "\<not> near 72 (2669196844912293 / 35184372088832)"
  by (simp add: near_def sieve_flops)

lemma near_0_0_6: "\<not> near 48 (1390126624898273 / 17592186044416)"
  by (simp add: near_def sieve_flops)

lemma near_1_0_6: "\<not> near 60 (1390126624898273 / 17592186044416)"
  by (simp add: near_def sieve_flops)

lemma near_2_0_6: "\<not> near (4392193 / 65536) (1390126624898273 / 17592186044416)"
  by (simp add: near_def sieve_flops)

lemma near_3_0_6: "\<not> near 72 (1390126624898273 / 17592186044416)"
  by (simp add: near_def sieve_flops)

lemma near_0_1_2: "\<not> near 48 72"
  by (simp add: near_def sieve_flops)

lemma near_1_1_2: "\<not> near 60 72"
  by (simp add: near_def sieve_flops)

lemma near_2_1_2: "\<not> near (4392193 / 65536) 72"
  by (simp add: near_def sieve_flops)

lemma near_3_1_2: "near 72 72"
  by (simp add: near_def sieve_flops)

lemma near_0_1_3: "\<not> near 48 (1390126624898273 / 17592186044416)"
  by (simp add: near_def sieve_flops)

lemma near_1_1_3: "\<not> near 60 (1390126624898273 / 17592186044416)"
  by (simp add: near_def sieve_flops)

lemma near_2_1_3: "\<not> near (4392193 / 65536) (1390126624898273 / 17592186044416)"
  by (simp add: near_def sieve_flops)

lemma near_3_1_3: "\<not> near 72 (1390126624898273 / 17592186044416)"
  by (simp add: near_def sieve_flops)

lemma near_0_1_4: "\<not> near 48 84"
  by (simp add: near_def sieve_flops)

lemma near_1_1_4: "\<not> near 60 84"
  by (simp add: near_def sieve_flops)

lemma near_2_1_4: "\<not> near (4392193 / 65536) 84"
  by (simp add: near_def sieve_flops)

lemma near_3_1_4: "\<not> near 72 84"
  by (simp add: near_def sieve_flops)

lemma near_0_1_5: "\<not> near 48 (3091409309978277 / 35184372088832)"
  by (simp add: near_def sieve_flops)

lemma near_1_1_5: "\<not> near 60 (3091409309978277 / 35184372088832)"
  by (simp add: near_def sieve_flops)

lemma near_2_1_5: "\<not> near (4392193 / 65536) (3091409309978277 / 35184372088832)"
  by (simp add: near_def sieve_flops)

lemma near_3_1_5: "\<not> near 72 (3091409309978277 / 35184372088832)"
  by (simp add: near_def sieve_flops)

lemma near_0_1_6: "\<not> near 48 (1601232857431265 / 17592186044416)"
  by (simp add: near_def sieve_flops)

lemma near_1_1_6: "\<not> near 60 (1601232857431265 / 17592186044416)"
  by (simp add: near_def sieve_flops)

lemma near_2_1_6: "\<not> near (4392193 / 65536) (1601232857431265 / 17592186044416)"
  by (simp add: near_def sieve_flops)

lemma near_3_1_6: "\<not> near 72 (1601232857431265 / 17592186044416)"
  by (simp add: near_def sieve_flops)

lemma near_0_2_2: "\<not> near 48 (5178625 / 65536)"
  by (simp add: near_def sieve_flops)

lemma near_1_2_2: "\<not> near 60 (5178625 / 65536)"
  by (simp add: near_def sieve_flops)

lemma near_2_2_2: "\<not> near (4392193 / 65536) (5178625 / 65536)"
  by (simp add: near_def sieve_flops)

lemma near_3_2_2: "\<not> near 72 (5178625 / 65536)"
  by (simp add: near_def sieve_flops)

lemma near_0_2_3: "\<not> near 48 (1513615793028321 / 17592186044416)"
  by (simp add: near_def sieve_flops)

lemma near_1_2_3: "\<not> near 60 (1513615793028321 / 17592186044416)"
  by (simp add: near_def sieve_flops)

lemma near_2_2_3: "\<not> near (4392193 / 65536) (1513615793028321 / 17592186044416)"
  by (simp add: near_def sieve_flops)

lemma near_3_2_3: "\<not> near 72 (1513615793028321 / 17592186044416)"
  by (simp add: near_def sieve_flops)

lemma near_0_2_4: "\<not> near 48 (5965057 / 65536)"
  by (simp add: near_def sieve_flops)

lemma near_1_2_4: "\<not> near 60 (5965057 / 65536)"
  by (simp add: near_def sieve_flops)

lemma near_2_2_4: "\<not> near (4392193 / 65536) (5965057 / 65536)"
  by (simp add: near_def sieve_flops)

lemma near_3_2_4: "\<not> near 72 (5965057 / 65536)"
  by (simp add: near_def sieve_flops)

lemma near_0_2_5: "\<not> near 48 (3338387646238373 / 35184372088832)"
  by (simp add: near_def sieve_flops)

lemma near_1_2_5: "\<not> near 60 (3338387646238373 / 35184372088832)"
  by (simp add: near_def sieve_flops)

lemma near_2_2_5: "\<not> near (4392193 / 65536) (3338387646238373 / 35184372088832)"
  by (simp add: near_def sieve_flops)

lemma near_3_2_5: "\<not> near 72 (3338387646238373 / 35184372088832)"
  by (simp add: near_def sieve_flops)

lemma near_0_2_6: "\<not> near 48 (1724722025561313 / 17592186044416)"
  by (simp add: near_def sieve_flops)

lemma near_1_2_6: "\<not> near 60 (1724722025561313 / 17592186044416)"
  by (simp add: near_def sieve_flops)

lemma near_2_2_6: "\<not> near (4392193 / 65536) (1724722025561313 / 17592186044416)"
  by (simp add: near_def sieve_flops)

lemma near_3_2_6: "\<not> near 72 (1724722025561313 / 17592186044416)"
  by (simp add: near_def sieve_flops)

lemma near_0_3_2: "\<not> near 48 84"
  by (simp add: near_def sieve_flops)

lemma near_1_3_2: "\<not> near 60 84"
  by (simp add: near_def sieve_flops)

lemma near_2_3_2: "\<not> near (4392193 / 65536) 84"
  by (simp add: near_def sieve_flops)

lemma near_3_3_2: "\<not> near 72 84"
  by (simp add: near_def sieve_flops)

lemma near_0_3_3: "\<not> near 48 (1601232857431265 / 17592186044416)"
  by (simp add: near_def sieve_flops)

lemma near_1_3_3: "\<not> near 60 (1601232857431265 / 17592186044416)"
  by (simp add: near_def sieve_flops)

lemma near_2_3_3: "\<not> near (4392193 / 65536) (1601232857431265 / 17592186044416)"
  by (simp add: near_def sieve_flops)

lemma near_3_3_3: "\<not> near 72 (1601232857431265 / 17592186044416)"
  by (simp add: near_def sieve_flops)

lemma near_0_3_4: "\<not> near 48 96"
  by (simp add: near_def sieve_flops)

lemma near_1_3_4: "\<not> near 60 96"
  by (simp add: near_def sieve_flops)

lemma near_2_3_4: "\<not> near (4392193 / 65536) 96"
  by (simp add: near_def sieve_flops)

lemma near_3_3_4: "\<not> near 72 96"
  by (simp add: near_def sieve_flops)

lemma near_0_3_5: "\<not> near 48 (3513621775044261 / 35184372088832)"
  by (simp add: near_def sieve_flops)

lemma near_1_3_5: "\<not> near 60 (3513621775044261 / 35184372088832)"
  by (simp add: near_def sieve_flops)

lemma near_2_3_5: "\<not> near (4392193 / 65536) (3513621775044261 / 35184372088832)"
  by (simp add: near_def sieve_flops)

lemma near_3_3_5: "\<not> near 72 (3513621775044261 / 35184372088832)"
  by (simp add: near_def sieve_flops)

lemma near_0_3_6: "\<not> near 48 (1812339089964257 / 17592186044416)"
  by (simp add: near_def sieve_flops)

lemma near_1_3_6: "\<not> near 60 (1812339089964257 / 17592186044416)"
  by (simp add: near_def sieve_flops)

lemma near_2_3_6: "\<not> near (4392193 / 65536) (1812339089964257 / 17592186044416)"
  by (simp add: near_def sieve_flops)

lemma near_3_3_6: "\<not> near 72 (1812339089964257 / 17592186044416)"
  by (simp add: near_def sieve_flops)

lemmas near_tab =
  near_0_0_2 near_1_0_2 near_2_0_2 near_3_0_2 near_0_0_3 near_1_0_3 near_2_0_3 near_3_0_3
  near_0_0_4 near_1_0_4 near_2_0_4 near_3_0_4 near_0_0_5 near_1_0_5 near_2_0_5 near_3_0_5
  near_0_0_6 near_1_0_6 near_2_0_6 near_3_0_6 near_0_1_2 near_1_1_2 near_2_1_2 near_3_1_2
  near_0_1_3 near_1_1_3 near_2_1_3 near_3_1_3 near_0_1_4 near_1_1_4 near_2_1_4 near_3_1_4
  near_0_1_5 near_1_1_5 near_2_1_5 near_3_1_5 near_0_1_6 near_1_1_6 near_2_1_6 near_3_1_6
  near_0_2_2 near_1_2_2 near_2_2_2 near_3_2_2 near_0_2_3 near_1_2_3 near_2_2_3 near_3_2_3
  near_0_2_4 near_1_2_4 near_2_2_4 near_3_2_4 near_0_2_5 near_1_2_5 near_2_2_5 near_3_2_5
  near_0_2_6 near_1_2_6 near_2_2_6 near_3_2_6 near_0_3_2 near_1_3_2 near_2_3_2 near_3_3_2
  near_0_3_3 near_1_3_3 near_2_3_3 near_3_3_3 near_0_3_4 near_1_3_4 near_2_3_4 near_3_3_4
  near_0_3_5 near_1_3_5 near_2_3_5 near_3_3_5 near_0_3_6 near_1_3_6 near_2_3_6 near_3_3_6







lemma mark_harmonics_flat_1: "mark_harmonics 6 [48, 60, 4392193 / 65536, 72] 48 [True, False, False, False] = [True, True, True, True]"
  by (simp add: mark_harmonics_def upt_4 upt_orders harmonic_tab near_tab)

lemma pick_best_flat_2: "pick_best [1, 2135391 / 4194304, 1006633 / 4194304, 1006633 / 4194304] [True, True, True, True] = None"
  by (simp add: pick_best_def upt_4 c03_val)



















end
